(* ===== verification/Prelude.thy ===== *)
theory Prelude
  imports Complex_Main "HOL-Library.Sublist" "HOL-Library.Multiset"
begin

text \<open>
  Shared vocabulary of the USAT/PLADIF model (\<open>src/src/attrakdiff.py\<close>):
  the Python exceptions the pipeline can raise, as one datatype; pandas data
  frames as a record of a row count and an ordered list of labelled columns;
  Python dictionaries (which keep insertion order) as association lists;
  Python's substring test \<open>p in s\<close>; pandas' NaN-skipping mean.
  NaN cells are \<open>None\<close> in a \<open>real option\<close>; numbers are exact reals
  (floating-point rounding is not modelled).
\<close>

named_theorems frame_simps "evaluation rules of the data-frame helpers"

section \<open>Errors\<close>

text \<open>
  Each constructor is one exception the code raises (directly or inside
  pandas/scipy):
  \<^item> \<open>NoURLColumn\<close>: the \<open>ValueError\<close> of \<open>loadCSV\<close> when \<open>get_loc("URL")\<close> fails;
  \<^item> \<open>BadColumnCount s l\<close>: the \<open>ValueError\<close> of \<open>loadCSV\<close> on a wrong column
    count; its message carries the two expected sizes \<open>s\<close>, \<open>l\<close> only;
  \<^item> \<open>ConfidenceRange\<close>: scipy's \<open>ValueError\<close> for a confidence outside [0,1];
  \<^item> \<open>DuplicateLabels\<close>: pandas' \<open>ValueError\<close> "cannot reindex on an axis
    with duplicate labels";
  \<^item> \<open>TypeErr\<close>: a \<open>TypeError\<close> (arithmetic on a text cell, or \<open>sorted\<close>
    comparing \<open>None\<close>);
  \<^item> \<open>KeyErr ks\<close>: a \<open>KeyError\<close> for the missing labels \<open>ks\<close>;
  \<^item> \<open>StopIter\<close>: \<open>next(iter(datas))\<close> on an empty dictionary;
  \<^item> \<open>FileNotFound p\<close>: \<open>open(p)\<close> on a file that does not exist.
\<close>

datatype py_error =
    NoURLColumn
  | BadColumnCount nat nat
  | ConfidenceRange
  | DuplicateLabels
  | TypeErr
  | KeyErr "string list"
  | StopIter
  | FileNotFound string

section \<open>Dictionaries and data frames\<close>

text \<open>A Python \<open>dict\<close> keyed by strings, in insertion order.\<close>

type_synonym 'a odict = "(string \<times> 'a) list"

text \<open>
  A pandas \<open>DataFrame\<close>: the length of its index and its columns, each a label
  and the column's values, in column order.
\<close>

record 'a frame =
  nrows :: nat
  cols :: "(string \<times> 'a list) list"

definition columns :: "'a frame \<Rightarrow> string list" where
  "columns f = map fst (cols f)"

text \<open>Every column has one value per row (what \<open>read_csv\<close> guarantees).\<close>

definition wf_frame :: "'a frame \<Rightarrow> bool" where
  "wf_frame f \<longleftrightarrow> list_all (\<lambda>c. length (snd c) = nrows f) (cols f)"

text \<open>
  A dictionary built by a comprehension \<open>{k: v for ...}\<close>: a key seen again
  keeps its first position and takes the new value.
\<close>

fun dict_insert :: "string \<Rightarrow> 'a \<Rightarrow> 'a odict \<Rightarrow> 'a odict" where
  "dict_insert k v [] = [(k, v)]"
| "dict_insert k v ((k', v') # d) =
     (if k = k' then (k, v) # d else (k', v') # dict_insert k v d)"

definition py_dict :: "(string \<times> 'a) list \<Rightarrow> 'a odict" where
  "py_dict kvs = fold (\<lambda>(k, v) d. dict_insert k v d) kvs []"

text \<open>All cells of a frame.\<close>

definition frame_values :: "'a frame \<Rightarrow> 'a set" where
  "frame_values f = (\<Union>c\<in>set (cols f). set (snd c))"

text \<open>\<open>d[k]\<close> on a dictionary: the first entry with that key, or \<open>KeyError\<close>.\<close>

definition dict_get :: "'a odict \<Rightarrow> string \<Rightarrow> py_error + 'a" where
  "dict_get d k = (case map_of d k of None \<Rightarrow> Inl (KeyErr [k]) | Some v \<Rightarrow> Inr v)"

text \<open>
  \<open>df[ks]\<close> with a list of labels: a \<open>KeyError\<close> naming every missing label,
  else the frame of these columns in the order of \<open>ks\<close>.
\<close>

definition select :: "'a frame \<Rightarrow> string list \<Rightarrow> py_error + 'a frame" where
  "select f ks =
     (let missing = filter (\<lambda>k. k \<notin> set (columns f)) ks in
      if missing \<noteq> [] then Inl (KeyErr missing)
      else Inr (f\<lparr>cols := map (\<lambda>k. (k, the (map_of (cols f) k))) ks\<rparr>))"

text \<open>
  A Python loop or comprehension that evaluates \<open>f\<close> on each element and stops
  at the first exception.
\<close>

fun try_map :: "('a \<Rightarrow> py_error + 'b) \<Rightarrow> 'a list \<Rightarrow> py_error + 'b list" where
  "try_map f [] = Inr []"
| "try_map f (x # xs) =
     (case f x of
        Inl e \<Rightarrow> Inl e
      | Inr y \<Rightarrow> (case try_map f xs of Inl e \<Rightarrow> Inl e | Inr ys \<Rightarrow> Inr (y # ys)))"

section \<open>Strings\<close>

text \<open>Python's \<open>p in s\<close> on strings: \<open>p\<close> occurs in \<open>s\<close> as a contiguous substring.\<close>

fun py_in :: "string \<Rightarrow> string \<Rightarrow> bool" where
  "py_in p [] \<longleftrightarrow> p = []"
| "py_in p (c # s) \<longleftrightarrow> prefix p (c # s) \<or> py_in p s"

section \<open>Means with NaN\<close>

text \<open>The non-NaN values of a column (pandas' \<open>dropna\<close>, also what \<open>stack\<close> keeps).\<close>

fun dropna :: "real option list \<Rightarrow> real list" where
  "dropna [] = []"
| "dropna (None # xs) = dropna xs"
| "dropna (Some x # xs) = x # dropna xs"

text \<open>numpy's mean of a list without NaN: NaN (\<open>None\<close>) when empty.\<close>

definition mean :: "real list \<Rightarrow> real option" where
  "mean xs = (if xs = [] then None else Some (sum_list xs / real (length xs)))"

text \<open>pandas' \<open>Series.mean()\<close>: NaN values are skipped.\<close>

definition mean_skipna :: "real option list \<Rightarrow> real option" where
  "mean_skipna xs = mean (dropna xs)"

section \<open>Lemmas\<close>

subsection \<open>try_map\<close>

lemma try_map_Inr_iff:
  "try_map f xs = Inr ys \<longleftrightarrow> list_all2 (\<lambda>x y. f x = Inr y) xs ys"
proof (induction xs arbitrary: ys)
  case Nil
  then show ?case by auto
next
  case (Cons x xs)
  show ?case
    by (cases ys) (auto simp: Cons.IH [symmetric] split: sum.splits)
qed

lemma try_map_map [intro]:
  "(\<And>x. x \<in> set xs \<Longrightarrow> f x = Inr (g x)) \<Longrightarrow> try_map f xs = Inr (map g xs)"
  by (induction xs) auto

lemma try_map_length: "try_map f xs = Inr ys \<Longrightarrow> length ys = length xs"
  by (simp add: try_map_Inr_iff list_all2_lengthD)

lemma try_map_Inl:
  "x \<in> set xs \<Longrightarrow> f x = Inl e \<Longrightarrow> \<exists>e'. try_map f xs = Inl e'"
  by (induction xs) (auto split: sum.splits)

lemma try_map_Inl_ex: "try_map f xs = Inl e \<Longrightarrow> \<exists>x\<in>set xs. f x = Inl e"
  by (induction xs) (auto split: sum.splits)

lemma try_map_first_error:
  "\<forall>y\<in>set ys. \<exists>v. f y = Inr v \<Longrightarrow> f x = Inl e \<Longrightarrow>
   try_map f (ys @ x # zs) = Inl e"
  by (induction ys) auto

lemma try_map_nth:
  "try_map f xs = Inr ys \<Longrightarrow> i < length xs \<Longrightarrow> f (xs ! i) = Inr (ys ! i)"
  by (simp add: try_map_Inr_iff list_all2_conv_all_nth)

subsection \<open>Frames and dictionaries\<close>

lemma dict_insert_new: "k \<notin> set (map fst d) \<Longrightarrow> dict_insert k v d = d @ [(k, v)]"
  by (induction d) auto

lemma fold_dict_insert_distinct:
  "distinct (map fst (d @ kvs)) \<Longrightarrow> fold (\<lambda>(k, v) d. dict_insert k v d) kvs d = d @ kvs"
proof (induction kvs arbitrary: d)
  case Nil
  then show ?case by simp
next
  case (Cons kv kvs)
  obtain k v where kv: "kv = (k, v)" by fastforce
  with Cons.prems have "dict_insert k v d = d @ [(k, v)]"
    by (intro dict_insert_new) auto
  with Cons.IH [of "d @ [(k, v)]"] Cons.prems kv show ?case by simp
qed

lemma map_fst_dict_insert:
  "map fst (dict_insert k v d) = (if k \<in> set (map fst d) then map fst d else map fst d @ [k])"
proof (induction d)
  case Nil
  then show ?case by simp
next
  case (Cons kv d)
  then show ?case by (cases kv) auto
qed

lemma distinct_fold_dict_insert:
  "distinct (map fst d) \<Longrightarrow> distinct (map fst (fold (\<lambda>(k, v) d. dict_insert k v d) kvs d))"
proof (induction kvs arbitrary: d)
  case Nil
  then show ?case by simp
next
  case (Cons kv kvs)
  obtain k v where kv: "kv = (k, v)" by fastforce
  have "distinct (map fst (dict_insert k v d))"
    using Cons.prems by (simp add: map_fst_dict_insert)
  with Cons.IH kv show ?case by simp
qed

lemma distinct_py_dict: "distinct (map fst (py_dict kvs))"
  using distinct_fold_dict_insert [of "[]" kvs] by (simp add: py_dict_def)

text \<open>A comprehension over distinct keys builds exactly its list of pairs.\<close>

lemma py_dict_distinct: "distinct (map fst kvs) \<Longrightarrow> py_dict kvs = kvs"
  using fold_dict_insert_distinct [of "[]" kvs] by (simp add: py_dict_def)

lemma dict_get_Inr [frame_simps]: "map_of d k = Some v \<Longrightarrow> dict_get d k = Inr v"
  by (simp add: dict_get_def)

lemma dict_get_Inl [frame_simps]: "map_of d k = None \<Longrightarrow> dict_get d k = Inl (KeyErr [k])"
  by (simp add: dict_get_def)

lemma select_ok [frame_simps]:
  "set ks \<subseteq> set (columns f) \<Longrightarrow>
   select f ks = Inr (f\<lparr>cols := map (\<lambda>k. (k, the (map_of (cols f) k))) ks\<rparr>)"
  by (auto simp: select_def filter_empty_conv)

lemma select_missing [frame_simps]:
  "\<not> set ks \<subseteq> set (columns f) \<Longrightarrow>
   select f ks = Inl (KeyErr (filter (\<lambda>k. k \<notin> set (columns f)) ks))"
  by (auto simp: select_def filter_empty_conv)

lemma columns_select:
  "select f ks = Inr g \<Longrightarrow> columns g = ks \<and> nrows g = nrows f"
  by (auto simp: select_def columns_def comp_def split: if_splits)

lemma map_of_in_columns:
  assumes "k \<in> set (columns f)"
  shows "(k, the (map_of (cols f) k)) \<in> set (cols f)"
proof -
  from assms have "map_of (cols f) k \<noteq> None"
    by (simp add: columns_def map_of_eq_None_iff)
  then obtain v where "map_of (cols f) k = Some v" by blast
  then show ?thesis by (simp add: map_of_SomeD)
qed

lemma wf_frame_select:
  assumes "wf_frame f" and "select f ks = Inr g"
  shows "wf_frame g"
proof -
  from assms(2) have ks: "set ks \<subseteq> set (columns f)"
    and g: "g = f\<lparr>cols := map (\<lambda>k. (k, the (map_of (cols f) k))) ks\<rparr>"
    by (auto simp: select_def filter_empty_conv split: if_splits)
  have "length (the (map_of (cols f) k)) = nrows f" if "k \<in> set ks" for k
  proof -
    from that ks have "(k, the (map_of (cols f) k)) \<in> set (cols f)"
      by (intro map_of_in_columns) auto
    with assms(1) show ?thesis by (fastforce simp: wf_frame_def list_all_iff)
  qed
  then show ?thesis by (simp add: g wf_frame_def list_all_iff)
qed

lemma wf_frame_subset:
  assumes "wf_frame f" and "nrows g = nrows f" and "set (map snd (cols g)) \<subseteq> set (map snd (cols f))"
  shows "wf_frame g"
  using assms by (fastforce simp: wf_frame_def list_all_iff)

lemma map_of_filter_fst:
  "map_of (filter (\<lambda>c. fst c \<in> S) xs) k = (if k \<in> S then map_of xs k else None)"
  by (induction xs) auto

text \<open>An association list with unique keys is determined by its keys and its lookups.\<close>

lemma alist_eqI:
  assumes "map fst xs = map fst ys" and "map_of xs = map_of ys" and "distinct (map fst xs)"
  shows "xs = ys"
  using assms
proof (induction xs arbitrary: ys)
  case Nil
  then show ?case by simp
next
  case (Cons x xs)
  then obtain y ys' where ys: "ys = y # ys'" and k: "fst y = fst x"
    by (cases ys) auto
  from Cons.prems(2) ys k have "snd y = snd x"
    by (metis fun_upd_same map_of.simps(2) option.inject)
  with k have xy: "x = y" by (simp add: prod_eq_iff)
  have "map_of xs = map_of ys'"
  proof
    fix a
    show "map_of xs a = map_of ys' a"
    proof (cases "a = fst x")
      case True
      have keys: "map fst xs = map fst ys'" using Cons.prems(1) ys by simp
      from Cons.prems(3) True have "a \<notin> set (map fst xs)" by simp
      moreover have "set (map fst xs) = set (map fst ys')" by (simp only: keys)
      ultimately have "map_of xs a = None" and "map_of ys' a = None"
        by (simp_all add: map_of_eq_None_iff)
      then show ?thesis by simp
    next
      case False
      with Cons.prems(2) ys xy show ?thesis
        by (metis fun_upd_other map_of.simps(2))
    qed
  qed
  with Cons.IH [of ys'] Cons.prems(1,3) ys xy show ?case by simp
qed

subsection \<open>Substrings\<close>

lemma py_in_iff_sublist: "py_in p s \<longleftrightarrow> sublist p s"
  by (induction s) (auto simp: sublist_Cons_right)

lemma py_in_single: "py_in [c] s \<longleftrightarrow> c \<in> set s"
  by (induction s) auto

subsection \<open>Means\<close>

lemma dropna_append [simp]: "dropna (xs @ ys) = dropna xs @ dropna ys"
  by (induction xs rule: dropna.induct) auto

lemma dropna_map_Some [simp]: "dropna (map Some xs) = xs"
  by (induction xs) auto

lemma set_dropna: "x \<in> set (dropna xs) \<longleftrightarrow> Some x \<in> set xs"
  by (induction xs rule: dropna.induct) auto

lemma mean_Some_iff: "mean xs = Some m \<longleftrightarrow> xs \<noteq> [] \<and> m = sum_list xs / real (length xs)"
  by (auto simp: mean_def)

lemma mean_None_iff [simp]: "mean xs = None \<longleftrightarrow> xs = []"
  by (simp add: mean_def)

lemma mean_mset: "mset xs = mset ys \<Longrightarrow> mean xs = mean ys"
  by (metis mean_def mset_eq_length sum_mset_sum_list mset_zero_iff)

lemma mean_replicate: "0 < n \<Longrightarrow> mean (replicate n c) = Some c"
  by (simp add: mean_def sum_list_replicate)

lemma sum_list_bounds:
  assumes "\<forall>x\<in>set xs. a \<le> x \<and> x \<le> (b::real)"
  shows "real (length xs) * a \<le> sum_list xs \<and> sum_list xs \<le> real (length xs) * b"
  using assms by (induction xs) (auto simp: algebra_simps)

lemma mean_bounds:
  assumes "\<forall>x\<in>set xs. a \<le> x \<and> x \<le> (b::real)" and "mean xs = Some m"
  shows "a \<le> m \<and> m \<le> b"
proof -
  from assms(2) have ne: "xs \<noteq> []" and m: "m = sum_list xs / real (length xs)"
    by (auto simp: mean_Some_iff)
  then have pos: "0 < real (length xs)" by simp
  from sum_list_bounds [OF assms(1)] pos show ?thesis
    by (simp add: m pos_le_divide_eq pos_divide_le_eq mult.commute)
qed

lemma mean_skipna_bounds:
  assumes "\<forall>x. Some x \<in> set xs \<longrightarrow> a \<le> x \<and> x \<le> (b::real)" and "mean_skipna xs = Some m"
  shows "a \<le> m \<and> m \<le> b"
  using assms mean_bounds [of "dropna xs" a b m] by (simp add: mean_skipna_def set_dropna)

subsection \<open>More on dictionaries, comprehensions and means\<close>

lemma map_fst_map_pair [simp]: "map fst (map (\<lambda>(a, b). (a, f a b)) xs) = map fst xs"
  by (induction xs) auto

lemma set_py_dict: "set (py_dict kvs) \<subseteq> set kvs"
proof -
  have ins: "set (dict_insert k v d) \<subseteq> insert (k, v) (set d)" for k v and d :: "'a odict"
    by (induction k v d rule: dict_insert.induct) auto
  have "set (fold (\<lambda>(k, v) d. dict_insert k v d) kvs d) \<subseteq> set d \<union> set kvs" for d :: "'a odict"
  proof (induction kvs arbitrary: d)
    case Nil
    then show ?case by simp
  next
    case (Cons kv kvs)
    obtain k v where kv: "kv = (k, v)" by fastforce
    from Cons.IH [of "dict_insert k v d"] ins [of k v d] show ?case by (auto simp: kv)
  qed
  from this [of "[]"] show ?thesis by (simp add: py_dict_def)
qed

lemma try_map_Inr_set:
  "try_map f xs = Inr ys \<Longrightarrow> y \<in> set ys \<Longrightarrow> \<exists>x\<in>set xs. f x = Inr y"
  by (fastforce simp: try_map_Inr_iff list_all2_conv_all_nth in_set_conv_nth)

lemma dropna_no_None: "None \<notin> set xs \<Longrightarrow> map Some (dropna xs) = xs"
  by (induction xs rule: dropna.induct) auto

lemma mean_of_means:
  assumes "\<forall>xs\<in>set xss. length xs = n" and "0 < n"
  shows "mean (map (\<lambda>xs. sum_list xs / real n) xss) = mean (concat xss)"
proof (cases "xss = []")
  case True
  then show ?thesis by simp
next
  case False
  have len: "length (concat xss) = length xss * n"
    using assms(1) by (induction xss) auto
  have sum: "sum_list (map (\<lambda>xs. sum_list xs / real n) xss) = sum_list (concat xss) / real n"
    by (induction xss) (auto simp: add_divide_distrib)
  from False assms(2) have "concat xss \<noteq> []"
    using len by (metis length_0_conv mult_is_0 neq0_conv)
  with False show ?thesis
    by (simp add: mean_def sum len divide_divide_eq_left mult.commute)
qed

lemma dict_get_columns:
  "k \<in> set (columns f) \<Longrightarrow> dict_get (cols f) k = Inr (the (map_of (cols f) k))"
  by (auto simp: dict_get_def columns_def map_of_eq_None_iff split: option.splits)

lemma sum_list_filter_count:
  "sum_list (map (\<lambda>c. if P c then 1 else 0) cs) = length (filter P cs)"
  by (induction cs) auto

lemma sum_list_filters_partition:
  "\<forall>x\<in>set xs. length (filter (\<lambda>c. P c x) cs) = 1 \<Longrightarrow>
   sum_list (map (\<lambda>c. length (filter (P c) xs)) cs) = length xs"
proof (induction xs)
  case Nil
  then show ?case by (induction cs) auto
next
  case (Cons x xs)
  have "(\<lambda>c. length (filter (P c) (x # xs))) = (\<lambda>c. (if P c x then 1 else 0) + length (filter (P c) xs))"
    by auto
  then have "sum_list (map (\<lambda>c. length (filter (P c) (x # xs))) cs) =
        sum_list (map (\<lambda>c. if P c x then 1 else 0) cs) + sum_list (map (\<lambda>c. length (filter (P c) xs)) cs)"
    by (simp only: sum_list_addf)
  with Cons show ?case by (simp add: sum_list_filter_count)
qed

lemma try_map_Inr_ex:
  "\<forall>x\<in>set xs. \<exists>y. f x = Inr y \<Longrightarrow> \<exists>ys. try_map f xs = Inr ys"
  by (induction xs) auto

lemma mset_concat_map_append:
  "mset (concat (map (\<lambda>i. f i @ g i) xs)) = mset (concat (map f xs)) + mset (concat (map g xs))"
  by (induction xs) auto

lemma keys_py_dict: "fst ` set (py_dict kvs) = fst ` set kvs"
proof -
  have "set (map fst (fold (\<lambda>(k, v) d. dict_insert k v d) kvs d)) = set (map fst d) \<union> set (map fst kvs)"
    for d :: "'a odict"
  proof (induction kvs arbitrary: d)
    case Nil
    then show ?case by simp
  next
    case (Cons kv kvs)
    obtain k v where kv: "kv = (k, v)" by fastforce
    show ?case using Cons.IH [of "dict_insert k v d"] by (auto simp: kv map_fst_dict_insert)
  qed
  from this [of "[]"] show ?thesis by (simp add: py_dict_def)
qed

lemma select_Inr_subset: "select f ks = Inr g \<Longrightarrow> set ks \<subseteq> set (columns f)"
  by (auto simp: select_def filter_empty_conv split: if_splits)

subsection \<open>Dictionary comprehensions as maps\<close>

lemma map_of_dict_insert: "map_of (dict_insert k v d) = (map_of d)(k \<mapsto> v)"
  by (induction d) (auto simp: fun_eq_iff)

lemma map_of_fold_dict_insert:
  "map_of (fold (\<lambda>(k, v) d. dict_insert k v d) kvs d) = map_of d ++ map_of (rev kvs)"
proof (induction kvs arbitrary: d)
  case Nil
  then show ?case by simp
next
  case (Cons kv kvs)
  obtain k v where kv: "kv = (k, v)" by fastforce
  show ?case using Cons.IH [of "dict_insert k v d"]
    by (simp add: kv map_of_dict_insert map_add_upd_left map_of_append fun_eq_iff map_add_def
             split: option.splits)
qed

text \<open>Keeping the first position of every key: what \<open>dict_insert\<close> does to the keys.\<close>

lemma keys_fold_dict_insert:
  "map fst (fold (\<lambda>(k, v) d. dict_insert k v d) kvs d) =
   fold (\<lambda>k ks. if k \<in> set ks then ks else ks @ [k]) (map fst kvs) (map fst d)"
proof (induction kvs arbitrary: d)
  case Nil
  then show ?case by simp
next
  case (Cons kv kvs)
  obtain k v where kv: "kv = (k, v)" by fastforce
  show ?case using Cons.IH [of "dict_insert k v d"] by (simp add: kv map_fst_dict_insert)
qed

lemma remdups_append_mem: "x \<in> set ys \<Longrightarrow> remdups (xs @ x # ys) = remdups (xs @ ys)"
  by (induction xs) auto

lemma fold_first_occurrence:
  "distinct A \<Longrightarrow> fold (\<lambda>k ks. if k \<in> set ks then ks else ks @ [k]) K A = rev (remdups (rev (A @ K)))"
proof (induction K arbitrary: A)
  case Nil
  then show ?case by (simp add: distinct_remdups_id)
next
  case (Cons x K)
  show ?case
  proof (cases "x \<in> set A")
    case True
    then show ?thesis using Cons by (simp add: remdups_append_mem)
  next
    case False
    then show ?thesis using Cons.IH [of "A @ [x]"] Cons.prems by simp
  qed
qed

section \<open>Claims\<close>

text \<open>
  A dict comprehension (\<open>py_dict\<close>) as a map: looking a key up gives the
  value of its last occurrence (a later pair overwrites an earlier one),
  a key that never occurs raises \<open>KeyError\<close>, and the keys keep the position
  of their first occurrence.
\<close>

lemma py_dict_lookup:
  "dict_get (py_dict kvs) k = (case map_of (rev kvs) k of None \<Rightarrow> Inl (KeyErr [k]) | Some v \<Rightarrow> Inr v) \<and>
   map fst (py_dict kvs) = rev (remdups (rev (map fst kvs)))"
  by (simp add: py_dict_def dict_get_def map_of_fold_dict_insert keys_fold_dict_insert fold_first_occurrence)

end
