(* ===== verification/Schema.thy ===== *)
theory Schema
  imports Prelude
begin

text \<open>
  The static tables that \<open>attrakdiff.py\<close> imports from \<open>naming\<close>: the raw column
  names of the short and long Usabilla exports (\<open>order_short\<close>, \<open>order_long\<close>;
  a trailing \<open>*\<close> marks a word pair whose scale is reversed), the category
  names (\<open>categories\<close>) and the canonical word-pair keys in the order of the
  dictionary \<open>pairs\<close> (\<open>pair_keys\<close>) and the languages in which the label
  tables of \<open>naming\<close> (\<open>pairs\<close>, \<open>titles\<close>, \<open>QPQH\<close>, the plot titles) give
  their texts (\<open>pair_langs\<close>; the tables are taken to share their languages,
  and the texts themselves are only drawn). \<open>naming.py\<close> is not part of the
  sources, so the tables are a parameter of every operation and every
  theorem is stated for any schema;
  \<open>usabilla\<close> is a concrete schema with the standard AttrakDiff keys, used by
  the witnesses.
\<close>

record schema =
  order_short :: "string list"
  order_long :: "string list"
  categories :: "string list"
  pair_keys :: "string list"
  pair_langs :: "string list"

text \<open>The 28 canonical keys, in the category order QP, QHI, QHS, ATT.\<close>

definition usabilla_pairs :: "string list" where
  "usabilla_pairs =
     [''QP1'', ''QP2'', ''QP3'', ''QP4'', ''QP5'', ''QP6'', ''QP7'',
      ''QHI1'', ''QHI2'', ''QHI3'', ''QHI4'', ''QHI5'', ''QHI6'', ''QHI7'',
      ''QHS1'', ''QHS2'', ''QHS3'', ''QHS4'', ''QHS5'', ''QHS6'', ''QHS7'',
      ''ATT1'', ''ATT2'', ''ATT3'', ''ATT4'', ''ATT5'', ''ATT6'', ''ATT7'']"

text \<open>The long questionnaire, in the order of the export, reversed pairs starred.\<close>

definition usabilla_long :: "string list" where
  "usabilla_long =
     [''QP1'', ''QHI1'', ''ATT1*'', ''QHS1*'', ''QP2*'', ''QHI2*'', ''ATT2'',
      ''QP3*'', ''ATT3*'', ''QP4'', ''QHI3*'', ''QP5*'', ''QHI4'', ''QHI5'',
      ''QHI6*'', ''QHI7'', ''ATT4'', ''QHS2'', ''ATT5*'', ''QP6'', ''ATT6'',
      ''QHS3*'', ''QHS4*'', ''QHS5'', ''QHS6'', ''ATT7*'', ''QHS7*'', ''QP7'']"

text \<open>The short (ten-pair) questionnaire.\<close>

definition usabilla_short :: "string list" where
  "usabilla_short =
     [''ATT2'', ''QP2*'', ''QHI3*'', ''QP3*'', ''QHI4'', ''QHS2'', ''ATT5*'',
      ''QP5*'', ''QP6'', ''QHS5'']"

definition usabilla :: schema where
  "usabilla =
     \<lparr>order_short = usabilla_short, order_long = usabilla_long,
      categories = [''QP'', ''QHI'', ''QHS'', ''ATT''], pair_keys = usabilla_pairs,
      pair_langs = [''en'', ''fr'', ''de'']\<rparr>"

lemmas usabilla_defs = usabilla_def usabilla_pairs_def usabilla_long_def usabilla_short_def

end
