(* ===== verification/Normalizer.thy ===== *)
theory Normalizer
  imports Schema "HOL-Library.Option_ord"
begin

text \<open>
  \<open>loadCSV\<close> (\<open>src/src/attrakdiff.py\<close>, lines 62--88): from the frame that
  \<open>read_csv\<close> returns (index column removed) to the normalised frame. One
  definition per step of the code: locate \<open>URL\<close> and drop it and every column
  after it; check the column count and rename positionally; rescale each
  column (\<open>4 - x\<close> for a starred column, \<open>x - 4\<close> otherwise); strip the star;
  sort the labels by their position in \<open>pairs\<close> and reindex. Every exception of
  the code is an \<open>Inl\<close> branch.
\<close>

section \<open>Cells\<close>

text \<open>
  A cell as \<open>read_csv\<close> parses it: a number, an empty cell (NaN), or text that
  is not a number (which makes the column an object column).
\<close>

datatype cell = Num real | NaN | Text string

fun is_text :: "cell \<Rightarrow> bool" where
  "is_text (Text _) = True"
| "is_text _ = False"

section \<open>The steps of loadCSV\<close>

text \<open>\<open>Tab.columns.get_loc(k)\<close>: the position of the first column labelled \<open>k\<close>.\<close>

fun get_loc :: "string list \<Rightarrow> string \<Rightarrow> nat option" where
  "get_loc [] k = None"
| "get_loc (c # cs) k = (if c = k then Some 0 else map_option Suc (get_loc cs k))"

text \<open>
  \<open>Tab.drop(columns=Tab.columns[url_index:], inplace=True)\<close>: pandas drops by
  label, so every column whose label is one of the dropped labels goes.
\<close>

definition drop_columns :: "string list \<Rightarrow> 'a frame \<Rightarrow> 'a frame" where
  "drop_columns ls f = f\<lparr>cols := filter (\<lambda>c. fst c \<notin> set ls) (cols f)\<rparr>"

text \<open>Lines 69--73: locate \<open>URL\<close> (else \<open>ValueError\<close>) and truncate there.\<close>

definition truncate_at_url :: "cell frame \<Rightarrow> py_error + cell frame" where
  "truncate_at_url tab =
     (case get_loc (columns tab) ''URL'' of
        None \<Rightarrow> Inl NoURLColumn
      | Some url_index \<Rightarrow> Inr (drop_columns (drop url_index (columns tab)) tab))"

text \<open>\<open>Tab.columns = names\<close>: positional renaming.\<close>

definition set_columns :: "string list \<Rightarrow> 'a frame \<Rightarrow> 'a frame" where
  "set_columns names f = f\<lparr>cols := zip names (map snd (cols f))\<rparr>"

text \<open>Lines 75--77: the column count must be the short or the long one.\<close>

definition rename_columns :: "schema \<Rightarrow> cell frame \<Rightarrow> py_error + cell frame" where
  "rename_columns s tab =
     (let n = length (columns tab) in
      if n \<notin> set [length (order_short s), length (order_long s)]
      then Inl (BadColumnCount (length (order_short s)) (length (order_long s)))
      else Inr (set_columns
                  (if n = length (order_short s) then order_short s else order_long s) tab))"

text \<open>The rescaling of line 81 (starred column) or line 83 (plain column).\<close>

definition normalize_value :: "string \<Rightarrow> real \<Rightarrow> real" where
  "normalize_value col x = (if py_in ''*'' col then 4 - x else x - 4)"

text \<open>
  Elementwise arithmetic \<open>g\<close> on a pandas column: a \<open>TypeError\<close> if the column
  holds text, NaN stays NaN.
\<close>

fun cell_value :: "(real \<Rightarrow> real) \<Rightarrow> cell \<Rightarrow> real option" where
  "cell_value g (Num x) = Some (g x)"
| "cell_value g NaN = None"
| "cell_value g (Text _) = None"

definition col_arith :: "(real \<Rightarrow> real) \<Rightarrow> cell list \<Rightarrow> py_error + real option list" where
  "col_arith g cs = (if list_ex is_text cs then Inl TypeErr else Inr (map (cell_value g) cs))"

definition normalize_column ::
  "string \<times> cell list \<Rightarrow> py_error + (string \<times> real option list)" where
  "normalize_column c =
     (case col_arith (normalize_value (fst c)) (snd c) of
        Inl e \<Rightarrow> Inl e
      | Inr v \<Rightarrow> Inr (fst c, v))"

text \<open>Lines 79--83: the loop over \<open>Tab.items()\<close>, column by column.\<close>

definition normalize_frame :: "cell frame \<Rightarrow> py_error + real option frame" where
  "normalize_frame tab =
     (case try_map normalize_column (cols tab) of
        Inl e \<Rightarrow> Inl e
      | Inr cs \<Rightarrow> Inr \<lparr>nrows = nrows tab, cols = cs\<rparr>)"

text \<open>Line 85: \<open>st[:-1] if '*' in st else st\<close>.\<close>

definition strip_star :: "string \<Rightarrow> string" where
  "strip_star st = (if py_in ''*'' st then butlast st else st)"

definition strip_labels :: "'a frame \<Rightarrow> 'a frame" where
  "strip_labels f = f\<lparr>cols := map (\<lambda>c. (strip_star (fst c), snd c)) (cols f)\<rparr>"

text \<open>
  Lines 86--87, first half: \<open>sorted(Tab.columns, key=d.get)\<close> with \<open>d\<close> the
  position of each key of \<open>pairs\<close>. A label that is not a key has key
  \<open>None\<close>, and \<open>sorted\<close> raises \<open>TypeError\<close> as soon as it has two
  elements to compare.
\<close>

definition sort_labels :: "string list \<Rightarrow> string list \<Rightarrow> py_error + string list" where
  "sort_labels keys ls =
     (if 2 \<le> length ls \<and> list_ex (\<lambda>l. get_loc keys l = None) ls then Inl TypeErr
      else Inr (sort_key (get_loc keys) ls))"

text \<open>
  \<open>Tab.reindex(columns=ks)\<close>: the identical label list is a no-op; otherwise
  the labels must be unique, and a label not in the frame gives a NaN column.
\<close>

definition reindex_columns ::
  "string list \<Rightarrow> real option frame \<Rightarrow> py_error + real option frame" where
  "reindex_columns ks f =
     (if ks = columns f then Inr f
      else if \<not> distinct (columns f) then Inl DuplicateLabels
      else Inr (f\<lparr>cols := map (\<lambda>k. (k, case map_of (cols f) k of
                                         Some v \<Rightarrow> v
                                       | None \<Rightarrow> replicate (nrows f) None)) ks\<rparr>))"

section \<open>loadCSV\<close>

definition loadCSV :: "schema \<Rightarrow> cell frame \<Rightarrow> py_error + real option frame" where
  "loadCSV s tab =
     (case truncate_at_url tab of
        Inl e \<Rightarrow> Inl e
      | Inr tab1 \<Rightarrow>
          (case rename_columns s tab1 of
             Inl e \<Rightarrow> Inl e
           | Inr tab2 \<Rightarrow>
               (case normalize_frame tab2 of
                  Inl e \<Rightarrow> Inl e
                | Inr tab3 \<Rightarrow>
                    (let tab4 = strip_labels tab3 in
                     case sort_labels (pair_keys s) (columns tab4) of
                       Inl e \<Rightarrow> Inl e
                     | Inr ks \<Rightarrow> reindex_columns ks tab4))))"

section \<open>Schema well-formedness\<close>

text \<open>
  What \<open>loadCSV\<close> needs of the tables of \<open>naming\<close>: the keys of \<open>pairs\<close>
  are unique (they are dictionary keys), and in each export layout the
  unstarred column names are unique keys of \<open>pairs\<close>.
\<close>

definition wf_order :: "schema \<Rightarrow> string list \<Rightarrow> bool" where
  "wf_order s names \<longleftrightarrow>
     distinct (map strip_star names) \<and> set (map strip_star names) \<subseteq> set (pair_keys s)"

definition wf_schema :: "schema \<Rightarrow> bool" where
  "wf_schema s \<longleftrightarrow>
     distinct (pair_keys s) \<and> wf_order s (order_short s) \<and> wf_order s (order_long s)"

section \<open>Sample exports\<close>

text \<open>
  Two respondents of the short questionnaire: ten rating columns \<open>Q1\<close> to
  \<open>Q10\<close>, then the \<open>URL\<close> column and a trailing column that is dropped.
\<close>

definition sample_short :: "cell frame" where
  "sample_short =
     \<lparr>nrows = 2,
      cols = [(''Q1'', [Num 7, Num 1]), (''Q2'', [Num 1, Num 4]), (''Q3'', [Num 5, Num 5]),
              (''Q4'', [Num 4, NaN]), (''Q5'', [Num 2, Num 6]), (''Q6'', [Num 3, Num 3]),
              (''Q7'', [Num 6, Num 2]), (''Q8'', [Num 4, Num 4]), (''Q9'', [Num 7, Num 7]),
              (''Q10'', [Num 1, Num 1]), (''URL'', [Text ''u1'', Text ''u2'']),
              (''Browser'', [Text ''b1'', NaN])]\<rparr>"

text \<open>The same export with one extra column before \<open>URL\<close>.\<close>

definition sample_extra :: "cell frame" where
  "sample_extra =
     \<lparr>nrows = 2,
      cols = take 10 (cols sample_short) @ (''Extra'', [Num 1, Num 2]) # drop 10 (cols sample_short)\<rparr>"

text \<open>The same export with a text cell in the third rating column.\<close>

definition sample_text :: "cell frame" where
  "sample_text =
     sample_short\<lparr>cols := (cols sample_short)[2 := (''Q3'', [Num 5, Text ''five''])]\<rparr>"

text \<open>The export without its \<open>URL\<close> column.\<close>

definition sample_no_url :: "cell frame" where
  "sample_no_url = sample_short\<lparr>cols := take 10 (cols sample_short) @ drop 11 (cols sample_short)\<rparr>"

text \<open>
  A two-layout schema small enough to read: the short export has the
  columns \<open>K2*\<close> (reversed) and \<open>K1\<close>, the long one \<open>K1\<close>, \<open>K2*\<close>, \<open>K3\<close>.
  \<open>toy_short\<close> and \<open>toy_long\<close> are the answers of one respondent in the two
  layouts.
\<close>

definition toy_schema :: schema where
  "toy_schema = \<lparr>order_short = [''K2*'', ''K1''], order_long = [''K1'', ''K2*'', ''K3''],
                 categories = [''K''], pair_keys = [''K1'', ''K2'', ''K3''], pair_langs = [''en'']\<rparr>"

definition toy_short :: "cell frame" where
  "toy_short = \<lparr>nrows = 1, cols = [(''a'', [Num 2]), (''b'', [Num 6]), (''URL'', [NaN])]\<rparr>"

definition toy_long :: "cell frame" where
  "toy_long = \<lparr>nrows = 1, cols = [(''x'', [Num 6]), (''y'', [Num 2]), (''z'', [Num 5]),
                                  (''URL'', [NaN])]\<rparr>"

section \<open>Notions of the spec\<close>

text \<open>
  The complement of a raw rating (spec, section 8: reversing a column's
  marker and its raw value), and the typing of the spec's NormalizedTable:
  its columns are keys of the vocabulary, each once, in canonical order.
\<close>

fun reverse_cell :: "cell \<Rightarrow> cell" where
  "reverse_cell (Num x) = Num (8 - x)"
| "reverse_cell NaN = NaN"
| "reverse_cell (Text t) = Text t"

definition canonical_frame :: "string list \<Rightarrow> 'a frame \<Rightarrow> bool" where
  "canonical_frame keys f \<longleftrightarrow>
     distinct (columns f) \<and> set (columns f) \<subseteq> set keys \<and>
     columns f = filter (\<lambda>k. k \<in> set (columns f)) keys"

section \<open>Lemmas on the steps\<close>

lemmas load_defs = truncate_at_url_def rename_columns_def set_columns_def drop_columns_def
  normalize_frame_def normalize_column_def col_arith_def normalize_value_def strip_labels_def
  strip_star_def sort_labels_def reindex_columns_def

subsection \<open>get_loc and the label sort\<close>

lemma get_loc_None_iff: "get_loc cs k = None \<longleftrightarrow> k \<notin> set cs"
  by (induction cs) auto

lemma get_loc_Some: "get_loc cs k = Some i \<Longrightarrow> i < length cs \<and> cs ! i = k"
  by (induction cs arbitrary: i) (auto split: if_splits)

lemma get_loc_nth: "distinct cs \<Longrightarrow> i < length cs \<Longrightarrow> get_loc cs (cs ! i) = Some i"
proof (induction cs arbitrary: i)
  case Nil
  then show ?case by simp
next
  case (Cons c cs)
  then show ?case by (cases i) (auto simp: nth_mem)
qed

lemma get_loc_split: "k \<notin> set pre \<Longrightarrow> get_loc (pre @ k # post) k = Some (length pre)"
  by (induction pre) auto

lemma get_loc_inj:
  assumes "get_loc cs k = get_loc cs k'" and "k \<in> set cs"
  shows "k = k'"
proof -
  from assms(2) obtain i where i: "get_loc cs k = Some i"
    by (cases "get_loc cs k") (auto simp: get_loc_None_iff)
  with assms(1) have "get_loc cs k' = Some i" by simp
  with i show ?thesis by (auto dest!: get_loc_Some)
qed

lemma sorted_get_loc_filter:
  assumes "distinct keys"
  shows "sorted (map (get_loc keys) (filter P keys))"
proof -
  let ?L = "filter (P \<circ> nth keys) [0..<length keys]"
  have "map (get_loc keys) (filter P keys) = map (get_loc keys) (map (nth keys) ?L)"
    by (metis filter_map map_nth)
  also have "\<dots> = map Some ?L"
    using assms by (auto simp: get_loc_nth)
  finally have eq: "map (get_loc keys) (filter P keys) = map Some ?L" .
  have "sorted (map Some ?L)"
    by (simp add: sorted_map sorted_filter [where f = id, simplified])
  then show ?thesis by (simp only: eq)
qed

lemma sort_labels_ok:
  assumes "distinct keys" and "distinct ls" and "set ls \<subseteq> set keys"
  shows "sort_labels keys ls = Inr (filter (\<lambda>k. k \<in> set ls) keys)"
proof -
  have none: "\<not> list_ex (\<lambda>l. get_loc keys l = None) ls"
    using assms(3) by (auto simp: list_ex_iff get_loc_None_iff)
  have "sort_key (get_loc keys) ls = filter (\<lambda>k. k \<in> set ls) keys"
  proof (rule sort_key_inj_key_eq)
    have "set ls = set (filter (\<lambda>k. k \<in> set ls) keys)"
      using assms(3) by auto
    then show "mset ls = mset (filter (\<lambda>k. k \<in> set ls) keys)"
      using set_eq_iff_mset_eq_distinct [of ls "filter (\<lambda>k. k \<in> set ls) keys"] assms(1,2)
      by (simp del: mset_filter)
    show "inj_on (get_loc keys) (set ls)"
      using assms(3) by (auto intro!: inj_onI dest: get_loc_inj)
    show "sorted (map (get_loc keys) (filter (\<lambda>k. k \<in> set ls) keys))"
      using assms(1) by (rule sorted_get_loc_filter)
  qed
  with none show ?thesis by (simp add: sort_labels_def)
qed


subsection \<open>Truncation, renaming, rescaling, reindexing\<close>

lemma drop_columns_take:
  assumes "columns tab = pre @ k # post" and "distinct (columns tab)"
  shows "drop_columns (k # post) tab = tab\<lparr>cols := take (length pre) (cols tab)\<rparr>"
proof -
  let ?n = "length pre"
  have pre: "map fst (take ?n (cols tab)) = pre"
    and post: "map fst (drop ?n (cols tab)) = k # post"
    using assms(1) by (simp_all add: columns_def take_map [symmetric] drop_map [symmetric])
  have disj: "set pre \<inter> set (k # post) = {}"
    using assms by simp
  have keep: "filter (\<lambda>c. fst c \<notin> set (k # post)) (take ?n (cols tab)) = take ?n (cols tab)"
  proof (rule filter_True, intro ballI)
    fix c assume "c \<in> set (take ?n (cols tab))"
    then have "fst c \<in> set (map fst (take ?n (cols tab)))" by simp
    then have "fst c \<in> set pre" by (simp only: pre)
    then show "fst c \<notin> set (k # post)" using disj by blast
  qed
  have gone: "filter (\<lambda>c. fst c \<notin> set (k # post)) (drop ?n (cols tab)) = []"
  proof (rule filter_False, intro ballI)
    fix c assume "c \<in> set (drop ?n (cols tab))"
    then have "fst c \<in> set (map fst (drop ?n (cols tab)))" by simp
    then have "fst c \<in> set (k # post)" by (simp only: post)
    then show "\<not> fst c \<notin> set (k # post)" by simp
  qed
  have "filter (\<lambda>c. fst c \<notin> set (k # post)) (cols tab) = take ?n (cols tab)"
    using keep gone
    by (subst append_take_drop_id [symmetric, of _ ?n]) (simp only: filter_append, simp)
  then show ?thesis by (simp add: drop_columns_def)
qed

lemma truncate_at_url_ok:
  assumes "columns tab = pre @ ''URL'' # post" and "''URL'' \<notin> set pre"
    and "distinct (columns tab)"
  shows "truncate_at_url tab = Inr (tab\<lparr>cols := take (length pre) (cols tab)\<rparr>)"
  using assms get_loc_split [OF assms(2), of post] drop_columns_take [OF assms(1,3)]
  by (simp add: truncate_at_url_def)

lemma truncate_at_url_no_url:
  "''URL'' \<notin> set (columns tab) \<Longrightarrow> truncate_at_url tab = Inl NoURLColumn"
  by (simp add: truncate_at_url_def get_loc_None_iff [symmetric])

lemma rename_columns_ok:
  assumes "length (columns tab) \<in> set [length (order_short s), length (order_long s)]"
  shows "rename_columns s tab = Inr (set_columns (if length (columns tab) = length (order_short s)
                                                 then order_short s else order_long s) tab)"
  using assms by (simp add: rename_columns_def Let_def)

lemma rename_columns_Inr:
  assumes "rename_columns s tab = Inr tab2"
  shows "\<exists>names. names \<in> {order_short s, order_long s} \<and> length names = length (columns tab) \<and>
           tab2 = set_columns names tab"
  using assms by (auto simp: rename_columns_def Let_def split: if_splits)

lemma normalize_frame_ok:
  assumes "\<forall>c\<in>set (cols tab). \<not> list_ex is_text (snd c)"
  shows "normalize_frame tab =
           Inr \<lparr>nrows = nrows tab,
                cols = map (\<lambda>c. (fst c, map (cell_value (normalize_value (fst c))) (snd c))) (cols tab)\<rparr>"
proof -
  have "try_map normalize_column (cols tab) =
          Inr (map (\<lambda>c. (fst c, map (cell_value (normalize_value (fst c))) (snd c))) (cols tab))"
    using assms by (intro try_map_map) (simp add: normalize_column_def col_arith_def)
  then show ?thesis by (simp add: normalize_frame_def)
qed

lemma normalize_column_Inr:
  "normalize_column c = Inr d \<Longrightarrow> d = (fst c, map (cell_value (normalize_value (fst c))) (snd c))"
  by (auto simp: normalize_column_def col_arith_def split: if_splits)

lemma normalize_column_Inl: "normalize_column c = Inl e \<Longrightarrow> e = TypeErr"
  by (auto simp: normalize_column_def col_arith_def split: sum.splits if_splits)

lemma normalize_frame_Inr:
  assumes "normalize_frame tab = Inr g"
  shows "g = \<lparr>nrows = nrows tab,
              cols = map (\<lambda>c. (fst c, map (cell_value (normalize_value (fst c))) (snd c))) (cols tab)\<rparr>"
proof -
  from assms obtain cs where cs: "try_map normalize_column (cols tab) = Inr cs"
    and g: "g = \<lparr>nrows = nrows tab, cols = cs\<rparr>"
    by (auto simp: normalize_frame_def split: sum.splits)
  have "cs = map (\<lambda>c. (fst c, map (cell_value (normalize_value (fst c))) (snd c))) (cols tab)"
    using try_map_length [OF cs] try_map_nth [OF cs]
    by (intro nth_equalityI) (auto dest: normalize_column_Inr)
  with g show ?thesis by simp
qed

lemma reindex_columns_ok:
  assumes "distinct (columns g)" and "set ks \<subseteq> set (columns g)"
  shows "\<exists>h. reindex_columns ks g = Inr h \<and> columns h = ks \<and> nrows h = nrows g \<and>
             (\<forall>k\<in>set ks. map_of (cols h) k = map_of (cols g) k)"
proof (cases "ks = columns g")
  case True
  then show ?thesis by (simp add: reindex_columns_def)
next
  case False
  have "map_of (cols g) k \<noteq> None" if "k \<in> set ks" for k
    using that assms(2) by (auto simp: columns_def map_of_eq_None_iff)
  then have "map_of (cols g) k = Some (case map_of (cols g) k of Some v \<Rightarrow> v | None \<Rightarrow> replicate (nrows g) None)"
    if "k \<in> set ks" for k
    using that by (auto split: option.split)
  with False assms(1) show ?thesis
    by (auto simp: reindex_columns_def columns_def comp_def map_of_map_restrict)
qed

lemma reindex_columns_Inr:
  "reindex_columns ks g = Inr h \<Longrightarrow> columns h = ks \<and> nrows h = nrows g"
  by (auto simp: reindex_columns_def columns_def comp_def split: if_splits)

lemma loadCSV_steps:
  assumes "truncate_at_url tab = Inr tab1" and "rename_columns s tab1 = Inr tab2"
    and "normalize_frame tab2 = Inr tab3"
    and "sort_labels (pair_keys s) (columns (strip_labels tab3)) = Inr ks"
  shows "loadCSV s tab = reindex_columns ks (strip_labels tab3)"
  using assms by (simp add: loadCSV_def)

lemma loadCSV_Inr:
  assumes "loadCSV s tab = Inr f"
  obtains tab1 tab2 tab3 ks where "truncate_at_url tab = Inr tab1"
    and "rename_columns s tab1 = Inr tab2" and "normalize_frame tab2 = Inr tab3"
    and "sort_labels (pair_keys s) (columns (strip_labels tab3)) = Inr ks"
    and "reindex_columns ks (strip_labels tab3) = Inr f"
  using assms by (auto simp: loadCSV_def Let_def split: sum.splits)


subsection \<open>Where the values of the result come from\<close>

lemma frame_values_reindex:
  assumes "reindex_columns ks g = Inr h"
  shows "frame_values h \<subseteq> insert None (frame_values g)"
proof
  fix x assume "x \<in> frame_values h"
  then obtain c where c: "c \<in> set (cols h)" "x \<in> set (snd c)"
    by (auto simp: frame_values_def)
  show "x \<in> insert None (frame_values g)"
  proof (cases "ks = columns g")
    case True
    with assms c show ?thesis by (auto simp: reindex_columns_def frame_values_def)
  next
    case False
    with assms c obtain k where
      "snd c = (case map_of (cols g) k of Some v \<Rightarrow> v | None \<Rightarrow> replicate (nrows g) None)"
      by (auto simp: reindex_columns_def split: if_splits)
    with c(2) show ?thesis
      by (cases "map_of (cols g) k") (fastforce simp: frame_values_def dest: map_of_SomeD)+
  qed
qed

lemma frame_values_strip [simp]: "frame_values (strip_labels f) = frame_values f"
  by (auto simp: strip_labels_def frame_values_def)

lemma frame_values_set_columns: "frame_values (set_columns names f) \<subseteq> frame_values f"
  by (auto simp: set_columns_def frame_values_def dest!: set_zip_rightD)

lemma frame_values_normalize:
  assumes "normalize_frame tab = Inr g" and "Some v \<in> frame_values g"
  shows "\<exists>name x. Num x \<in> frame_values tab \<and> v = normalize_value name x"
proof -
  have g: "cols g = map (\<lambda>c. (fst c, map (cell_value (normalize_value (fst c))) (snd c))) (cols tab)"
    using normalize_frame_Inr [OF assms(1)] by simp
  from assms(2) obtain d where d: "d \<in> set (cols g)" and vd: "Some v \<in> set (snd d)"
    unfolding frame_values_def by blast
  from d obtain c where c: "c \<in> set (cols tab)"
    and dc: "d = (fst c, map (cell_value (normalize_value (fst c))) (snd c))"
    unfolding g by auto
  from vd dc obtain cell where cell: "cell \<in> set (snd c)"
    and cv: "cell_value (normalize_value (fst c)) cell = Some v"
    by auto
  from cv obtain x where "cell = Num x" and "v = normalize_value (fst c) x"
    by (cases cell) auto
  moreover have "cell \<in> frame_values tab"
    using c cell unfolding frame_values_def by blast
  ultimately show ?thesis by blast
qed

lemma frame_values_truncate:
  "truncate_at_url tab = Inr t1 \<Longrightarrow> frame_values t1 \<subseteq> frame_values tab"
  by (auto simp: truncate_at_url_def drop_columns_def frame_values_def split: option.splits)

lemma loadCSV_values:
  assumes "loadCSV s tab = Inr f" and "truncate_at_url tab = Inr t1"
    and "Some v \<in> frame_values f"
  shows "\<exists>name x. Num x \<in> frame_values t1 \<and> v = normalize_value name x"
proof -
  obtain tab1 tab2 tab3 ks where t: "truncate_at_url tab = Inr tab1"
    and r: "rename_columns s tab1 = Inr tab2" and n: "normalize_frame tab2 = Inr tab3"
    and sl: "sort_labels (pair_keys s) (columns (strip_labels tab3)) = Inr ks"
    and re: "reindex_columns ks (strip_labels tab3) = Inr f"
    using assms(1) by (rule loadCSV_Inr)
  from t assms(2) have t1: "tab1 = t1" by simp
  have "Some v \<in> frame_values (strip_labels tab3)"
    using frame_values_reindex [OF re] assms(3) by blast
  then have "Some v \<in> frame_values tab3" by simp
  from frame_values_normalize [OF n this] obtain name x
    where x: "Num x \<in> frame_values tab2" and v: "v = normalize_value name x" by blast
  from rename_columns_Inr [OF r] obtain names where "tab2 = set_columns names tab1"
    by blast
  then have "frame_values tab2 \<subseteq> frame_values t1"
    using frame_values_set_columns [of names tab1] t1 by simp
  with x v show ?thesis by blast
qed

lemma normalize_value_bounds:
  "1 \<le> x \<Longrightarrow> x \<le> 7 \<Longrightarrow> -3 \<le> normalize_value name x \<and> normalize_value name x \<le> 3"
  by (simp add: normalize_value_def)

subsection \<open>Labels of the result\<close>

lemma columns_set_columns:
  "length names = length (columns f) \<Longrightarrow> columns (set_columns names f) = names"
  by (simp add: set_columns_def columns_def)

lemma columns_normalize_frame:
  "normalize_frame tab = Inr g \<Longrightarrow> columns g = columns tab \<and> nrows g = nrows tab"
  by (auto simp: columns_def comp_def dest!: normalize_frame_Inr)

lemma columns_strip_labels: "columns (strip_labels f) = map strip_star (columns f)"
  by (simp add: strip_labels_def columns_def)

lemma loadCSV_columns:
  assumes "loadCSV s tab = Inr f" and "wf_schema s"
  shows "\<exists>names\<in>{order_short s, order_long s}.
           columns f = filter (\<lambda>k. k \<in> set (map strip_star names)) (pair_keys s)"
proof -
  from assms(1) obtain tab1 tab2 tab3 ks where r: "rename_columns s tab1 = Inr tab2"
    and n: "normalize_frame tab2 = Inr tab3"
    and sl: "sort_labels (pair_keys s) (columns (strip_labels tab3)) = Inr ks"
    and re: "reindex_columns ks (strip_labels tab3) = Inr f"
    by (rule loadCSV_Inr)
  from rename_columns_Inr [OF r] obtain names where nm: "names \<in> {order_short s, order_long s}"
    and len: "length names = length (columns tab1)" and t2: "tab2 = set_columns names tab1"
    by blast
  have c3: "columns (strip_labels tab3) = map strip_star names"
    using columns_normalize_frame [OF n] t2 len by (simp add: columns_set_columns columns_strip_labels)
  have "wf_order s names" using assms(2) nm by (auto simp: wf_schema_def)
  then have "sort_labels (pair_keys s) (columns (strip_labels tab3)) =
               Inr (filter (\<lambda>k. k \<in> set (map strip_star names)) (pair_keys s))"
    unfolding c3 using assms(2) by (intro sort_labels_ok) (auto simp: wf_schema_def wf_order_def)
  with sl reindex_columns_Inr [OF re] nm show ?thesis by auto
qed

lemma loadCSV_result:
  assumes cols: "columns tab = pre @ ''URL'' # post" and url: "''URL'' \<notin> set pre"
    and dist: "distinct (columns tab)"
    and count: "length pre \<in> set [length (order_short s), length (order_long s)]"
    and names: "names = (if length pre = length (order_short s) then order_short s else order_long s)"
    and keys: "distinct (pair_keys s)" and snames: "distinct (map strip_star names)"
    and known: "set (map strip_star names) \<subseteq> set (pair_keys s)"
    and notext: "\<forall>c\<in>set (take (length pre) (cols tab)). \<not> list_ex is_text (snd c)"
  shows "\<exists>f. loadCSV s tab = Inr f \<and> nrows f = nrows tab \<and>
           columns f = filter (\<lambda>k. k \<in> set (map strip_star names)) (pair_keys s) \<and>
           (\<forall>i<length pre. map_of (cols f) (strip_star (names ! i)) =
              Some (map (cell_value (normalize_value (names ! i))) (snd (cols tab ! i))))"
proof -
  let ?n = "length pre"
  let ?V = "map (\<lambda>i. map (cell_value (normalize_value (names ! i))) (snd (cols tab ! i))) [0..<?n]"
  let ?ks = "filter (\<lambda>k. k \<in> set (map strip_star names)) (pair_keys s)"
  define tab1 where "tab1 = tab\<lparr>cols := take ?n (cols tab)\<rparr>"
  define tab2 where "tab2 = set_columns names tab1"
  have len: "?n < length (cols tab)"
    using arg_cong [OF cols, of length] by (simp add: columns_def)
  have len_names: "length names = ?n"
    using count names by auto
  have t1: "truncate_at_url tab = Inr tab1"
    using truncate_at_url_ok [OF cols url dist] by (simp add: tab1_def)
  have r: "rename_columns s tab1 = Inr tab2"
    using rename_columns_ok [of tab1 s] count names len
    by (simp add: tab1_def tab2_def columns_def min_absorb2)
  have cols2: "cols tab2 = zip names (map snd (take ?n (cols tab)))"
    by (simp add: tab2_def tab1_def set_columns_def)
  have "\<forall>c\<in>set (cols tab2). \<not> list_ex is_text (snd c)"
    using notext by (auto simp: cols2 dest!: set_zip_rightD)
  then have n: "normalize_frame tab2 = Inr \<lparr>nrows = nrows tab2,
     cols = map (\<lambda>c. (fst c, map (cell_value (normalize_value (fst c))) (snd c))) (cols tab2)\<rparr>"
    (is "_ = Inr ?tab3")
    by (rule normalize_frame_ok)
  have cols4: "cols (strip_labels ?tab3) = zip (map strip_star names) ?V"
  proof (rule nth_equalityI)
    show "length (cols (strip_labels ?tab3)) = length (zip (map strip_star names) ?V)"
      using len len_names by (simp add: strip_labels_def cols2)
  next
    fix i assume "i < length (cols (strip_labels ?tab3))"
    then have i: "i < ?n" using len len_names by (simp add: strip_labels_def cols2)
    then show "cols (strip_labels ?tab3) ! i = zip (map strip_star names) ?V ! i"
      using len len_names by (simp add: strip_labels_def cols2)
  qed
  then have c4: "columns (strip_labels ?tab3) = map strip_star names"
    using len_names by (simp add: columns_def)
  have sl: "sort_labels (pair_keys s) (columns (strip_labels ?tab3)) = Inr ?ks"
    unfolding c4 using keys snames known by (rule sort_labels_ok)
  have "distinct (columns (strip_labels ?tab3))" and "set ?ks \<subseteq> set (columns (strip_labels ?tab3))"
    using snames by (auto simp: c4)
  from reindex_columns_ok [OF this] obtain h
    where h: "reindex_columns ?ks (strip_labels ?tab3) = Inr h"
      and hc: "columns h = ?ks" and hn: "nrows h = nrows (strip_labels ?tab3)"
      and hm: "\<forall>k\<in>set ?ks. map_of (cols h) k = map_of (cols (strip_labels ?tab3)) k"
    by blast
  have load: "loadCSV s tab = Inr h"
    using loadCSV_steps [OF t1 r n sl] h by simp
  have "map_of (cols h) (strip_star (names ! i)) =
          Some (map (cell_value (normalize_value (names ! i))) (snd (cols tab ! i)))"
    if i: "i < ?n" for i
  proof -
    have "strip_star (names ! i) \<in> set (map strip_star names)"
      using i len_names by simp
    with known have "strip_star (names ! i) \<in> set ?ks" by auto
    then have "map_of (cols h) (strip_star (names ! i)) =
                 map_of (zip (map strip_star names) ?V) (map strip_star names ! i)"
      using hm i len_names by (simp add: cols4)
    also have "\<dots> = Some (?V ! i)"
      using i len_names snames by (intro map_of_zip_nth) simp_all
    finally show ?thesis using i by simp
  qed
  moreover have "nrows h = nrows tab"
    by (simp add: hn strip_labels_def tab2_def tab1_def set_columns_def)
  ultimately show ?thesis using load hc by blast
qed

subsection \<open>Claims\<close>

text \<open>
  C1. A successful load. When the export has a \<open>URL\<close> column, unique column
  labels, exactly as many columns before \<open>URL\<close> as the short or the long
  layout, no text in those columns, and the chosen layout's unstarred names
  are unique keys of \<open>pairs\<close>, then \<open>loadCSV\<close> returns a frame with the same
  rows, whose columns are the layout's keys in the order of \<open>pairs\<close>, and
  whose column for the \<open>i\<close>-th layout name is the \<open>i\<close>-th raw column rescaled
  (\<open>4 - x\<close> if starred, \<open>x - 4\<close> otherwise; NaN kept).
\<close>

theorem loadCSV_ok:
  assumes cols: "columns tab = pre @ ''URL'' # post" and url: "''URL'' \<notin> set pre"
    and dist: "distinct (columns tab)"
    and count: "length pre \<in> set [length (order_short s), length (order_long s)]"
    and names: "names = (if length pre = length (order_short s) then order_short s else order_long s)"
    and keys: "distinct (pair_keys s)" and snames: "distinct (map strip_star names)"
    and known: "set (map strip_star names) \<subseteq> set (pair_keys s)"
    and notext: "\<forall>c\<in>set (take (length pre) (cols tab)). \<not> list_ex is_text (snd c)"
  shows "\<exists>f. loadCSV s tab = Inr f \<and> nrows f = nrows tab \<and>
           columns f = filter (\<lambda>k. k \<in> set (map strip_star names)) (pair_keys s) \<and>
           (\<forall>i<length pre. map_of (cols f) (strip_star (names ! i)) =
              Some (map (cell_value (normalize_value (names ! i))) (snd (cols tab ! i))))"
  using cols url dist count names keys snames known notext by (rule loadCSV_result)

lemma sample_short_columns:
  "columns sample_short =
     [''Q1'', ''Q2'', ''Q3'', ''Q4'', ''Q5'', ''Q6'', ''Q7'', ''Q8'', ''Q9'', ''Q10''] @ ''URL'' # [''Browser'']"
  by (simp add: sample_short_def columns_def)

theorem loadCSV_ok_witness:
  "\<exists>f. loadCSV usabilla sample_short = Inr f \<and> nrows f = nrows sample_short \<and>
     columns f = filter (\<lambda>k. k \<in> set (map strip_star usabilla_short)) (pair_keys usabilla) \<and>
     (\<forall>i<length [''Q1'', ''Q2'', ''Q3'', ''Q4'', ''Q5'', ''Q6'', ''Q7'', ''Q8'', ''Q9'', ''Q10''].
        map_of (cols f) (strip_star (usabilla_short ! i)) =
        Some (map (cell_value (normalize_value (usabilla_short ! i))) (snd (cols sample_short ! i))))"
  by (rule loadCSV_ok [OF sample_short_columns])
     (simp_all add: usabilla_defs sample_short_def strip_star_def columns_def)


subsection \<open>The rectangular-frame invariant\<close>

lemma wf_frame_truncate:
  assumes "truncate_at_url tab = Inr tab1" and "wf_frame tab"
  shows "wf_frame tab1"
proof -
  from assms(1) obtain ls where "tab1 = drop_columns ls tab"
    by (auto simp: truncate_at_url_def split: option.splits)
  with assms(2) show ?thesis
    by (auto simp: drop_columns_def intro!: wf_frame_subset [of tab])
qed

lemma wf_frame_set_columns: "wf_frame tab \<Longrightarrow> wf_frame (set_columns names tab)"
  by (rule wf_frame_subset [of tab]) (auto simp: set_columns_def dest!: set_zip_rightD)

lemma wf_frame_normalize_strip:
  assumes n: "normalize_frame tab2 = Inr tab3" and w: "wf_frame tab2"
  shows "wf_frame (strip_labels tab3)"
proof -
  have "cols (strip_labels tab3) =
          map (\<lambda>c. (strip_star (fst c), map (cell_value (normalize_value (fst c))) (snd c))) (cols tab2)"
    using normalize_frame_Inr [OF n] by (simp add: strip_labels_def)
  moreover have "nrows (strip_labels tab3) = nrows tab2"
    using normalize_frame_Inr [OF n] by (simp add: strip_labels_def)
  ultimately show ?thesis using w by (simp add: wf_frame_def list_all_iff)
qed

lemma wf_frame_reindex:
  assumes "reindex_columns ks g = Inr h" and "wf_frame g"
  shows "wf_frame h"
proof (cases "ks = columns g")
  case True
  with assms show ?thesis by (simp add: reindex_columns_def)
next
  case False
  with assms(1) have h: "h = g\<lparr>cols := map (\<lambda>k. (k, case map_of (cols g) k of
                                         Some v \<Rightarrow> v | None \<Rightarrow> replicate (nrows g) None)) ks\<rparr>"
    by (simp add: reindex_columns_def split: if_splits)
  have "length (case map_of (cols g) k of Some v \<Rightarrow> v | None \<Rightarrow> replicate (nrows g) None) = nrows g"
    for k
  proof (cases "map_of (cols g) k")
    case None
    then show ?thesis by simp
  next
    case (Some v)
    then have "(k, v) \<in> set (cols g)" by (rule map_of_SomeD)
    with assms(2) Some show ?thesis by (auto simp: wf_frame_def list_all_iff)
  qed
  then show ?thesis by (simp add: h wf_frame_def list_all_iff)
qed

lemma wf_frame_loadCSV:
  assumes "loadCSV s tab = Inr f" and "wf_frame tab"
  shows "wf_frame f"
proof -
  obtain tab1 tab2 tab3 ks where t: "truncate_at_url tab = Inr tab1"
    and r: "rename_columns s tab1 = Inr tab2" and n: "normalize_frame tab2 = Inr tab3"
    and sl: "sort_labels (pair_keys s) (columns (strip_labels tab3)) = Inr ks"
    and re: "reindex_columns ks (strip_labels tab3) = Inr f"
    using assms(1) by (rule loadCSV_Inr)
  have w1: "wf_frame tab1" using wf_frame_truncate [OF t assms(2)] .
  from rename_columns_Inr [OF r] obtain names where "tab2 = set_columns names tab1" by blast
  with w1 have "wf_frame tab2" by (simp add: wf_frame_set_columns)
  with n have "wf_frame (strip_labels tab3)" by (rule wf_frame_normalize_strip)
  with re show ?thesis by (rule wf_frame_reindex)
qed

lemma toy_short_load:
  "loadCSV toy_schema toy_short = Inr \<lparr>nrows = 1, cols = [(''K1'', [Some 2]), (''K2'', [Some 2])]\<rparr>"
  by (simp add: loadCSV_def load_defs toy_schema_def toy_short_def columns_def)

lemma toy_long_load:
  "loadCSV toy_schema toy_long =
     Inr \<lparr>nrows = 1, cols = [(''K1'', [Some 2]), (''K2'', [Some 2]), (''K3'', [Some 1])]\<rparr>"
  by (simp add: loadCSV_def load_defs toy_schema_def toy_long_def columns_def)

lemma wf_schema_toy: "wf_schema toy_schema"
  by (simp add: wf_schema_def wf_order_def toy_schema_def strip_star_def)

lemma loadCSV_restrict:
  assumes wf: "wf_schema s" and S: "loadCSV s tS = Inr fS" and L: "loadCSV s tL = Inr fL"
    and sub: "set (columns fS) \<subseteq> set (columns fL)"
    and same: "\<forall>k\<in>set (columns fS). map_of (cols fS) k = map_of (cols fL) k"
  shows "cols fS = filter (\<lambda>c. fst c \<in> set (columns fS)) (cols fL)"
proof -
  let ?C = "set (columns fS)"
  let ?F = "filter (\<lambda>c. fst c \<in> ?C) (cols fL)"
  have keys: "distinct (pair_keys s)" using wf by (simp add: wf_schema_def)
  obtain A where cS: "columns fS = filter (\<lambda>k. k \<in> A) (pair_keys s)"
    using loadCSV_columns [OF S wf] by blast
  obtain B where cL: "columns fL = filter (\<lambda>k. k \<in> B) (pair_keys s)"
    using loadCSV_columns [OF L wf] by blast
  have "map fst ?F = filter (\<lambda>k. k \<in> ?C) (columns fL)"
    by (simp add: columns_def filter_map comp_def)
  also have "\<dots> = filter (\<lambda>k. k \<in> ?C) (pair_keys s)"
    using sub by (auto simp: cL intro!: filter_cong)
  also have "\<dots> = columns fS"
    by (auto simp: cS intro!: filter_cong)
  finally have fst_eq: "map fst (cols fS) = map fst ?F"
    by (simp add: columns_def)
  have dist: "distinct (map fst (cols fS))"
    using keys by (simp add: cS [unfolded columns_def])
  have "map_of (cols fS) = map_of ?F"
  proof
    fix k
    show "map_of (cols fS) k = map_of ?F k"
    proof (cases "k \<in> ?C")
      case True
      with same show ?thesis by (simp add: map_of_filter_fst)
    next
      case False
      then show ?thesis by (simp add: map_of_filter_fst map_of_eq_None_iff columns_def)
    qed
  qed
  from fst_eq this dist show ?thesis by (rule alist_eqI)
qed

text \<open>
  C2. Schema invariance, from the exports. Take a short and a long export of
  the same answers: each has \<open>URL\<close> after as many columns as its layout
  has names, no text in those columns, and every question of the short
  layout appears in the long one under the same raw name (star included)
  with the same raw cells. Then both load, and the short result is exactly
  the long result restricted to the short result's columns, in the same
  order and with the same values.
\<close>

theorem loadCSV_schema_invariant:
  assumes wf: "wf_schema s" and sizes: "length (order_short s) \<noteq> length (order_long s)"
    and S1: "columns tS = preS @ ''URL'' # postS" and S2: "''URL'' \<notin> set preS"
    and S3: "distinct (columns tS)" and S4: "length preS = length (order_short s)"
    and S5: "\<forall>c\<in>set (take (length preS) (cols tS)). \<not> list_ex is_text (snd c)"
    and L1: "columns tL = preL @ ''URL'' # postL" and L2: "''URL'' \<notin> set preL"
    and L3: "distinct (columns tL)" and L4: "length preL = length (order_long s)"
    and L5: "\<forall>c\<in>set (take (length preL) (cols tL)). \<not> list_ex is_text (snd c)"
    and agree: "\<forall>i<length (order_short s). \<exists>j<length (order_long s).
                  order_long s ! j = order_short s ! i \<and> snd (cols tL ! j) = snd (cols tS ! i)"
  shows "\<exists>fS fL. loadCSV s tS = Inr fS \<and> loadCSV s tL = Inr fL \<and>
                 cols fS = filter (\<lambda>c. fst c \<in> set (columns fS)) (cols fL)"
proof -
  let ?sh = "order_short s" and ?lo = "order_long s"
  have keys: "distinct (pair_keys s)" and wS: "wf_order s ?sh" and wL: "wf_order s ?lo"
    using wf by (simp_all add: wf_schema_def)
  have "\<exists>f. loadCSV s tS = Inr f \<and> nrows f = nrows tS \<and>
           columns f = filter (\<lambda>k. k \<in> set (map strip_star ?sh)) (pair_keys s) \<and>
           (\<forall>i<length preS. map_of (cols f) (strip_star (?sh ! i)) =
              Some (map (cell_value (normalize_value (?sh ! i))) (snd (cols tS ! i))))"
    using S4 keys wS S5 by (intro loadCSV_result [OF S1 S2 S3]) (simp_all add: wf_order_def)
  then obtain fS where fS: "loadCSV s tS = Inr fS"
    and cS: "columns fS = filter (\<lambda>k. k \<in> set (map strip_star ?sh)) (pair_keys s)"
    and vS: "\<forall>i<length ?sh. map_of (cols fS) (strip_star (?sh ! i)) =
               Some (map (cell_value (normalize_value (?sh ! i))) (snd (cols tS ! i)))"
    using S4 by auto
  have "\<exists>f. loadCSV s tL = Inr f \<and> nrows f = nrows tL \<and>
           columns f = filter (\<lambda>k. k \<in> set (map strip_star ?lo)) (pair_keys s) \<and>
           (\<forall>i<length preL. map_of (cols f) (strip_star (?lo ! i)) =
              Some (map (cell_value (normalize_value (?lo ! i))) (snd (cols tL ! i))))"
    using L4 sizes keys wL L5 by (intro loadCSV_result [OF L1 L2 L3]) (simp_all add: wf_order_def)
  then obtain fL where fL: "loadCSV s tL = Inr fL"
    and cL: "columns fL = filter (\<lambda>k. k \<in> set (map strip_star ?lo)) (pair_keys s)"
    and vL: "\<forall>j<length ?lo. map_of (cols fL) (strip_star (?lo ! j)) =
               Some (map (cell_value (normalize_value (?lo ! j))) (snd (cols tL ! j)))"
    using L4 by auto
  have key_same: "k \<in> set (columns fL) \<and> map_of (cols fS) k = map_of (cols fL) k"
    if k: "k \<in> set (columns fS)" for k
  proof -
    from k have km: "k \<in> set (map strip_star ?sh)" and kp: "k \<in> set (pair_keys s)"
      by (simp_all add: cS)
    from km obtain i where i: "i < length ?sh" and ki: "k = strip_star (?sh ! i)"
      by (metis in_set_conv_nth length_map nth_map)
    from agree i obtain j where j: "j < length ?lo" and lj: "?lo ! j = ?sh ! i"
      and raw: "snd (cols tL ! j) = snd (cols tS ! i)" by blast
    have "strip_star (?lo ! j) \<in> set (map strip_star ?lo)" using j by simp
    then have "k \<in> set (columns fL)" using kp lj by (simp add: cL ki)
    moreover have "map_of (cols fS) k = map_of (cols fL) k"
      using vS [rule_format, OF i] vL [rule_format, OF j] lj raw ki by simp
    ultimately show ?thesis ..
  qed
  have sub: "set (columns fS) \<subseteq> set (columns fL)" using key_same by blast
  have same: "\<forall>k\<in>set (columns fS). map_of (cols fS) k = map_of (cols fL) k" using key_same by blast
  show ?thesis using loadCSV_restrict [OF wf fS fL sub same] fS fL by blast
qed

theorem loadCSV_schema_invariant_witness:
  "cols (projr (loadCSV toy_schema toy_short)) =
     filter (\<lambda>c. fst c \<in> {''K1'', ''K2''}) (cols (projr (loadCSV toy_schema toy_long)))"
proof -
  have sz: "length (order_short toy_schema) \<noteq> length (order_long toy_schema)"
    by (simp add: toy_schema_def)
  have agree: "\<forall>i<length (order_short toy_schema). \<exists>j<length (order_long toy_schema).
                 order_long toy_schema ! j = order_short toy_schema ! i \<and>
                 snd (cols toy_long ! j) = snd (cols toy_short ! i)"
  proof (intro allI impI)
    fix i assume "i < length (order_short toy_schema)"
    then have "i = 0 \<or> i = 1" by (auto simp: toy_schema_def)
    then show "\<exists>j<length (order_long toy_schema).
                 order_long toy_schema ! j = order_short toy_schema ! i \<and>
                 snd (cols toy_long ! j) = snd (cols toy_short ! i)"
    proof
      assume "i = 0" then show ?thesis
        by (intro exI [of _ 1]) (simp add: toy_schema_def toy_short_def toy_long_def)
    next
      assume "i = 1" then show ?thesis
        by (intro exI [of _ 0]) (simp add: toy_schema_def toy_short_def toy_long_def)
    qed
  qed
  have "\<exists>fS fL. loadCSV toy_schema toy_short = Inr fS \<and> loadCSV toy_schema toy_long = Inr fL \<and>
                cols fS = filter (\<lambda>c. fst c \<in> set (columns fS)) (cols fL)"
    by (rule loadCSV_schema_invariant [where preS = "[''a'', ''b'']" and postS = "[]"
               and preL = "[''x'', ''y'', ''z'']" and postL = "[]", OF wf_schema_toy sz _ _ _ _ _ _ _ _ _ _ agree])
       (simp_all add: toy_schema_def toy_short_def toy_long_def columns_def)
  then obtain fS fL where "loadCSV toy_schema toy_short = Inr fS" "loadCSV toy_schema toy_long = Inr fL"
    and "cols fS = filter (\<lambda>c. fst c \<in> set (columns fS)) (cols fL)" by blast
  moreover have "columns fS = [''K1'', ''K2'']"
    using calculation(1) toy_short_load by (auto simp: columns_def)
  ultimately show ?thesis by simp
qed

lemma loadCSV_range:
  assumes "loadCSV s tab = Inr f" and "truncate_at_url tab = Inr t1"
    and "\<forall>x. Num x \<in> frame_values t1 \<longrightarrow> 1 \<le> x \<and> x \<le> 7"
  shows "\<forall>v. Some v \<in> frame_values f \<longrightarrow> -3 \<le> v \<and> v \<le> 3"
  using loadCSV_values [OF assms(1,2)] assms(3) normalize_value_bounds by blast

text \<open>
  C3. Bounds. If every rating cell kept by the \<open>URL\<close> truncation lies in the
  documented raw range 1..7, every value of the normalised frame lies in
  [-3, 3], whichever columns are reversed.
\<close>

theorem loadCSV_bounds:
  assumes "loadCSV s tab = Inr f" and "truncate_at_url tab = Inr t1"
    and "\<forall>x. Num x \<in> frame_values t1 \<longrightarrow> 1 \<le> x \<and> x \<le> 7"
  shows "\<forall>v. Some v \<in> frame_values f \<longrightarrow> -3 \<le> v \<and> v \<le> 3"
  using assms by (rule loadCSV_range)

theorem loadCSV_bounds_witness:
  "list_all (\<lambda>c. list_all (\<lambda>v. case v of None \<Rightarrow> True | Some x \<Rightarrow> -3 \<le> x \<and> x \<le> 3) (snd c))
     (cols (projr (loadCSV toy_schema toy_long)))"
proof -
  have t: "truncate_at_url toy_long = Inr (toy_long\<lparr>cols := take 3 (cols toy_long)\<rparr>)"
    by (simp add: truncate_at_url_def toy_long_def columns_def drop_columns_def)
  have "\<forall>x. Num x \<in> frame_values (toy_long\<lparr>cols := take 3 (cols toy_long)\<rparr>) \<longrightarrow> 1 \<le> x \<and> x \<le> 7"
    by (simp add: toy_long_def frame_values_def)
  then have b: "\<forall>v. Some v \<in> frame_values (projr (loadCSV toy_schema toy_long)) \<longrightarrow> -3 \<le> v \<and> v \<le> 3"
    using loadCSV_bounds [OF toy_long_load t] toy_long_load by simp
  show ?thesis
    unfolding list_all_iff
  proof (intro ballI)
    fix c v assume c: "c \<in> set (cols (projr (loadCSV toy_schema toy_long)))" and v: "v \<in> set (snd c)"
    show "case v of None \<Rightarrow> True | Some x \<Rightarrow> -3 \<le> x \<and> x \<le> 3"
    proof (cases v)
      case (Some x)
      with c v have "Some x \<in> frame_values (projr (loadCSV toy_schema toy_long))"
        by (force simp: frame_values_def)
      with b Some show ?thesis by simp
    qed simp
  qed
qed

text \<open>
  An export without a \<open>URL\<close> column is refused with the
  "does not contain a 'URL' column" \<open>ValueError\<close>, whatever else it holds.
\<close>

lemma loadCSV_no_url:
  "''URL'' \<notin> set (columns tab) \<Longrightarrow> loadCSV s tab = Inl NoURLColumn"
  by (simp add: loadCSV_def truncate_at_url_no_url)

text \<open>
  A wrong number of columns before \<open>URL\<close> is refused with the
  column-count \<open>ValueError\<close>. Its message carries the two expected sizes
  only, not the number of columns found.
\<close>

lemma loadCSV_bad_count:
  assumes "columns tab = pre @ ''URL'' # post" and "''URL'' \<notin> set pre"
    and "distinct (columns tab)"
    and "length pre \<notin> set [length (order_short s), length (order_long s)]"
  shows "loadCSV s tab = Inl (BadColumnCount (length (order_short s)) (length (order_long s)))"
proof -
  have len: "length pre < length (cols tab)"
    using arg_cong [OF assms(1), of length] by (simp add: columns_def)
  have "rename_columns s (tab\<lparr>cols := take (length pre) (cols tab)\<rparr>) =
          Inl (BadColumnCount (length (order_short s)) (length (order_long s)))"
    using assms(4) len by (simp add: rename_columns_def columns_def min_absorb2)
  then show ?thesis
    using truncate_at_url_ok [OF assms(1-3)] by (simp add: loadCSV_def)
qed

text \<open>
  C4. The two checks of the layout: an export without a \<open>URL\<close> column is
  refused with the "does not contain a 'URL' column" \<open>ValueError\<close>,
  whatever else it holds; one whose number of columns before \<open>URL\<close> is
  neither the short nor the long size is refused with the column-count
  \<open>ValueError\<close>, whose message carries the two expected sizes only, not the
  number of columns found.
\<close>

theorem loadCSV_layout_errors:
  "(''URL'' \<notin> set (columns tab) \<longrightarrow> loadCSV s tab = Inl NoURLColumn) \<and>
   (columns tab = pre @ ''URL'' # post \<and> ''URL'' \<notin> set pre \<and> distinct (columns tab) \<and>
    length pre \<notin> set [length (order_short s), length (order_long s)] \<longrightarrow>
    loadCSV s tab = Inl (BadColumnCount (length (order_short s)) (length (order_long s))))"
  using loadCSV_no_url loadCSV_bad_count by blast

theorem loadCSV_layout_errors_witness:
  "loadCSV usabilla sample_no_url = Inl NoURLColumn \<and>
   loadCSV usabilla sample_extra = Inl (BadColumnCount 10 28)"
proof
  have "''URL'' \<notin> set (columns sample_no_url)"
    by (simp add: sample_no_url_def sample_short_def columns_def)
  then show "loadCSV usabilla sample_no_url = Inl NoURLColumn"
    using loadCSV_layout_errors [where tab = sample_no_url and s = usabilla] by blast
next
  have c: "columns sample_extra =
     [''Q1'', ''Q2'', ''Q3'', ''Q4'', ''Q5'', ''Q6'', ''Q7'', ''Q8'', ''Q9'', ''Q10'', ''Extra'']
       @ ''URL'' # [''Browser'']"
    by (simp add: sample_extra_def sample_short_def columns_def)
  have "loadCSV usabilla sample_extra =
          Inl (BadColumnCount (length (order_short usabilla)) (length (order_long usabilla)))"
    using loadCSV_layout_errors [where tab = sample_extra and s = usabilla and post = "[''Browser'']"
             and pre = "[''Q1'', ''Q2'', ''Q3'', ''Q4'', ''Q5'', ''Q6'', ''Q7'', ''Q8'', ''Q9'', ''Q10'', ''Extra'']"]
    by (simp add: c usabilla_defs)
  then show "loadCSV usabilla sample_extra = Inl (BadColumnCount 10 28)" by (simp add: usabilla_defs)
qed

text \<open>
  C6. A text cell in a rating column (before \<open>URL\<close>) makes the rescaling
  raise \<open>TypeError\<close>: the whole load fails, nothing is coerced.
\<close>

theorem loadCSV_text_cell:
  assumes "columns tab = pre @ ''URL'' # post" and "''URL'' \<notin> set pre"
    and "distinct (columns tab)"
    and "length pre \<in> set [length (order_short s), length (order_long s)]"
    and "i < length pre" and "list_ex is_text (snd (cols tab ! i))"
  shows "loadCSV s tab = Inl TypeErr"
proof -
  let ?names = "if length pre = length (order_short s) then order_short s else order_long s"
  let ?tab1 = "tab\<lparr>cols := take (length pre) (cols tab)\<rparr>"
  have len: "length pre < length (cols tab)"
    using arg_cong [OF assms(1), of length] by (simp add: columns_def)
  have r: "rename_columns s ?tab1 = Inr (set_columns ?names ?tab1)"
    using rename_columns_ok [of ?tab1 s] assms(4) len by (simp add: columns_def min_absorb2)
  have "length ?names = length pre" using assms(4) by auto
  then have "(?names ! i, snd (cols tab ! i)) \<in> set (cols (set_columns ?names ?tab1))"
    using assms(5) len by (auto simp: set_columns_def in_set_conv_nth intro!: exI [of _ i])
  moreover have "normalize_column (?names ! i, snd (cols tab ! i)) = Inl TypeErr"
    using assms(6) by (simp add: normalize_column_def col_arith_def)
  ultimately obtain e where "try_map normalize_column (cols (set_columns ?names ?tab1)) = Inl e"
    by (blast dest: try_map_Inl)
  then have "normalize_frame (set_columns ?names ?tab1) = Inl TypeErr"
    by (auto simp: normalize_frame_def dest!: try_map_Inl_ex normalize_column_Inl)
  then show ?thesis
    using truncate_at_url_ok [OF assms(1-3)] r by (simp add: loadCSV_def)
qed

theorem loadCSV_text_cell_witness:
  "loadCSV usabilla sample_text = Inl TypeErr"
proof -
  have c: "columns sample_text =
     [''Q1'', ''Q2'', ''Q3'', ''Q4'', ''Q5'', ''Q6'', ''Q7'', ''Q8'', ''Q9'', ''Q10'']
       @ ''URL'' # [''Browser'']"
    by (simp add: sample_text_def sample_short_def columns_def)
  show ?thesis
    by (rule loadCSV_text_cell [OF c, where s = usabilla and i = 2])
       (simp_all add: c usabilla_defs sample_text_def sample_short_def columns_def)
qed

section \<open>Reversal and typing\<close>

lemma py_in_star_append: "py_in ''*'' (c @ ''*'')"
  by (simp add: py_in_iff_sublist)

lemma is_text_reverse_cell [simp]: "is_text (reverse_cell x) = is_text x"
  by (cases x) (simp_all add:)

lemma cell_value_reverse:
  "\<not> py_in ''*'' c \<Longrightarrow>
   cell_value (normalize_value (c @ ''*'')) x = cell_value (normalize_value c) (reverse_cell x)"
  by (cases x) (simp_all add: normalize_value_def py_in_star_append)

text \<open>
  C30. Reversal is the complement 8 - x: a starred column with raw ratings
  x normalises, once the star is stripped, exactly like the plain column with
  raw ratings 8 - x (text still raises, NaN stays NaN). The spec states the
  complement as 7 - x, which is off by one: raw 1 starred gives 3 while
  plain 7 - 1 = 6 gives 2.
\<close>

theorem reversal_complement:
  assumes "\<not> py_in ''*'' c"
  shows "map_sum id (\<lambda>r. (strip_star (fst r), snd r)) (normalize_column (c @ ''*'', cells)) =
         map_sum id (\<lambda>r. (strip_star (fst r), snd r)) (normalize_column (c, map reverse_cell cells)) \<and>
         normalize_value (c @ ''*'') 1 \<noteq> normalize_value c (7 - 1)"
proof
  have "map (cell_value (normalize_value (c @ ''*''))) cells =
        map (cell_value (normalize_value c)) (map reverse_cell cells)"
    using cell_value_reverse [OF assms] by simp
  moreover have "strip_star (c @ ''*'') = c" "strip_star c = c"
    using assms by (simp_all add: strip_star_def py_in_star_append)
  ultimately show "map_sum id (\<lambda>r. (strip_star (fst r), snd r)) (normalize_column (c @ ''*'', cells)) =
         map_sum id (\<lambda>r. (strip_star (fst r), snd r)) (normalize_column (c, map reverse_cell cells))"
    by (simp add: normalize_column_def col_arith_def list_ex_iff comp_def)
  show "normalize_value (c @ ''*'') 1 \<noteq> normalize_value c (7 - 1)"
    using assms by (simp add: normalize_value_def py_in_star_append)
qed

theorem reversal_complement_witness:
  "map_sum id (\<lambda>r. (strip_star (fst r), snd r)) (normalize_column (''QP2*'', [Num 1, NaN, Num 6])) =
     Inr (''QP2'', [Some 3, None, Some (-2)]) \<and>
   map_sum id (\<lambda>r. (strip_star (fst r), snd r)) (normalize_column (''QP2'', [Num 7, NaN, Num 2])) =
     Inr (''QP2'', [Some 3, None, Some (-2)])"
proof -
  have "\<not> py_in ''*'' ''QP2''" by simp
  from reversal_complement [OF this, of "[Num 1, NaN, Num 6]"] show ?thesis
    by (simp add: normalize_column_def col_arith_def normalize_value_def strip_star_def)
qed

text \<open>
  C31. The loaded frame is typed as the spec's NormalizedTable: its columns
  are canonical keys of \<open>pairs\<close>, each once, in the order of \<open>pairs\<close>.
\<close>

theorem loadCSV_canonical:
  assumes "loadCSV s tab = Inr f" and "wf_schema s"
  shows "canonical_frame (pair_keys s) f"
proof -
  from loadCSV_columns [OF assms] obtain names where
    c: "columns f = filter (\<lambda>k. k \<in> set (map strip_star names)) (pair_keys s)" by blast
  have d: "distinct (pair_keys s)" using assms(2) by (simp add: wf_schema_def)
  have "filter (\<lambda>k. k \<in> set (columns f)) (pair_keys s) = columns f"
    unfolding c by (rule filter_cong) auto
  with c d show ?thesis by (auto simp: canonical_frame_def)
qed

theorem loadCSV_canonical_witness:
  "canonical_frame (pair_keys toy_schema) (projr (loadCSV toy_schema toy_short)) \<and>
   columns (projr (loadCSV toy_schema toy_short)) = [''K1'', ''K2'']"
  using loadCSV_canonical [OF toy_short_load wf_schema_toy] toy_short_load by (simp add: columns_def)

end
