(* ===== verification/Datasets.thy ===== *)
theory Datasets
  imports Prelude
begin

text \<open>
  Normalised datasets, as the three plotting functions of
  \<open>src/src/attrakdiff.py\<close> receive them: a dictionary from a run name to a
  frame of real cells (NaN as \<open>None\<close>). This theory holds the pandas
  operations they share (\<open>datas[next(iter(datas))]\<close>, \<open>DataFrame.mean\<close>,
  \<open>DataFrame.stack\<close>), the sample datasets of the witnesses, and the fact that
  \<open>stack\<close> of a rectangular frame is a permutation of its non-NaN cells
  read column by column.
\<close>

type_synonym dataset = "real option frame"

section \<open>pandas operations\<close>

text \<open>\<open>datas[next(iter(datas))]\<close>: \<open>StopIteration\<close> on an empty dictionary.\<close>

definition first_dataset :: "'a odict \<Rightarrow> py_error + 'a" where
  "first_dataset d = (case d of [] \<Rightarrow> Inl StopIter | kv # _ \<Rightarrow> Inr (snd kv))"

text \<open>\<open>DataFrame.mean()\<close>: the NaN-skipping mean of every column.\<close>

definition frame_mean :: "dataset \<Rightarrow> real option list" where
  "frame_mean f = map (\<lambda>c. mean_skipna (snd c)) (cols f)"

text \<open>\<open>DataFrame.stack()\<close>: the cells row by row, NaN dropped.\<close>

definition stack :: "dataset \<Rightarrow> real list" where
  "stack f = concat (map (\<lambda>i. dropna (map (\<lambda>c. snd c ! i) (cols f))) [0..<nrows f])"

section \<open>Sample datasets\<close>

text \<open>Small normalised datasets used by the witnesses.\<close>

definition ds_A :: dataset where
  "ds_A = \<lparr>nrows = 2, cols = [(''QP1'', [Some 1, Some 3]), (''QHI1'', [Some 2, None]),
                             (''QHS1'', [Some 0, Some (-1)]), (''ATT1'', [Some 3, Some 3])]\<rparr>"

definition ds_B :: dataset where
  "ds_B = \<lparr>nrows = 1, cols = [(''QP1'', [Some 0]), (''QHI1'', [Some 1]), (''QHS1'', [Some 1]),
                             (''ATT1'', [None])]\<rparr>"

definition ds_C :: dataset where
  "ds_C = \<lparr>nrows = 2, cols = [(''QP1'', [Some 1, Some 3]), (''QP2'', [Some 2, Some 0]),
                             (''ATT1'', [Some 3, Some (-3)])]\<rparr>"

definition ds_nan :: dataset where
  "ds_nan = \<lparr>nrows = 2, cols = [(''QP1'', [Some 3, None]), (''QP2'', [Some 0, Some 0])]\<rparr>"

lemmas sample_datasets = ds_A_def ds_B_def ds_C_def ds_nan_def

section \<open>Lemmas\<close>

lemma first_dataset_hd: "datas \<noteq> [] \<Longrightarrow> first_dataset datas = Inr (snd (hd datas))"
  by (cases datas) (simp_all add: first_dataset_def)

lemma stack_cols_mset:
  assumes "\<forall>c\<in>set cs. length (snd c) = n"
  shows "mset (concat (map (\<lambda>i. dropna (map (\<lambda>c. snd c ! i) cs)) [0..<n])) =
         mset (concat (map (\<lambda>c. dropna (snd c)) cs))"
  using assms
proof (induction cs)
  case Nil
  then show ?case by (induction n) auto
next
  case (Cons c cs)
  have col: "concat (map (\<lambda>i. dropna [snd c ! i]) [0..<n]) = dropna (snd c)"
  proof -
    have "concat (map (\<lambda>i. dropna [snd c ! i]) [0..<n]) = dropna (map (\<lambda>i. snd c ! i) [0..<n])"
      by (induction n) auto
    also have "map (\<lambda>i. snd c ! i) [0..<n] = snd c"
      using Cons.prems map_nth [of "snd c"] by auto
    finally show ?thesis .
  qed
  have "(\<lambda>i. dropna (map (\<lambda>c. snd c ! i) (c # cs))) = (\<lambda>i. dropna [snd c ! i] @ dropna (map (\<lambda>c. snd c ! i) cs))"
    by (simp add: dropna_append [symmetric])
  then show ?case
    using Cons by (simp add: mset_concat_map_append col)
qed

lemma stack_mset:
  "wf_frame f \<Longrightarrow> mset (stack f) = mset (concat (map (\<lambda>c. dropna (snd c)) (cols f)))"
  unfolding stack_def wf_frame_def list_all_iff by (rule stack_cols_mset)

end
