(* ===== verification/Categorizer.thy ===== *)
theory Categorizer
  imports Schema
begin

text \<open>
  \<open>cat2dict(data)\<close> (\<open>src/src/attrakdiff.py\<close>, lines 91--95): for each name of
  \<open>categories\<close>, the columns of \<open>data\<close> whose label contains that name, in
  column order. Python's \<open>name in col\<close> is a substring test (\<open>py_in\<close>), so a
  column can land in several categories, or in none.
\<close>

definition cat2dict :: "schema \<Rightarrow> 'a frame \<Rightarrow> string list odict" where
  "cat2dict s data =
     py_dict (map (\<lambda>name. (name, filter (\<lambda>col. py_in name col) (columns data))) (categories s))"

section \<open>Lemmas\<close>

lemma count_concat_filters:
  "count (mset (concat (map (\<lambda>n. filter (P n) xs) ns))) x =
     count (mset xs) x * length (filter (\<lambda>n. P n x) ns)"
  by (induction ns) auto

lemma cat2dict_eq:
  "distinct (categories s) \<Longrightarrow>
   cat2dict s data = map (\<lambda>name. (name, filter (\<lambda>col. py_in name col) (columns data))) (categories s)"
  by (simp add: cat2dict_def py_dict_distinct comp_def)

lemma cat2dict_entry:
  assumes "c \<in> set (categories s)"
  shows "(c, filter (py_in c) (columns d)) \<in> set (cat2dict s d)"
proof -
  from assms have "c \<in> fst ` set (cat2dict s d)"
    by (simp add: cat2dict_def keys_py_dict image_image)
  then obtain cc where cc: "(c, cc) \<in> set (cat2dict s d)" by force
  then have "(c, cc) \<in> set (map (\<lambda>name. (name, filter (py_in name) (columns d))) (categories s))"
    using set_py_dict unfolding cat2dict_def by fast
  then have "cc = filter (py_in c) (columns d)" by auto
  with cc show ?thesis by simp
qed

lemma cat2dict_columns: "set (concat (map snd (cat2dict s d))) \<subseteq> set (columns d)"
  using set_py_dict [of "map (\<lambda>name. (name, filter (py_in name) (columns d))) (categories s)"]
  by (fastforce simp: cat2dict_def)

section \<open>Properties\<close>

text \<open>
  What \<open>cat2dict\<close> returns: one entry per category, in the order of
  \<open>categories\<close>, and every column occurs in the lists as many times as it
  occurs in the frame times the number of category names it contains.
\<close>

lemma cat2dict_count:
  assumes "distinct (categories s)"
  shows "map fst (cat2dict s data) = categories s \<and>
         (\<forall>col. count (mset (concat (map snd (cat2dict s data)))) col =
                count (mset (columns data)) col * length (filter (\<lambda>n. py_in n col) (categories s)))"
  using count_concat_filters [of "\<lambda>n col. py_in n col" "columns data" "categories s"]
  by (simp add: cat2dict_eq [OF assms] comp_def)

text \<open>
  The categories partition the columns when every column label
  contains exactly one category name: the lists together hold each column
  exactly as often as the frame does.
\<close>

lemma cat2dict_partition:
  assumes "distinct (categories s)"
    and "\<forall>col\<in>set (columns data). length (filter (\<lambda>n. py_in n col) (categories s)) = 1"
  shows "mset (concat (map snd (cat2dict s data))) = mset (columns data)"
proof (rule multiset_eqI)
  fix col
  show "count (mset (concat (map snd (cat2dict s data)))) col = count (mset (columns data)) col"
    using count_concat_filters [of "\<lambda>n col. py_in n col" "columns data" "categories s" col] assms
    by (cases "col \<in> set (columns data)") (auto simp: cat2dict_eq [OF assms(1)] comp_def)
qed

end
