(* ===== verification/AverageValues.thy ===== *)
theory AverageValues
  imports Datasets Categorizer
begin

text \<open>
  \<open>plotAverageValues\<close> (lines 98--107): for every run and every category of
  the first dataset, the mean of the column means of the category
  (\<open>dF[cat].mean().mean()\<close>). Proved: success and the order of the table
  (C16), equality with the flattened mean without NaN (C17), bounds (C18),
  and the \<open>KeyError\<close> of a missing column (C19). Lemma
  \<open>plotAverageValues_nan_weighting\<close> shows on one dataset that with NaN the
  two means differ.
\<close>

section \<open>plotAverageValues (lines 98--107)\<close>

text \<open>
  \<open>dF[cat].mean().mean()\<close> for one category: the mean of the column means.
\<close>

definition category_mean :: "dataset \<Rightarrow> string list \<Rightarrow> py_error + real option" where
  "category_mean dF ccols =
     (case select dF ccols of
        Inl e \<Rightarrow> Inl e
      | Inr sub \<Rightarrow> Inr (mean_skipna (frame_mean sub)))"

text \<open>
  The returned frame (after \<open>from_dict\<close> and \<open>reindex(cat.keys())\<close>), as its
  columns: run name \<open>\<mapsto>\<close> (category \<open>\<mapsto>\<close> mean), categories in the order of
  \<open>cat\<close>.
\<close>

definition plotAverageValues ::
  "schema \<Rightarrow> dataset odict \<Rightarrow> py_error + (real option odict) odict" where
  "plotAverageValues s datas =
     (case first_dataset datas of
        Inl e \<Rightarrow> Inl e
      | Inr first \<Rightarrow>
          (let cat = cat2dict s first in
           case try_map (\<lambda>(name, dF).
                   case try_map (\<lambda>(cname, ccols).
                          case category_mean dF ccols of
                            Inl e \<Rightarrow> Inl e
                          | Inr v \<Rightarrow> Inr (cname, v)) cat of
                     Inl e \<Rightarrow> Inl e
                   | Inr row \<Rightarrow> Inr (name, py_dict row)) datas of
             Inl e \<Rightarrow> Inl e
           | Inr tab \<Rightarrow> Inr (py_dict tab)))"

section \<open>Lemmas: plotAverageValues\<close>

lemma category_mean_ok:
  "set ccols \<subseteq> set (columns dF) \<Longrightarrow>
   category_mean dF ccols = Inr (mean_skipna (map (\<lambda>k. mean_skipna (the (map_of (cols dF) k))) ccols))"
  by (simp add: category_mean_def select_ok frame_mean_def comp_def)

lemma category_mean_Inl: "category_mean dF ccols = Inl e \<Longrightarrow> \<exists>ks. e = KeyErr ks"
  by (auto simp: category_mean_def select_def Let_def split: sum.splits if_splits)

lemma category_mean_bounds:
  assumes "category_mean dF ccols = Inr (Some v)"
    and "\<forall>x. Some x \<in> frame_values dF \<longrightarrow> a \<le> x \<and> x \<le> b"
  shows "a \<le> v \<and> v \<le> b"
proof -
  from assms(1) have sub: "set ccols \<subseteq> set (columns dF)"
    and v: "mean_skipna (map (\<lambda>k. mean_skipna (the (map_of (cols dF) k))) ccols) = Some v"
    by (auto simp: category_mean_def select_def frame_mean_def comp_def filter_empty_conv
             split: if_splits)
  have "a \<le> x \<and> x \<le> b" if "Some x \<in> set (map (\<lambda>k. mean_skipna (the (map_of (cols dF) k))) ccols)" for x
  proof -
    from that obtain k where k: "k \<in> set ccols" and x: "mean_skipna (the (map_of (cols dF) k)) = Some x"
      by auto
    from k sub have "(k, the (map_of (cols dF) k)) \<in> set (cols dF)"
      by (intro map_of_in_columns) auto
    then have "\<forall>y. Some y \<in> set (the (map_of (cols dF) k)) \<longrightarrow> a \<le> y \<and> y \<le> b"
      using assms(2) by (force simp: frame_values_def)
    from this x show ?thesis by (rule mean_skipna_bounds)
  qed
  with v show ?thesis by (intro mean_skipna_bounds) auto
qed

lemma plotAverageValues_ok:
  assumes "datas \<noteq> []" and "distinct (map fst datas)"
    and "\<forall>d\<in>set datas. set (concat (map snd (cat2dict s (snd (hd datas))))) \<subseteq> set (columns (snd d))"
  shows "plotAverageValues s datas =
           Inr (map (\<lambda>(name, dF). (name,
                  map (\<lambda>(c, cc). (c, mean_skipna (map (\<lambda>k. mean_skipna (the (map_of (cols dF) k))) cc)))
                    (cat2dict s (snd (hd datas))))) datas)"
proof -
  let ?cat = "cat2dict s (snd (hd datas))"
  let ?row = "\<lambda>dF. map (\<lambda>(c, cc). (c, mean_skipna (map (\<lambda>k. mean_skipna (the (map_of (cols dF) k))) cc))) ?cat"
  have first: "first_dataset datas = Inr (snd (hd datas))"
    using assms(1) by (rule first_dataset_hd)
  have rows: "try_map (\<lambda>(cname, ccols). case category_mean dF ccols of Inl e \<Rightarrow> Inl e
                                        | Inr v \<Rightarrow> Inr (cname, v)) ?cat = Inr (?row dF)"
    if "set (concat (map snd ?cat)) \<subseteq> set (columns dF)" for dF
  proof (rule try_map_map)
    fix x assume "x \<in> set ?cat"
    with that have "set (snd x) \<subseteq> set (columns dF)" by auto
    then show "(\<lambda>(cname, ccols). case category_mean dF ccols of Inl e \<Rightarrow> Inl e
                 | Inr v \<Rightarrow> Inr (cname, v)) x =
               Inr ((\<lambda>(c, cc). (c, mean_skipna (map (\<lambda>k. mean_skipna (the (map_of (cols dF) k))) cc))) x)"
      by (simp add: category_mean_ok case_prod_beta)
  qed
  have dk: "distinct (map fst (?row dF))" for dF
    by (simp only: map_fst_map_pair) (simp add: cat2dict_def distinct_py_dict)
  have "try_map (\<lambda>(name, dF). case try_map (\<lambda>(cname, ccols). case category_mean dF ccols of Inl e \<Rightarrow> Inl e
                                        | Inr v \<Rightarrow> Inr (cname, v)) ?cat of
                     Inl e \<Rightarrow> Inl e
                   | Inr row \<Rightarrow> Inr (name, py_dict row)) datas =
        Inr (map (\<lambda>(name, dF). (name, ?row dF)) datas)"
  proof (rule try_map_map)
    fix x assume x: "x \<in> set datas"
    obtain name dF where nd: "x = (name, dF)" by fastforce
    from x assms(3) have "set (concat (map snd ?cat)) \<subseteq> set (columns dF)" unfolding nd by fastforce
    from rows [OF this] show "(\<lambda>(name, dF). case try_map (\<lambda>(cname, ccols). case category_mean dF ccols of Inl e \<Rightarrow> Inl e
                                        | Inr v \<Rightarrow> Inr (cname, v)) ?cat of
                     Inl e \<Rightarrow> Inl e
                   | Inr row \<Rightarrow> Inr (name, py_dict row)) x = Inr ((\<lambda>(name, dF). (name, ?row dF)) x)"
      by (simp add: nd py_dict_distinct [OF dk])
  qed
  moreover have "distinct (map fst (map (\<lambda>(name, dF). (name, ?row dF)) datas))"
    using assms(2) by (simp add: comp_def case_prod_beta)
  ultimately show ?thesis
    using first by (simp add: plotAverageValues_def py_dict_distinct Let_def)
qed


lemma plotAverageValues_Inl:
  "datas \<noteq> [] \<Longrightarrow> plotAverageValues s datas = Inl e \<Longrightarrow> \<exists>ks. e = KeyErr ks"
  by (cases datas)
     (auto simp: plotAverageValues_def first_dataset_def Let_def split: sum.splits
           dest!: try_map_Inl_ex category_mean_Inl)

lemma plotAverageValues_value:
  assumes "plotAverageValues s datas = Inr tab" and "(name, row) \<in> set tab" and "(c, Some v) \<in> set row"
  shows "\<exists>dF cc. dF \<in> snd ` set datas \<and> category_mean dF cc = Inr (Some v)"
proof -
  from assms(1) obtain first rs where
    rs: "try_map (\<lambda>(name, dF). case try_map (\<lambda>(cname, ccols). case category_mean dF ccols of
              Inl e \<Rightarrow> Inl e | Inr v \<Rightarrow> Inr (cname, v)) (cat2dict s (first :: dataset)) of
            Inl e \<Rightarrow> Inl e | Inr row \<Rightarrow> Inr (name, py_dict row)) datas = Inr rs"
    and tab: "tab = py_dict rs"
    by (auto simp: plotAverageValues_def Let_def split: sum.splits)
  from assms(2) tab set_py_dict have "(name, row) \<in> set rs" by fastforce
  from try_map_Inr_set [OF rs this] obtain dF r where
    dF: "(name, dF) \<in> set datas" and
    r: "try_map (\<lambda>(cname, ccols). case category_mean dF ccols of
              Inl e \<Rightarrow> Inl e | Inr v \<Rightarrow> Inr (cname, v)) (cat2dict s (first :: dataset)) = Inr r"
    and row: "row = py_dict r"
    by (auto split: sum.splits)
  from assms(3) row set_py_dict have "(c, Some v) \<in> set r" by fastforce
  from try_map_Inr_set [OF r this] obtain cc where "category_mean dF cc = Inr (Some v)"
    by (auto split: sum.splits)
  with dF show ?thesis by force
qed

lemma category_flat:
  assumes "wf_frame dF" and "0 < nrows dF" and "None \<notin> frame_values dF"
    and "set cc \<subseteq> set (columns dF)"
  shows "mean_skipna (map (\<lambda>k. mean_skipna (the (map_of (cols dF) k))) cc) =
         mean (concat (map (\<lambda>k. dropna (the (map_of (cols dF) k))) cc))"
proof -
  let ?col = "\<lambda>k. the (map_of (cols dF) k)"
  have col: "length (dropna (?col k)) = nrows dF \<and>
             mean_skipna (?col k) = Some (sum_list (dropna (?col k)) / real (nrows dF))"
    if "k \<in> set cc" for k
  proof -
    from that assms(4) have "(k, ?col k) \<in> set (cols dF)"
      by (intro map_of_in_columns) auto
    with assms(1,3) have "length (?col k) = nrows dF" and "None \<notin> set (?col k)"
      by (fastforce simp: wf_frame_def list_all_iff frame_values_def)+
    then have len: "length (dropna (?col k)) = nrows dF"
      by (metis dropna_no_None length_map)
    with assms(2) show ?thesis
      by (auto simp: mean_skipna_def mean_def)
  qed
  then have eq1: "map (\<lambda>k. mean_skipna (?col k)) cc =
             map Some (map (\<lambda>xs. sum_list xs / real (nrows dF)) (map (\<lambda>k. dropna (?col k)) cc))"
    by simp
  moreover have "mean (map (\<lambda>xs. sum_list xs / real (nrows dF)) (map (\<lambda>k. dropna (?col k)) cc)) =
                 mean (concat (map (\<lambda>k. dropna (?col k)) cc))"
    using col assms(2) by (intro mean_of_means) auto
  ultimately show ?thesis
    unfolding eq1 by (simp only: mean_skipna_def dropna_map_Some)
qed

lemma plotAverageValues_value_bounds:
  assumes "plotAverageValues s datas = Inr tab"
    and "\<forall>d\<in>set datas. \<forall>x. Some x \<in> frame_values (snd d) \<longrightarrow> a \<le> x \<and> x \<le> b"
    and "(name, row) \<in> set tab" and "(c, Some v) \<in> set row"
  shows "a \<le> v \<and> v \<le> b"
proof -
  from plotAverageValues_value [OF assms(1,3,4)] obtain dF cc
    where dF: "dF \<in> snd ` set datas" and cm: "category_mean dF cc = Inr (Some v)" by blast
  from dF assms(2) have "\<forall>x. Some x \<in> frame_values dF \<longrightarrow> a \<le> x \<and> x \<le> b" by auto
  from category_mean_bounds [OF cm this] show ?thesis .
qed


section \<open>Claims: plotAverageValues\<close>

text \<open>
  C16. When every dataset has the columns of the categories of the first
  one, \<open>plotAverageValues\<close> succeeds; its table has one column per run, in
  the order of \<open>datas\<close>, and one row per category, in the order of the
  schema.
\<close>

theorem plotAverageValues_order:
  assumes "datas \<noteq> []" and "distinct (map fst datas)" and "distinct (categories s)"
    and "\<forall>d\<in>set datas. set (concat (map snd (cat2dict s (snd (hd datas))))) \<subseteq> set (columns (snd d))"
  shows "\<exists>tab. plotAverageValues s datas = Inr tab \<and> map fst tab = map fst datas \<and>
               list_all (\<lambda>r. map fst (snd r) = categories s) tab"
  using plotAverageValues_ok [OF assms(1,2,4)]
  by (auto simp: list_all_iff cat2dict_eq [OF assms(3)] comp_def)

theorem plotAverageValues_order_witness:
  "\<exists>tab. plotAverageValues usabilla [(''A'', ds_A), (''B'', ds_B)] = Inr tab \<and>
         map fst tab = [''A'', ''B''] \<and>
         list_all (\<lambda>r. map fst (snd r) = [''QP'', ''QHI'', ''QHS'', ''ATT'']) tab"
  using plotAverageValues_order [of "[(''A'', ds_A), (''B'', ds_B)]" usabilla]
  by (simp add: usabilla_def cat2dict_def py_dict_def columns_def sample_datasets)

text \<open>
  C17. Without NaN, the value of a category is the mean of all the cells of
  its columns: the mean of the column means that the code computes
  (\<open>dF[cat].mean().mean()\<close>) equals the mean of the flattened sub-table,
  because all columns have the same length.
\<close>

theorem plotAverageValues_flat:
  assumes "datas \<noteq> []" and "distinct (map fst datas)"
    and "\<forall>d\<in>set datas. set (concat (map snd (cat2dict s (snd (hd datas))))) \<subseteq> set (columns (snd d))"
    and "\<forall>d\<in>set datas. wf_frame (snd d) \<and> 0 < nrows (snd d) \<and> None \<notin> frame_values (snd d)"
  shows "plotAverageValues s datas =
           Inr (map (\<lambda>(name, dF). (name,
                  map (\<lambda>(c, cc). (c, mean (concat (map (\<lambda>k. dropna (the (map_of (cols dF) k))) cc))))
                    (cat2dict s (snd (hd datas))))) datas)"
proof -
  let ?cat = "cat2dict s (snd (hd datas))"
  have row: "map (\<lambda>(c, cc). (c, mean_skipna (map (\<lambda>k. mean_skipna (the (map_of (cols dF) k))) cc))) ?cat =
             map (\<lambda>(c, cc). (c, mean (concat (map (\<lambda>k. dropna (the (map_of (cols dF) k))) cc)))) ?cat"
    if d: "(name, dF) \<in> set datas" for name dF
  proof (rule map_cong [OF refl])
    fix x assume x: "x \<in> set ?cat"
    obtain c cc where xc: "x = (c, cc)" by fastforce
    from d x assms(3) have "set cc \<subseteq> set (columns dF)" unfolding xc by fastforce
    with d assms(4) show "(\<lambda>(c, cc). (c, mean_skipna (map (\<lambda>k. mean_skipna (the (map_of (cols dF) k))) cc))) x =
          (\<lambda>(c, cc). (c, mean (concat (map (\<lambda>k. dropna (the (map_of (cols dF) k))) cc)))) x"
      unfolding xc by (fastforce intro: category_flat)
  qed
  show ?thesis
    unfolding plotAverageValues_ok [OF assms(1-3)]
    by (fastforce intro: map_cong dest: row)
qed

theorem plotAverageValues_flat_witness:
  "plotAverageValues usabilla [(''C'', ds_C)] =
     Inr [(''C'', [(''QP'', Some (3/2)), (''QHI'', None), (''QHS'', None), (''ATT'', Some 0)])]"
  using plotAverageValues_flat [of "[(''C'', ds_C)]" usabilla]
  by (simp add: usabilla_def cat2dict_def py_dict_def columns_def sample_datasets wf_frame_def
                frame_values_def mean_def)


text \<open>
  With NaN the two means differ: \<open>dF[cat].mean().mean()\<close> weights every
  column equally whatever its number of NaN, so a category whose columns
  have 3 and (0, 0) reports 3/2, while the mean of its cells (which is what
  \<open>plotAttrakdiff\<close> uses through \<open>stack\<close>) is 1.
\<close>

lemma plotAverageValues_nan_weighting:
  "plotAverageValues usabilla [(''N'', ds_nan)] =
     Inr [(''N'', [(''QP'', Some (3/2)), (''QHI'', None), (''QHS'', None), (''ATT'', None)])] \<and>
   mean (stack ds_nan) = Some 1"
proof
  show "plotAverageValues usabilla [(''N'', ds_nan)] =
     Inr [(''N'', [(''QP'', Some (3/2)), (''QHI'', None), (''QHS'', None), (''ATT'', None)])]"
    by (simp add: plotAverageValues_def first_dataset_def cat2dict_def usabilla_def columns_def
                  py_dict_def category_mean_def select_def frame_mean_def mean_skipna_def mean_def
                  ds_nan_def)
  have "stack ds_nan = [3, 0, 0]"
    by (simp add: stack_def ds_nan_def upt_conv_Cons)
  then show "mean (stack ds_nan) = Some 1"
    by (simp add: mean_def)
qed

text \<open>
  C18. Every category mean of a successful \<open>plotAverageValues\<close> lies within
  the bounds of the cells of the datasets (so in [-3, 3] after \<open>loadCSV\<close>).
\<close>

theorem plotAverageValues_bounds:
  assumes "plotAverageValues s datas = Inr tab"
    and "\<forall>d\<in>set datas. \<forall>x. Some x \<in> frame_values (snd d) \<longrightarrow> a \<le> x \<and> x \<le> b"
    and "(name, row) \<in> set tab" and "(c, Some v) \<in> set row"
  shows "a \<le> v \<and> v \<le> b"
  using assms by (rule plotAverageValues_value_bounds)

theorem plotAverageValues_bounds_witness:
  "list_all (\<lambda>(name, row). list_all (\<lambda>(c, v). case v of None \<Rightarrow> True | Some x \<Rightarrow> -3 \<le> x \<and> x \<le> 3) row)
     (projr (plotAverageValues usabilla [(''A'', ds_A), (''B'', ds_B)]))"
proof -
  have "\<exists>T. plotAverageValues usabilla [(''A'', ds_A), (''B'', ds_B)] = Inr T"
    by (simp add: plotAverageValues_def first_dataset_def cat2dict_def usabilla_def columns_def
                  py_dict_def category_mean_def select_def sample_datasets)
  then obtain T where tab: "plotAverageValues usabilla [(''A'', ds_A), (''B'', ds_B)] = Inr T" by blast
  have cells: "\<forall>d\<in>set [(''A'', ds_A), (''B'', ds_B)]. \<forall>x. Some x \<in> frame_values (snd d) \<longrightarrow> -3 \<le> x \<and> x \<le> 3"
    by (auto simp: sample_datasets frame_values_def)
  have b: "-3 \<le> x \<and> x \<le> 3" if "(name, row) \<in> set T" "(c, Some x) \<in> set row" for name row c x
    using plotAverageValues_bounds [OF tab cells that] .
  show ?thesis
    unfolding tab sum.sel list_all_iff
    by (fastforce split: option.splits dest: b)
qed

lemma plotAverageValues_KeyErr:
  assumes "d \<in> set datas" and "(c, cc) \<in> set (cat2dict s (snd (hd datas)))"
    and "k \<in> set cc" and "k \<notin> set (columns (snd d))"
  shows "\<exists>ks. plotAverageValues s datas = Inl (KeyErr ks)"
proof -
  obtain n dF where d: "d = (n, dF)" by fastforce
  let ?cat = "cat2dict s (snd (hd datas))"
  let ?inner = "\<lambda>dF. try_map (\<lambda>(cname, ccols). case category_mean dF ccols of
                   Inl e \<Rightarrow> Inl e | Inr v \<Rightarrow> Inr (cname, v)) ?cat"
  let ?outer = "\<lambda>(name, dF). case ?inner dF of Inl e \<Rightarrow> Inl e | Inr row \<Rightarrow> Inr (name, py_dict row)"
  from assms(3,4) have "\<not> set cc \<subseteq> set (columns dF)" by (auto simp: d)
  then obtain e where "category_mean dF cc = Inl e"
    by (simp add: category_mean_def select_missing)
  then obtain e' where "?inner dF = Inl e'"
    using try_map_Inl [where f = "\<lambda>(cname, ccols). case category_mean dF ccols of
                   Inl e \<Rightarrow> Inl e | Inr v \<Rightarrow> Inr (cname, v)", OF assms(2)] by fastforce
  then have "?outer d = Inl e'" by (simp add: d)
  then obtain e'' where outer: "try_map ?outer datas = Inl e''"
    using try_map_Inl [where f = ?outer, OF assms(1)] by blast
  from assms(1) obtain x xs where datas: "datas = x # xs" by (cases datas) auto
  from outer have "plotAverageValues s datas = Inl e''"
    by (simp add: plotAverageValues_def first_dataset_def datas)
  with datas show ?thesis using plotAverageValues_Inl by blast
qed

text \<open>
  C19. A dataset that lacks a column of a category of the first dataset makes
  \<open>plotAverageValues\<close> raise \<open>KeyError\<close>.
\<close>

theorem plotAverageValues_missing_column:
  assumes "d \<in> set datas" and "(c, cc) \<in> set (cat2dict s (snd (hd datas)))"
    and "k \<in> set cc" and "k \<notin> set (columns (snd d))"
  shows "\<exists>ks. plotAverageValues s datas = Inl (KeyErr ks)"
  using assms by (rule plotAverageValues_KeyErr)

theorem plotAverageValues_missing_column_witness:
  "\<exists>ks. plotAverageValues usabilla [(''A'', ds_A), (''B'', ds_nan)] = Inl (KeyErr ks)"
  by (rule plotAverageValues_missing_column [where d = "(''B'', ds_nan)" and c = "''QHI''"
        and cc = "[''QHI1'']" and k = "''QHI1''"])
     (simp_all add: usabilla_def cat2dict_def py_dict_def columns_def sample_datasets)

end
