(* ===== verification/WordPair.thy ===== *)
theory WordPair
  imports Datasets Schema
begin

text \<open>
  \<open>plotWordPair\<close> (lines 111--148): the mean of every column of every run,
  and the geometry it draws: the points (line 121), the category boxes
  (lines 123--130) and the tick labels (lines 134--137). Proved: the exact
  result (C20), the tiling of the boxes (C21), the alignment of labels and
  points (C22), and that the boxes mirror the rows of their columns (C23).
  The \<open>KeyError\<close> of an unknown language is lemma \<open>plotWordPair_bad_lang\<close>;
  the figure it leaves is C5 in \<open>Figures\<close>.
\<close>

section \<open>plotWordPair (lines 111--148)\<close>

text \<open>
  Line 117: \<open>{name: {col: dF[col].mean() for col in columns} ...}\<close> over the
  columns of the first dataset.
\<close>

definition pair_means :: "string list \<Rightarrow> dataset \<Rightarrow> py_error + real option odict" where
  "pair_means labels dF =
     (case try_map (\<lambda>col. case dict_get (cols dF) col of
                             Inl e \<Rightarrow> Inl e
                           | Inr v \<Rightarrow> Inr (col, mean_skipna v)) labels of
        Inl e \<Rightarrow> Inl e
      | Inr row \<Rightarrow> Inr (py_dict row))"

text \<open>
  Lines 123--130: one box per category (at most four: \<open>zip\<close> with four
  colours), starting at row \<open>y\<close> and \<open>size\<close> rows high, \<open>y\<close> growing by
  \<open>size\<close>. The box is placed at \<open>xpos[lang]\<close>, a dictionary of the three
  supported languages.
\<close>

fun category_boxes :: "nat \<Rightarrow> string list \<Rightarrow> string list \<Rightarrow> (string \<times> nat \<times> nat) list" where
  "category_boxes y [] labels = []"
| "category_boxes y (c # cs) labels =
     (let size = length (filter (\<lambda>x. py_in c x) labels) in
      (c, y, size) # category_boxes (y + size) cs labels)"

definition box_langs :: "string list" where
  "box_langs = [''en'', ''fr'', ''de'']"

definition word_pair_boxes ::
  "schema \<Rightarrow> string \<Rightarrow> string list \<Rightarrow> py_error + (string \<times> nat \<times> nat) list" where
  "word_pair_boxes s lang labels =
     (let cats = take 4 (categories s) in
      if cats \<noteq> [] \<and> lang \<notin> set box_langs then Inl (KeyErr [lang])
      else Inr (category_boxes 1 cats labels))"

text \<open>
  Line 121: the points of a dataset, one per column, the column at position
  \<open>j\<close> drawn at row \<open>len(val) - j\<close> (\<open>range(len(val), 0, -1)\<close>).
\<close>

definition point_rows :: "string list \<Rightarrow> (string \<times> nat) list" where
  "point_rows labels = zip labels (rev [1..<Suc (length labels)])"

text \<open>
  Lines 134--137: the tick labels, the labels of the columns followed by an
  empty label, reversed, at the rows \<open>0, 1, \<dots>\<close> (\<open>set_yticks(range(...))\<close>).
  A column is represented by its key (the text drawn is \<open>pairs[col][lang]\<close>).
\<close>

definition tick_rows :: "string list \<Rightarrow> (string \<times> nat) list" where
  "tick_rows labels = zip (rev (labels @ [''''])) [0..<Suc (length labels)]"

text \<open>
  Lines 134--135: the left and right labels of every column of the first
  dataset, \<open>pairs[col][lang]\<close>; a column that is not a key of \<open>pairs\<close>, or a
  language in which \<open>pairs\<close> has no labels, raises \<open>KeyError\<close> at the first
  column.
\<close>

definition pair_labels :: "schema \<Rightarrow> string \<Rightarrow> string list \<Rightarrow> py_error + unit" where
  "pair_labels s lang labels =
     (case try_map (\<lambda>col. if col \<notin> set (pair_keys s) then Inl (KeyErr [col])
                          else if lang \<notin> set (pair_langs s) then Inl (KeyErr [lang])
                          else Inr ()) labels of
        Inl e \<Rightarrow> Inl e
      | Inr _ \<Rightarrow> Inr ())"

text \<open>
  The whole function: the table (line 117), the boxes (123--130), the pair
  labels (133--134), and the title \<open>plt_pair[lang]\<close> (line 146), which
  raises for a language without labels even when there is no column.
\<close>

definition plotWordPair ::
  "schema \<Rightarrow> string \<Rightarrow> dataset odict \<Rightarrow>
   py_error + (real option odict) odict \<times> (string \<times> nat \<times> nat) list" where
  "plotWordPair s lang datas =
     (case first_dataset datas of
        Inl e \<Rightarrow> Inl e
      | Inr first \<Rightarrow>
          (case try_map (\<lambda>(name, dF). case pair_means (columns first) dF of
                                        Inl e \<Rightarrow> Inl e
                                      | Inr row \<Rightarrow> Inr (name, row)) datas of
             Inl e \<Rightarrow> Inl e
           | Inr dd \<Rightarrow>
               (case word_pair_boxes s lang (columns first) of
                  Inl e \<Rightarrow> Inl e
                | Inr boxes \<Rightarrow>
                    (case pair_labels s lang (columns first) of
                       Inl e \<Rightarrow> Inl e
                     | Inr _ \<Rightarrow>
                         if lang \<notin> set (pair_langs s) then Inl (KeyErr [lang])
                         else Inr (py_dict dd, boxes)))))"

section \<open>Lemmas: plotWordPair\<close>

lemma pair_means_ok:
  assumes "set labels \<subseteq> set (columns dF)" and "distinct labels"
  shows "pair_means labels dF = Inr (map (\<lambda>col. (col, mean_skipna (the (map_of (cols dF) col)))) labels)"
proof -
  have "try_map (\<lambda>col. case dict_get (cols dF) col of Inl e \<Rightarrow> Inl e
                     | Inr v \<Rightarrow> Inr (col, mean_skipna v)) labels =
        Inr (map (\<lambda>col. (col, mean_skipna (the (map_of (cols dF) col)))) labels)"
    using assms(1) by (intro try_map_map) (auto simp: dict_get_columns)
  with assms(2) show ?thesis
    by (simp add: pair_means_def py_dict_distinct comp_def)
qed

lemma pair_labels_ok:
  "set labels \<subseteq> set (pair_keys s) \<Longrightarrow> lang \<in> set (pair_langs s) \<Longrightarrow> pair_labels s lang labels = Inr ()"
proof -
  assume "set labels \<subseteq> set (pair_keys s)" and "lang \<in> set (pair_langs s)"
  then have "try_map (\<lambda>col. if col \<notin> set (pair_keys s) then Inl (KeyErr [col])
                     else if lang \<notin> set (pair_langs s) then Inl (KeyErr [lang]) else Inr ()) labels =
             Inr (map (\<lambda>_. ()) labels)"
    by (intro try_map_map) auto
  then show ?thesis by (simp add: pair_labels_def)
qed

lemma word_pair_boxes_ok:
  "lang \<in> set box_langs \<Longrightarrow> word_pair_boxes s lang labels = Inr (category_boxes 1 (take 4 (categories s)) labels)"
  by (simp add: word_pair_boxes_def)

lemma category_boxes_length [simp]: "length (category_boxes y cats labels) = length cats"
  by (induction y cats labels rule: category_boxes.induct) (simp_all add: Let_def)

lemma category_boxes_nth:
  "i < length cats \<Longrightarrow>
   category_boxes y cats labels ! i =
     (cats ! i, y + sum_list (map (\<lambda>c. length (filter (py_in c) labels)) (take i cats)),
      length (filter (py_in (cats ! i)) labels))"
proof (induction y cats labels arbitrary: i rule: category_boxes.induct)
  case (1 y labels)
  then show ?case by simp
next
  case (2 y c cs labels)
  then show ?case by (cases i) (simp_all add: Let_def)
qed

lemma pair_means_Inr:
  "set labels \<subseteq> set (columns dF) \<Longrightarrow> \<exists>r. pair_means labels dF = Inr r"
proof -
  assume "set labels \<subseteq> set (columns dF)"
  then have "\<exists>r. try_map (\<lambda>col. case dict_get (cols dF) col of Inl e \<Rightarrow> Inl e
                     | Inr v \<Rightarrow> Inr (col, mean_skipna v)) labels = Inr r"
    by (intro try_map_Inr_ex) (auto simp: dict_get_columns)
  then show ?thesis by (auto simp: pair_means_def)
qed

lemma map_fst_category_boxes: "map fst (category_boxes y cats labels) = cats"
  by (induction y cats labels rule: category_boxes.induct) (simp_all add: Let_def)

lemma map_size_category_boxes:
  "map (\<lambda>b. snd (snd b)) (category_boxes y cats labels) = map (\<lambda>c. length (filter (py_in c) labels)) cats"
  by (induction y cats labels rule: category_boxes.induct) (simp_all add: Let_def)

lemma pair_table_Inr:
  assumes "\<forall>d\<in>set datas. set labels \<subseteq> set (columns (snd d))"
  shows "\<exists>dd. try_map (\<lambda>(name, dF). case pair_means labels dF of Inl e \<Rightarrow> Inl e
                   | Inr row \<Rightarrow> Inr (name, row)) datas = Inr dd"
proof (rule try_map_Inr_ex, rule ballI)
  fix x assume x: "x \<in> set datas"
  obtain name dF where nd: "x = (name, dF)" by fastforce
  from x assms have "set labels \<subseteq> set (columns dF)" unfolding nd by fastforce
  from pair_means_Inr [OF this] show "\<exists>y. (\<lambda>(name, dF). case pair_means labels dF of Inl e \<Rightarrow> Inl e
                   | Inr row \<Rightarrow> Inr (name, row)) x = Inr y"
    by (auto simp: nd)
qed

lemma nth_concat_map_take:
  assumes "i < length xs" and "k < length (g (xs ! i))"
  shows "length (concat (map g (take i xs))) + k < length (concat (map g xs)) \<and>
         concat (map g xs) ! (length (concat (map g (take i xs))) + k) = g (xs ! i) ! k"
proof -
  have xs: "xs = take i xs @ xs ! i # drop (Suc i) xs"
    using assms(1) by (rule id_take_nth_drop)
  have "concat (map g xs) = concat (map g (take i xs)) @ g (xs ! i) @ concat (map g (drop (Suc i) xs))"
    by (subst xs) simp
  with assms(2) show ?thesis by (simp add: nth_append)
qed

lemma point_rows_nth:
  "p < length labels \<Longrightarrow> point_rows labels ! p = (labels ! p, length labels - p)"
  by (simp add: point_rows_def rev_nth del: upt_Suc)

section \<open>Claims: plotWordPair\<close>

text \<open>
  C20. When every dataset has the columns of the first one, the language is
  one of those of \<open>xpos\<close> and of \<open>pairs\<close>, and every column is a key of
  \<open>pairs\<close>, \<open>plotWordPair\<close> returns the mean of every column of every
  dataset, columns in the order of the first dataset, and draws one box per
  category (at most four).
\<close>

theorem plotWordPair_ok:
  assumes "datas \<noteq> []" and "distinct (map fst datas)" and "distinct (columns (snd (hd datas)))"
    and "\<forall>d\<in>set datas. set (columns (snd (hd datas))) \<subseteq> set (columns (snd d))"
    and "lang \<in> set box_langs" and "set (columns (snd (hd datas))) \<subseteq> set (pair_keys s)"
    and "lang \<in> set (pair_langs s)"
  shows "plotWordPair s lang datas =
           Inr (map (\<lambda>(name, dF). (name,
                  map (\<lambda>col. (col, mean_skipna (the (map_of (cols dF) col)))) (columns (snd (hd datas))))) datas,
                category_boxes 1 (take 4 (categories s)) (columns (snd (hd datas))))"
proof -
  let ?labels = "columns (snd (hd datas))"
  let ?row = "\<lambda>dF. map (\<lambda>col. (col, mean_skipna (the (map_of (cols dF) col)))) ?labels"
  have first: "first_dataset datas = Inr (snd (hd datas))"
    using assms(1) by (rule first_dataset_hd)
  have "try_map (\<lambda>(name, dF). case pair_means ?labels dF of Inl e \<Rightarrow> Inl e
                   | Inr row \<Rightarrow> Inr (name, row)) datas = Inr (map (\<lambda>(name, dF). (name, ?row dF)) datas)"
  proof (rule try_map_map)
    fix x assume x: "x \<in> set datas"
    obtain name dF where nd: "x = (name, dF)" by fastforce
    from x assms(4) have "set ?labels \<subseteq> set (columns dF)" unfolding nd by fastforce
    with assms(3) show "(\<lambda>(name, dF). case pair_means ?labels dF of Inl e \<Rightarrow> Inl e
                   | Inr row \<Rightarrow> Inr (name, row)) x = Inr ((\<lambda>(name, dF). (name, ?row dF)) x)"
      by (simp add: nd pair_means_ok)
  qed
  moreover have "distinct (map fst (map (\<lambda>(name, dF). (name, ?row dF)) datas))"
    using assms(2) by (simp only: map_fst_map_pair)
  ultimately show ?thesis
    using first assms(5-7)
    by (simp add: plotWordPair_def word_pair_boxes_ok pair_labels_ok py_dict_distinct)
qed

theorem plotWordPair_ok_witness:
  "plotWordPair usabilla ''en'' [(''A'', ds_A), (''B'', ds_B)] =
     Inr ([(''A'', [(''QP1'', Some 2), (''QHI1'', Some 2), (''QHS1'', Some (-1/2)), (''ATT1'', Some 3)]),
           (''B'', [(''QP1'', Some 0), (''QHI1'', Some 1), (''QHS1'', Some 1), (''ATT1'', None)])],
          [(''QP'', 1, 1), (''QHI'', 2, 1), (''QHS'', 3, 1), (''ATT'', 4, 1)])"
  using plotWordPair_ok [of "[(''A'', ds_A), (''B'', ds_B)]" "''en''" usabilla]
  by (simp add: usabilla_defs box_langs_def columns_def sample_datasets mean_skipna_def mean_def)

text \<open>
  C21. The category boxes tile the rows: they are drawn in the order of the
  categories, each starts where the previous one ends (the first at row 1),
  and when every column belongs to exactly one of the (first four)
  categories their heights add up to the number of columns.
\<close>

theorem word_pair_boxes_tile:
  assumes "lang \<in> set box_langs"
    and "\<forall>col\<in>set labels. length (filter (\<lambda>c. py_in c col) (take 4 (categories s))) = 1"
  shows "\<exists>bs. word_pair_boxes s lang labels = Inr bs \<and> map fst bs = take 4 (categories s) \<and>
              (\<forall>i<length bs. fst (snd (bs ! i)) = 1 + sum_list (map (\<lambda>b. snd (snd b)) (take i bs))) \<and>
              sum_list (map (\<lambda>b. snd (snd b)) bs) = length labels"
proof -
  let ?cats = "take 4 (categories s)"
  let ?bs = "category_boxes 1 ?cats labels"
  have "fst (snd (?bs ! i)) = 1 + sum_list (map (\<lambda>b. snd (snd b)) (take i ?bs))" if "i < length ?bs" for i
    using that by (simp add: category_boxes_nth take_map [symmetric] map_size_category_boxes del: take_map)
  moreover have "sum_list (map (\<lambda>b. snd (snd b)) ?bs) = length labels"
    using assms(2) by (simp add: map_size_category_boxes sum_list_filters_partition)
  ultimately show ?thesis
    using assms(1) by (simp add: word_pair_boxes_ok map_fst_category_boxes)
qed

theorem word_pair_boxes_tile_witness:
  "word_pair_boxes usabilla ''en'' usabilla_pairs =
     Inr [(''QP'', 1, 7), (''QHI'', 8, 7), (''QHS'', 15, 7), (''ATT'', 22, 7)] \<and>
   sum_list (map (\<lambda>b. snd (snd b))
     [(''QP'', 1::nat, 7::nat), (''QHI'', 8::nat, 7), (''QHS'', 15::nat, 7), (''ATT'', 22::nat, 7)]) =
     length usabilla_pairs"
proof -
  have "\<forall>col\<in>set usabilla_pairs. length (filter (\<lambda>c. py_in c col) (take 4 (categories usabilla))) = 1"
    by (simp add: usabilla_defs)
  then obtain bs where bs: "word_pair_boxes usabilla ''en'' usabilla_pairs = Inr bs"
    and sz: "sum_list (map (\<lambda>b. snd (snd b)) bs) = length usabilla_pairs"
    using word_pair_boxes_tile [of "''en''" usabilla_pairs usabilla] by (auto simp: box_langs_def)
  have wp: "word_pair_boxes usabilla ''en'' usabilla_pairs =
     Inr [(''QP'', 1, 7), (''QHI'', 8, 7), (''QHS'', 15, 7), (''ATT'', 22, 7)]"
    by (simp add: word_pair_boxes_def usabilla_defs box_langs_def)
  have bs_eq: "bs = [(''QP'', 1, 7), (''QHI'', 8, 7), (''QHS'', 15, 7), (''ATT'', 22, 7)]"
    using bs wp by simp
  show ?thesis using wp sz unfolding bs_eq by (rule conjI)
qed

text \<open>
  A language that is not a key of \<open>xpos\<close> makes \<open>plotWordPair\<close> raise
  \<open>KeyError\<close> on that language, once the means are computed and before
  any label is looked up (the spec asks for a \<open>ConfigError\<close>).
\<close>

lemma plotWordPair_bad_lang:
  assumes "datas \<noteq> []" and "\<forall>d\<in>set datas. set (columns (snd (hd datas))) \<subseteq> set (columns (snd d))"
    and "lang \<notin> set box_langs" and "categories s \<noteq> []"
  shows "plotWordPair s lang datas = Inl (KeyErr [lang])"
proof -
  let ?labels = "columns (snd (hd datas))"
  have first: "first_dataset datas = Inr (snd (hd datas))"
    using assms(1) by (rule first_dataset_hd)
  have "\<exists>dd. try_map (\<lambda>(name, dF). case pair_means ?labels dF of Inl e \<Rightarrow> Inl e
                   | Inr row \<Rightarrow> Inr (name, row)) datas = Inr dd"
    using assms(2) by (rule pair_table_Inr)
  moreover have "word_pair_boxes s lang ?labels = Inl (KeyErr [lang])"
    using assms(3,4) by (simp add: word_pair_boxes_def)
  ultimately show ?thesis
    using first by (auto simp: plotWordPair_def)
qed

text \<open>
  C22. The tick labels line up with the points: the label of the column
  drawn at row \<open>r\<close> is at tick \<open>r\<close>, and tick 0 is the empty label added at
  line 134.
\<close>

theorem tick_rows_point_rows:
  "tick_rows labels = ('''', 0) # rev (point_rows labels)"
proof -
  have "rev (zip labels (rev [1..<Suc (length labels)])) = zip (rev labels) [1..<Suc (length labels)]"
    using zip_rev [of labels "rev [1..<Suc (length labels)]"] by (simp del: upt_Suc)
  then show ?thesis
    by (simp add: tick_rows_def point_rows_def upt_conv_Cons del: upt_Suc)
qed

text \<open>
  C23. The category boxes are laid out from the top while the points are
  drawn from the bottom. When the columns are grouped by category, in the
  order of the categories (each column of group \<open>g c\<close> containing the name
  \<open>c\<close> and no other), the box of the \<open>i\<close>-th category starts at some row
  \<open>y\<close> and is as high as its group, so it gives the \<open>k\<close>-th column of the
  group the row \<open>y + k\<close>; but that column is drawn at row
  \<open>n + 1 - (y + k)\<close>, its mirror image (\<open>n\<close> the number of columns). The
  boxes frame their own columns only when the layout is symmetric.
\<close>

theorem word_pair_box_rows:
  assumes lab: "labels = concat (map g cats)" and grp: "\<forall>c\<in>set cats. filter (py_in c) labels = g c"
    and i: "i < length cats" and k: "k < length (g (cats ! i))"
  shows "\<exists>y. category_boxes 1 cats labels ! i = (cats ! i, y, length (g (cats ! i))) \<and>
             point_rows labels ! (y - 1 + k) = (g (cats ! i) ! k, length labels + 1 - (y + k))"
proof -
  let ?S = "length (concat (map g (take i cats)))"
  have m: "map (\<lambda>c. length (filter (py_in c) labels)) (take i cats) = map (\<lambda>c. length (g c)) (take i cats)"
    using grp by (auto dest: in_set_takeD)
  have sum: "sum_list (map (\<lambda>c. length (filter (py_in c) labels)) (take i cats)) = ?S"
    unfolding m by (simp add: length_concat comp_def)
  have box: "category_boxes 1 cats labels ! i = (cats ! i, 1 + ?S, length (g (cats ! i)))"
    using category_boxes_nth [OF i, of 1 labels] sum grp i by simp
  from nth_concat_map_take [where g = g, OF i k] lab
  have p: "?S + k < length labels" and l: "labels ! (?S + k) = g (cats ! i) ! k" by simp_all
  have "point_rows labels ! (?S + k) = (g (cats ! i) ! k, length labels + 1 - (1 + ?S + k))"
    using point_rows_nth [OF p] l p by simp
  with box show ?thesis by (intro exI [of _ "1 + ?S"]) simp
qed

theorem word_pair_box_rows_witness:
  "category_boxes 1 [''QP'', ''QHI''] [''QP1'', ''QHI1''] ! 0 = (''QP'', 1, 1) \<and>
   point_rows [''QP1'', ''QHI1''] ! 0 = (''QP1'', 2)"
proof -
  let ?g = "\<lambda>c. if c = ''QP'' then [''QP1''] else [''QHI1'']"
  have "\<exists>y. category_boxes 1 [''QP'', ''QHI''] [''QP1'', ''QHI1''] ! 0 = ([''QP'', ''QHI''] ! 0, y, length (?g ([''QP'', ''QHI''] ! 0))) \<and>
             point_rows [''QP1'', ''QHI1''] ! (y - 1 + 0) =
               (?g ([''QP'', ''QHI''] ! 0) ! 0, length [''QP1'', ''QHI1''] + 1 - (y + 0))"
    by (rule word_pair_box_rows) simp_all
  then obtain y where b: "category_boxes 1 [''QP'', ''QHI''] [''QP1'', ''QHI1''] ! 0 = (''QP'', y, 1)"
    and r: "point_rows [''QP1'', ''QHI1''] ! (y - 1) = (''QP1'', 3 - y)" by auto
  have "y = 1" using b by simp
  with b r show ?thesis by simp
qed

end
