(* ===== verification/Interval.thy ===== *)
theory Interval
  imports Prelude
begin

text \<open>
  \<open>interval(data, alpha)\<close> (\<open>src/src/attrakdiff.py\<close>, lines 49--57): the
  mean of a sample and scipy's \<open>stats.t.interval(alpha, len(data)-1,
  loc=mean, scale=stats.sem(data))\<close>. scipy's first argument is the
  confidence level. Its results are floats that may be NaN or infinite, so
  they are values of \<open>pyfloat\<close>; the Student-t quantile function
  (\<open>scipy.special.stdtrit\<close>, a library the code only calls) is the parameter
  \<open>qt df q\<close>, used only where scipy calls it (\<open>df > 0\<close>, \<open>0 < q < 1\<close>).
\<close>

section \<open>Floats with NaN and infinities\<close>

datatype pyfloat = Fin real | NegInf | PosInf | FNaN

section \<open>Sample statistics\<close>

text \<open>
  \<open>numpy.std(a, ddof=1)\<close>: NaN for fewer than two values (zero degrees of
  freedom).
\<close>

definition std1 :: "real list \<Rightarrow> real option" where
  "std1 xs =
     (case mean xs of
        None \<Rightarrow> None
      | Some m \<Rightarrow>
          if length xs \<le> 1 then None
          else Some (sqrt (sum_list (map (\<lambda>x. (x - m)\<^sup>2) xs) / real (length xs - 1))))"

text \<open>\<open>scipy.stats.sem(a)\<close>: \<open>std(a, ddof=1) / sqrt(n)\<close>.\<close>

definition sem :: "real list \<Rightarrow> real option" where
  "sem xs = map_option (\<lambda>s. s / sqrt (real (length xs))) (std1 xs)"

section \<open>scipy's t distribution\<close>

text \<open>
  \<open>stats.t.ppf(q, df, loc, scale)\<close> as \<open>rv_continuous.ppf\<close> computes it:
  NaN unless \<open>df > 0\<close>, \<open>scale > 0\<close> and \<open>loc\<close> is a number; the lower and
  upper ends of the support (\<open>-inf\<close>, \<open>inf\<close>) at \<open>q = 0\<close> and \<open>q = 1\<close>;
  NaN outside [0, 1]; otherwise \<open>qt df q * scale + loc\<close>.
\<close>

definition t_ppf ::
  "(real \<Rightarrow> real \<Rightarrow> real) \<Rightarrow> real \<Rightarrow> real \<Rightarrow> real option \<Rightarrow> real option \<Rightarrow> pyfloat" where
  "t_ppf qt q df loc scale =
     (case (loc, scale) of
        (Some l, Some sc) \<Rightarrow>
          if \<not> (0 < df \<and> 0 < sc) then FNaN
          else if 0 < q \<and> q < 1 then Fin (qt df q * sc + l)
          else if q = 0 then NegInf
          else if q = 1 then PosInf
          else FNaN
      | _ \<Rightarrow> FNaN)"

text \<open>
  \<open>stats.t.interval(confidence, df, loc, scale)\<close>: \<open>ValueError\<close> for a
  confidence outside [0, 1], else the quantiles at \<open>(1 - confidence) / 2\<close>
  and \<open>(1 + confidence) / 2\<close>.
\<close>

definition t_interval ::
  "(real \<Rightarrow> real \<Rightarrow> real) \<Rightarrow> real \<Rightarrow> real \<Rightarrow> real option \<Rightarrow> real option \<Rightarrow>
   py_error + pyfloat \<times> pyfloat" where
  "t_interval qt confidence df loc scale =
     (if 1 < confidence \<or> confidence < 0 then Inl ConfidenceRange
      else Inr (t_ppf qt ((1 - confidence) / 2) df loc scale,
                t_ppf qt ((1 + confidence) / 2) df loc scale))"

section \<open>interval\<close>

definition interval ::
  "(real \<Rightarrow> real \<Rightarrow> real) \<Rightarrow> real list \<Rightarrow> real \<Rightarrow>
   py_error + real option \<times> (pyfloat \<times> pyfloat)" where
  "interval qt data alpha =
     (let m = mean data in
      case t_interval qt alpha (real_of_int (int (length data) - 1)) m (sem data) of
        Inl e \<Rightarrow> Inl e
      | Inr iv \<Rightarrow> Inr (m, iv))"

text \<open>
  A stand-in quantile function for the witnesses: symmetric about \<open>1/2\<close>
  and strictly increasing, as every t quantile is.
\<close>

definition toy_qt :: "real \<Rightarrow> real \<Rightarrow> real" where
  "toy_qt df q = 2 * q - 1"

section \<open>Lemmas\<close>

lemma mean_Cons_ne: "xs \<noteq> [] \<Longrightarrow> mean xs = Some (sum_list xs / real (length xs))"
  by (simp add: mean_def)

lemma std1_short: "length xs < 2 \<Longrightarrow> std1 xs = None"
  by (cases "xs = []") (auto simp: std1_def mean_def)

lemma sem_short: "length xs < 2 \<Longrightarrow> sem xs = None"
  by (simp add: sem_def std1_short)

lemma sem_eq:
  assumes "2 \<le> length xs"
  shows "sem xs = Some (sqrt (sum_list (map (\<lambda>x. (x - sum_list xs / real (length xs))\<^sup>2) xs)
                              / real (length xs - 1)) / sqrt (real (length xs)))"
  using assms by (auto simp: sem_def std1_def mean_def)

lemma sum_sq_dev_zero_iff:
  fixes m :: real
  shows "sum_list (map (\<lambda>x. (x - m)\<^sup>2) xs) = 0 \<longleftrightarrow> (\<forall>x\<in>set xs. x = m)"
proof -
  have "sum_list (map (\<lambda>x. (x - m)\<^sup>2) xs) = 0 \<longleftrightarrow> (\<forall>y\<in>set (map (\<lambda>x. (x - m)\<^sup>2) xs). y = 0)"
    by (rule sum_list_nonneg_eq_0_iff) auto
  then show ?thesis by auto
qed

lemma all_eq_mean:
  assumes "xs \<noteq> []"
  shows "(\<forall>x\<in>set xs. x = sum_list xs / real (length xs)) \<longleftrightarrow> (\<forall>x\<in>set xs. \<forall>y\<in>set xs. x = y)"
proof
  assume "\<forall>x\<in>set xs. x = sum_list xs / real (length xs)"
  then show "\<forall>x\<in>set xs. \<forall>y\<in>set xs. x = y" by metis
next
  assume all: "\<forall>x\<in>set xs. \<forall>y\<in>set xs. x = y"
  from assms obtain c where c: "c \<in> set xs" by (cases xs) auto
  with all have "xs = replicate (length xs) c"
    by (simp add: replicate_length_same)
  then have "sum_list xs = real (length xs) * c"
    by (metis sum_list_replicate of_nat_mult mult.commute)
  with assms c all show "\<forall>x\<in>set xs. x = sum_list xs / real (length xs)" by simp
qed

lemma sem_nonneg: "sem xs = Some se \<Longrightarrow> 0 \<le> se"
  by (auto simp: sem_def std1_def split: option.splits if_splits intro!: divide_nonneg_nonneg sum_list_nonneg)

lemma sem_pos_iff:
  assumes "sem xs = Some se"
  shows "0 < se \<longleftrightarrow> (\<exists>x\<in>set xs. \<exists>y\<in>set xs. x \<noteq> y)"
proof -
  let ?m = "sum_list xs / real (length xs)"
  let ?ss = "sum_list (map (\<lambda>x. (x - ?m)\<^sup>2) xs)"
  have len: "2 \<le> length xs"
    using assms by (metis not_less option.distinct(1) sem_short)
  then have ne: "xs \<noteq> []" by auto
  have se: "se = sqrt (?ss / real (length xs - 1)) / sqrt (real (length xs))"
    using sem_eq [OF len] assms by simp
  have "0 \<le> ?ss" by (rule sum_list_nonneg) auto
  moreover have "0 < real (length xs - 1)" "0 < sqrt (real (length xs))"
    using len by auto
  ultimately have "0 < se \<longleftrightarrow> ?ss \<noteq> 0"
    by (auto simp: se divide_pos_pos)
  also have "\<dots> \<longleftrightarrow> \<not> (\<forall>x\<in>set xs. x = ?m)"
    by (simp add: sum_sq_dev_zero_iff)
  also have "\<dots> \<longleftrightarrow> (\<exists>x\<in>set xs. \<exists>y\<in>set xs. x \<noteq> y)"
    using all_eq_mean [OF ne] by blast
  finally show ?thesis .
qed

lemma interval_eq:
  assumes "0 \<le> c" and "c \<le> 1"
  shows "interval qt xs c =
           Inr (mean xs, (t_ppf qt ((1 - c) / 2) (real_of_int (int (length xs) - 1)) (mean xs) (sem xs),
                          t_ppf qt ((1 + c) / 2) (real_of_int (int (length xs) - 1)) (mean xs) (sem xs)))"
  using assms by (simp add: interval_def t_interval_def Let_def)

lemma df_eq: "1 \<le> length xs \<Longrightarrow> real_of_int (int (length xs) - 1) = real (length xs - 1)"
  by (simp add: of_nat_diff)

lemma sem_pos_exists:
  assumes "2 \<le> length xs" and "\<exists>x\<in>set xs. \<exists>y\<in>set xs. x \<noteq> y"
  shows "\<exists>se. sem xs = Some se \<and> 0 < se"
  using sem_eq [OF assms(1)] sem_pos_iff assms(2) by blast

lemma interval_at:
  assumes len: "2 \<le> length xs" and se: "sem xs = Some se" and c: "0 \<le> c" "c \<le> 1"
  shows "interval qt xs c =
           Inr (Some (sum_list xs / real (length xs)),
                (t_ppf qt ((1 - c) / 2) (real (length xs - 1)) (Some (sum_list xs / real (length xs))) (Some se),
                 t_ppf qt ((1 + c) / 2) (real (length xs - 1)) (Some (sum_list xs / real (length xs))) (Some se)))"
proof -
  have "xs \<noteq> []" using len by auto
  then have "mean xs = Some (sum_list xs / real (length xs))" by (simp add: mean_def)
  with se len interval_eq [OF c, of qt xs] show ?thesis by (simp add: df_eq)
qed

lemma interval_fin:
  assumes "2 \<le> length xs" and "sem xs = Some se" and "0 < se" and "0 \<le> c" and "c < 1"
  shows "interval qt xs c =
           Inr (Some (sum_list xs / real (length xs)),
                (Fin (qt (real (length xs - 1)) ((1 - c) / 2) * se + sum_list xs / real (length xs)),
                 Fin (qt (real (length xs - 1)) ((1 + c) / 2) * se + sum_list xs / real (length xs))))"
proof -
  have c1: "c \<le> 1" using assms(5) by simp
  have "0 < real (length xs - 1)" using assms(1) by simp
  with interval_at [OF assms(1,2,4) c1, of qt] assms(3-5) show ?thesis by (simp add: t_ppf_def)
qed

lemma half_in_unit:
  fixes c :: real
  assumes "0 \<le> c" and "c < 1"
  shows "(1 - c) / 2 \<in> {0<..<1}" and "(1 + c) / 2 \<in> {0<..<1}"
  using assms by auto

lemma toy_qt_mono: "strict_mono_on {0<..<1} (toy_qt df)"
  by (rule strict_mono_onI) (simp add: toy_qt_def)

lemma sem_1_3: "sem [1, 3] = Some 1"
  by (simp add: sem_def std1_def mean_def)

text \<open>The interval depends only on the multiset of the sample.\<close>

lemma sum_list_map_mset:
  "mset xs = mset ys \<Longrightarrow> sum_list (map f xs) = (sum_list (map f ys) :: real)"
  by (metis mset_map sum_mset_sum_list)

lemma sem_mset: "mset xs = mset ys \<Longrightarrow> sem xs = sem ys"
  by (simp add: sem_def std1_def mean_mset [of xs ys] mset_eq_length [of xs ys]
                sum_list_map_mset [of xs ys] split: option.splits)

lemma interval_mset: "mset xs = mset ys \<Longrightarrow> interval qt xs c = interval qt ys c"
  by (simp add: interval_def mean_mset [of xs ys] sem_mset [of xs ys] mset_eq_length [of xs ys])

text \<open>A constant sample: standard error 0 or undefined, so both bounds are NaN.\<close>

lemma sem_constant:
  assumes "\<forall>x\<in>set xs. x = a" and "sem xs = Some se"
  shows "se = 0"
proof -
  have "\<not> (\<exists>x\<in>set xs. \<exists>y\<in>set xs. x \<noteq> y)" using assms(1) by metis
  then have "\<not> 0 < se" using sem_pos_iff [OF assms(2)] by blast
  with sem_nonneg [OF assms(2)] show ?thesis by simp
qed

lemma interval_constant:
  assumes "\<forall>x\<in>set xs. x = a" and "0 \<le> c" and "c \<le> 1"
  shows "interval qt xs c = Inr (mean xs, (FNaN, FNaN))"
  using interval_eq [OF assms(2,3), of qt xs] sem_constant [OF assms(1)]
  by (cases "sem xs") (auto simp: t_ppf_def split: option.splits)

lemma interval_Inr_range: "interval qt xs c = Inr r \<Longrightarrow> 0 \<le> c \<and> c \<le> 1"
  by (auto simp: interval_def t_interval_def Let_def split: if_splits)

lemma mean_constant:
  assumes "\<forall>x\<in>set xs. x = a"
  shows "mean xs \<in> {None, Some a}"
proof (cases "xs = []")
  case True
  then show ?thesis by simp
next
  case False
  from assms have "xs = replicate (length xs) a" by (simp add: replicate_length_same)
  moreover from False have "mean (replicate (length xs) a) = Some a" by (simp add: mean_replicate)
  ultimately show ?thesis by simp
qed

subsection \<open>Boundary and degenerate cases\<close>

text \<open>
  Confidence 0 gives the degenerate interval at the mean, provided the
  sample has at least two distinct values (and \<open>qt df (1/2) = 0\<close>).
\<close>

lemma interval_zero_confidence:
  assumes "2 \<le> length xs" and "\<exists>x\<in>set xs. \<exists>y\<in>set xs. x \<noteq> y"
    and "qt (real (length xs - 1)) (1 / 2) = 0"
  shows "interval qt xs 0 =
           Inr (Some (sum_list xs / real (length xs)),
                (Fin (sum_list xs / real (length xs)), Fin (sum_list xs / real (length xs))))"
proof -
  obtain se where se: "sem xs = Some se" "0 < se"
    using sem_pos_exists [OF assms(1,2)] by blast
  note i = interval_at [OF assms(1) se(1) order_refl zero_le_one, of qt]
  have "0 < real (length xs - 1)" using assms(1) by simp
  with se i assms(3) show ?thesis by (simp add: t_ppf_def)
qed

text \<open>
  A constant sample of two or more values has standard error 0, and scipy
  refuses \<open>scale = 0\<close>: both bounds are NaN for every confidence level, not
  the zero-width interval at the mean that the spec promises.
\<close>

lemma interval_constant_nan:
  assumes "2 \<le> length xs" and "\<forall>x\<in>set xs. x = a" and "0 \<le> c" and "c \<le> 1"
  shows "interval qt xs c = Inr (Some a, (FNaN, FNaN))"
proof -
  obtain se where se: "sem xs = Some se"
    using sem_eq [OF assms(1)] by blast
  have "\<not> (\<exists>x\<in>set xs. \<exists>y\<in>set xs. x \<noteq> y)" using assms(2) by metis
  then have "\<not> 0 < se" using sem_pos_iff [OF se] by blast
  with sem_nonneg [OF se] have se0: "se = 0" by simp
  have xs: "xs = replicate (length xs) a"
    using assms(2) by (simp add: replicate_length_same)
  have "0 < length xs" using assms(1) by linarith
  then have "mean (replicate (length xs) a) = Some a" by (rule mean_replicate)
  then have "mean xs = Some a" using xs by simp
  with se se0 interval_eq [OF assms(3,4), of qt xs] show ?thesis by (simp add: t_ppf_def)
qed

text \<open>
  A sample of fewer than two values raises nothing: the mean is returned
  (NaN for an empty sample) and both bounds are NaN.
\<close>

lemma interval_small_sample:
  assumes "length xs < 2" and "0 \<le> c" and "c \<le> 1"
  shows "interval qt xs c = Inr (mean xs, (FNaN, FNaN))"
  using interval_eq [OF assms(2,3), of qt xs] sem_short [OF assms(1)]
  by (simp add: t_ppf_def split: option.splits)

text \<open>
  A confidence level outside [0, 1] makes scipy raise \<open>ValueError\<close>.
\<close>

theorem interval_confidence_range:
  "c < 0 \<or> 1 < c \<Longrightarrow> interval qt xs c = Inl ConfidenceRange"
  by (auto simp: interval_def t_interval_def Let_def)

text \<open>
  Confidence 1 gives the whole real line, \<open>(-inf, inf)\<close>, for a
  non-constant sample of two or more values.
\<close>

lemma interval_full_confidence:
  assumes "2 \<le> length xs" and "\<exists>x\<in>set xs. \<exists>y\<in>set xs. x \<noteq> y"
  shows "interval qt xs 1 = Inr (Some (sum_list xs / real (length xs)), (NegInf, PosInf))"
proof -
  obtain se where se: "sem xs = Some se" "0 < se"
    using sem_pos_exists [OF assms(1,2)] by blast
  note i = interval_at [OF assms(1) se(1) zero_le_one order_refl, of qt]
  have "0 < real (length xs - 1)" using assms(1) by simp
  with se i show ?thesis by (simp add: t_ppf_def)
qed

section \<open>Claims\<close>

text \<open>
  C7. The interval of a sample of at least two values that are not all equal, for a
  confidence level \<open>c\<close> in [0, 1): the mean, and the bounds
  \<open>mean + qt df ((1 - c)/2) * sem\<close> and \<open>mean + qt df ((1 + c)/2) * sem\<close>
  with \<open>df = n - 1\<close> and a standard error \<open>sem > 0\<close>.
\<close>

theorem interval_ok:
  assumes "2 \<le> length xs" and "\<exists>x\<in>set xs. \<exists>y\<in>set xs. x \<noteq> y" and "0 \<le> c" and "c < 1"
  shows "\<exists>se>0. sem xs = Some se \<and>
           interval qt xs c =
             Inr (Some (sum_list xs / real (length xs)),
                  (Fin (qt (real (length xs - 1)) ((1 - c) / 2) * se + sum_list xs / real (length xs)),
                   Fin (qt (real (length xs - 1)) ((1 + c) / 2) * se + sum_list xs / real (length xs))))"
proof -
  obtain se where se: "sem xs = Some se" "0 < se"
    using sem_pos_exists [OF assms(1,2)] by blast
  have c1: "c \<le> 1" using assms(4) by simp
  note i = interval_at [OF assms(1) se(1) assms(3) c1, of qt]
  have "0 < real (length xs - 1)" using assms(1) by simp
  with assms(3,4) se i show ?thesis by (auto simp: t_ppf_def)
qed

theorem interval_ok_witness:
  "\<exists>se>0. sem [1, 3] = Some se \<and>
     interval toy_qt [1, 3] (1/2) =
       Inr (Some (sum_list [1, 3] / real (length [1, 3::real])),
            (Fin (toy_qt (real (length [1, 3::real] - 1)) ((1 - 1/2) / 2) * se
                  + sum_list [1, 3] / real (length [1, 3::real])),
             Fin (toy_qt (real (length [1, 3::real] - 1)) ((1 + 1/2) / 2) * se
                  + sum_list [1, 3] / real (length [1, 3::real]))))"
  by (rule interval_ok) auto

text \<open>
  Refinement of the abstract contract "mean plus or minus t times the standard
  error": when the quantile function is symmetric about 1/2 (as Student's t
  is), the interval is centred on the mean with half-width
  \<open>qt df ((1 + c)/2) * sem\<close>.
\<close>

lemma interval_centered:
  assumes "2 \<le> length xs" and "\<exists>x\<in>set xs. \<exists>y\<in>set xs. x \<noteq> y" and "0 \<le> c" and "c < 1"
    and sym: "\<forall>q. qt (real (length xs - 1)) (1 - q) = - qt (real (length xs - 1)) q"
  shows "\<exists>se>0. sem xs = Some se \<and>
           interval qt xs c =
             Inr (Some (sum_list xs / real (length xs)),
                  (Fin (sum_list xs / real (length xs) - qt (real (length xs - 1)) ((1 + c) / 2) * se),
                   Fin (sum_list xs / real (length xs) + qt (real (length xs - 1)) ((1 + c) / 2) * se)))"
proof -
  obtain se where se: "sem xs = Some se" "0 < se"
    using sem_pos_exists [OF assms(1,2)] by blast
  have c1: "c \<le> 1" using assms(4) by simp
  note i = interval_at [OF assms(1) se(1) assms(3) c1, of qt]
  have "(1 - c) / 2 = 1 - (1 + c) / 2" by (simp add: field_simps)
  then have q: "qt (real (length xs - 1)) ((1 - c) / 2) = - qt (real (length xs - 1)) ((1 + c) / 2)"
    using sym by metis
  have "0 < real (length xs - 1)" using assms(1) by simp
  with assms(3,4) se i q show ?thesis by (auto simp: t_ppf_def)
qed

text \<open>
  C8. The two ends of the confidence range, for a sample of at least two
  values not all equal: confidence 0 gives the degenerate interval at the
  mean (when the quantile of 1/2 is 0), and confidence 1 gives the whole real
  line, \<open>(-inf, inf)\<close>.
\<close>

theorem interval_boundary_confidence:
  assumes "2 \<le> length xs" and "\<exists>x\<in>set xs. \<exists>y\<in>set xs. x \<noteq> y"
  shows "(qt (real (length xs - 1)) (1 / 2) = 0 \<longrightarrow>
            interval qt xs 0 =
              Inr (Some (sum_list xs / real (length xs)),
                   (Fin (sum_list xs / real (length xs)), Fin (sum_list xs / real (length xs))))) \<and>
         interval qt xs 1 = Inr (Some (sum_list xs / real (length xs)), (NegInf, PosInf))"
  using interval_zero_confidence [OF assms] interval_full_confidence [OF assms] by blast

theorem interval_boundary_confidence_witness:
  "interval toy_qt [1, 3] 0 = Inr (Some 2, (Fin 2, Fin 2)) \<and>
   interval toy_qt [1, 3] 1 = Inr (Some 2, (NegInf, PosInf))"
proof -
  have "2 \<le> length [1, 3 :: real]" and "\<exists>x\<in>set [1, 3 :: real]. \<exists>y\<in>set [1, 3 :: real]. x \<noteq> y" by auto
  note b = interval_boundary_confidence [OF this, of toy_qt]
  have "toy_qt (real (length [1, 3 :: real] - 1)) (1 / 2) = 0" by (simp add: toy_qt_def)
  with b show ?thesis by simp
qed

text \<open>
  C9. scipy's degenerate samples raise nothing and give NaN bounds, for
  every confidence level in [0, 1]: a constant sample of two or more values
  has standard error 0, which scipy refuses as a scale, so its bounds are NaN
  (not the zero-width interval at the mean that the spec promises); a sample
  of fewer than two values gets its mean (NaN when empty) and NaN bounds
  (not the \<open>StatisticsError\<close> of the spec).
\<close>

theorem interval_degenerate_nan:
  assumes "0 \<le> c" and "c \<le> 1"
  shows "(2 \<le> length xs \<and> (\<forall>x\<in>set xs. x = a) \<longrightarrow> interval qt xs c = Inr (Some a, (FNaN, FNaN))) \<and>
         (length xs < 2 \<longrightarrow> interval qt xs c = Inr (mean xs, (FNaN, FNaN)))"
  using interval_constant_nan [OF _ _ assms] interval_small_sample [OF _ assms] by blast

theorem interval_degenerate_nan_witness:
  "interval toy_qt [2, 2, 2] (95 / 100) = Inr (Some 2, (FNaN, FNaN)) \<and>
   interval toy_qt [5] (95 / 100) = Inr (Some 5, (FNaN, FNaN))"
proof -
  have "0 \<le> (95 / 100 :: real)" and "(95 / 100 :: real) \<le> 1" by simp_all
  note d = interval_degenerate_nan [OF this]
  have "interval toy_qt [2, 2, 2] (95 / 100) = Inr (Some 2, (FNaN, FNaN))"
    using d [of "[2, 2, 2]" 2 toy_qt] by simp
  moreover have "interval toy_qt [5] (95 / 100) = Inr (Some 5, (FNaN, FNaN))"
    using d [of "[5]" _ toy_qt] by (simp add: mean_def)
  ultimately show ?thesis ..
qed

text \<open>
  C13. For a monotone quantile function the interval is an interval
  (lower bound at most the upper bound) and grows with the confidence level:
  the interval at \<open>c\<close> lies inside the interval at \<open>d \<ge> c\<close>.
\<close>

theorem interval_nested:
  assumes "2 \<le> length xs" and "\<exists>x\<in>set xs. \<exists>y\<in>set xs. x \<noteq> y"
    and "0 \<le> c" and "c \<le> d" and "d < 1"
    and mono: "mono_on {0<..<1} (qt (real (length xs - 1)))"
  shows "\<exists>m a1 b1 a2 b2. interval qt xs c = Inr (m, (Fin a1, Fin b1)) \<and>
           interval qt xs d = Inr (m, (Fin a2, Fin b2)) \<and> a2 \<le> a1 \<and> a1 \<le> b1 \<and> b1 \<le> b2"
proof -
  let ?q = "qt (real (length xs - 1))"
  obtain se where se: "sem xs = Some se" "0 < se"
    using sem_pos_exists [OF assms(1,2)] by blast
  have d: "0 \<le> d" and c: "c < 1" using assms(3-5) by linarith+
  note i1 = interval_fin [OF assms(1) se assms(3) c, of qt]
  note i2 = interval_fin [OF assms(1) se d assms(5), of qt]
  note u1 = half_in_unit [OF assms(3) c] and u2 = half_in_unit [OF d assms(5)]
  have "?q ((1 - d) / 2) \<le> ?q ((1 - c) / 2)"
    using assms(4) by (intro mono_onD [OF mono u2(1) u1(1)]) simp
  moreover have "?q ((1 - c) / 2) \<le> ?q ((1 + c) / 2)"
    using assms(3) by (intro mono_onD [OF mono u1(1) u1(2)]) simp
  moreover have "?q ((1 + c) / 2) \<le> ?q ((1 + d) / 2)"
    using assms(4) by (intro mono_onD [OF mono u1(2) u2(2)]) simp
  ultimately show ?thesis
    using i1 i2 se(2) by (auto intro!: mult_right_mono)
qed

theorem interval_nested_witness:
  "\<exists>m a1 b1 a2 b2. interval toy_qt [1, 3] (1/2) = Inr (m, (Fin a1, Fin b1)) \<and>
     interval toy_qt [1, 3] (3/4) = Inr (m, (Fin a2, Fin b2)) \<and> a2 \<le> a1 \<and> a1 \<le> b1 \<and> b1 \<le> b2"
proof -
  have "mono_on {0<..<1} (toy_qt (real (length [1, 3::real] - 1)))"
    using toy_qt_mono by (rule strict_mono_on_imp_mono_on)
  then show ?thesis
    by (rule interval_nested [where xs = "[1, 3]" and c = "1/2" and d = "3/4", rotated 5]) auto
qed

text \<open>
  C14. \<open>alpha\<close> is passed to scipy as the confidence level, although the
  docstring of \<open>interval\<close> says \<open>alpha = 0.05\<close> gives a 95 percent interval: for
  a strictly increasing quantile function the interval computed at 0.05 lies
  strictly inside the one at 0.95.
\<close>

theorem interval_alpha_is_confidence:
  assumes "2 \<le> length xs" and "\<exists>x\<in>set xs. \<exists>y\<in>set xs. x \<noteq> y"
    and mono: "strict_mono_on {0<..<1} (qt (real (length xs - 1)))"
  shows "\<exists>m a b a' b'. interval qt xs (5 / 100) = Inr (m, (Fin a, Fin b)) \<and>
           interval qt xs (95 / 100) = Inr (m, (Fin a', Fin b')) \<and> a' < a \<and> b < b'"
proof -
  let ?q = "qt (real (length xs - 1))"
  obtain se where se: "sem xs = Some se" "0 < se"
    using sem_pos_exists [OF assms(1,2)] by blast
  note i1 = interval_fin [OF assms(1) se, of "5 / 100" qt]
  note i2 = interval_fin [OF assms(1) se, of "95 / 100" qt]
  have "?q ((1 - 95 / 100) / 2) < ?q ((1 - 5 / 100) / 2)"
    by (rule strict_mono_onD [OF mono]) simp_all
  moreover have "?q ((1 + 5 / 100) / 2) < ?q ((1 + 95 / 100) / 2)"
    by (rule strict_mono_onD [OF mono]) simp_all
  ultimately show ?thesis
    using i1 i2 se(2) by auto
qed

theorem interval_alpha_is_confidence_witness:
  "\<exists>m a b a' b'. interval toy_qt [1, 3] (5 / 100) = Inr (m, (Fin a, Fin b)) \<and>
     interval toy_qt [1, 3] (95 / 100) = Inr (m, (Fin a', Fin b')) \<and> a' < a \<and> b < b'"
  by (rule interval_alpha_is_confidence [where xs = "[1, 3]", OF _ _ toy_qt_mono]) auto

end
