(* ===== verification/Portfolio.thy ===== *)
theory Portfolio
  imports Datasets Categorizer Interval
begin

text \<open>
  \<open>plotAttrakdiff\<close> (lines 151--185): for every run, the pragmatic (QP)
  and hedonic (QHI + QHS) sub-frames, stacked and passed to \<open>interval\<close>;
  the table of the two means, and the interval rectangles drawn when
  \<open>alpha\<close> is not zero. \<open>portfolio_spec\<close> is the contract of the spec
  (section 4.6, flattened samples); C24 proves that the code refines it, C25
  bounds the points, and C26 is the \<open>KeyError\<close> of a schema without QHI.
\<close>

section \<open>plotAttrakdiff (lines 151--185)\<close>

text \<open>
  One dataset (lines 170--173): the hedonic sub-frame \<open>QH\<close> (the QHI and QHS
  columns), the pragmatic sub-frame \<open>QP\<close>, and the interval of each stacked
  sub-frame. The result is the pair of means and the pair of intervals.
\<close>

definition portfolio_point ::
  "(real \<Rightarrow> real \<Rightarrow> real) \<Rightarrow> real \<Rightarrow> string list odict \<Rightarrow> dataset \<Rightarrow>
   py_error + (real option \<times> real option) \<times> (pyfloat \<times> pyfloat) \<times> (pyfloat \<times> pyfloat)" where
  "portfolio_point qt alpha cat data =
     (case dict_get cat ''QHI'' of Inl e \<Rightarrow> Inl e | Inr qhi \<Rightarrow>
      case dict_get cat ''QHS'' of Inl e \<Rightarrow> Inl e | Inr qhs \<Rightarrow>
      case select data (qhi @ qhs) of Inl e \<Rightarrow> Inl e | Inr QH \<Rightarrow>
      case dict_get cat ''QP'' of Inl e \<Rightarrow> Inl e | Inr qp \<Rightarrow>
      case select data qp of Inl e \<Rightarrow> Inl e | Inr QP \<Rightarrow>
      case interval qt (stack QP) alpha of Inl e \<Rightarrow> Inl e | Inr (x, ix) \<Rightarrow>
      case interval qt (stack QH) alpha of Inl e \<Rightarrow> Inl e | Inr (y, iy) \<Rightarrow>
      Inr ((x, y), (ix, iy)))"

text \<open>
  The returned frame \<open>attr\<close> (run name \<open>\<mapsto>\<close> (QP mean, QH mean)) and the
  interval rectangles drawn when \<open>alpha\<close> is not zero (line 177), each given
  by its two intervals.
\<close>

definition plotAttrakdiff ::
  "(real \<Rightarrow> real \<Rightarrow> real) \<Rightarrow> schema \<Rightarrow> real \<Rightarrow> dataset odict \<Rightarrow>
   py_error + (real option \<times> real option) odict \<times> ((pyfloat \<times> pyfloat) \<times> (pyfloat \<times> pyfloat)) odict" where
  "plotAttrakdiff qt s alpha datas =
     (case first_dataset datas of
        Inl e \<Rightarrow> Inl e
      | Inr first \<Rightarrow>
          (let cat = cat2dict s first in
           case try_map (\<lambda>(name, data). case portfolio_point qt alpha cat data of
                                           Inl e \<Rightarrow> Inl e
                                         | Inr r \<Rightarrow> Inr (name, r)) datas of
             Inl e \<Rightarrow> Inl e
           | Inr rs \<Rightarrow>
               Inr (py_dict (map (\<lambda>r. (fst r, fst (snd r))) rs),
                    if alpha \<noteq> 0 then map (\<lambda>r. (fst r, snd (snd r))) rs else [])))"


section \<open>The interval rectangles (lines 177--179)\<close>

text \<open>
  Python's float subtraction and addition on \<open>pyfloat\<close> (IEEE 754: NaN
  absorbs, opposite infinities give NaN). Line 179 draws, for every run,
  \<open>Rectangle((ix[0], iy[0]), ix[1]-ix[0], iy[1]-iy[0])\<close>: a corner and a width
  and a height; matplotlib spans it from the corner to corner plus width.
\<close>

fun pf_sub :: "pyfloat \<Rightarrow> pyfloat \<Rightarrow> pyfloat" where
  "pf_sub FNaN _ = FNaN"
| "pf_sub _ FNaN = FNaN"
| "pf_sub (Fin a) (Fin b) = Fin (a - b)"
| "pf_sub PosInf PosInf = FNaN"
| "pf_sub NegInf NegInf = FNaN"
| "pf_sub PosInf _ = PosInf"
| "pf_sub NegInf _ = NegInf"
| "pf_sub (Fin _) PosInf = NegInf"
| "pf_sub (Fin _) NegInf = PosInf"

fun pf_add :: "pyfloat \<Rightarrow> pyfloat \<Rightarrow> pyfloat" where
  "pf_add FNaN _ = FNaN"
| "pf_add _ FNaN = FNaN"
| "pf_add (Fin a) (Fin b) = Fin (a + b)"
| "pf_add PosInf NegInf = FNaN"
| "pf_add NegInf PosInf = FNaN"
| "pf_add PosInf _ = PosInf"
| "pf_add NegInf _ = NegInf"
| "pf_add (Fin _) PosInf = PosInf"
| "pf_add (Fin _) NegInf = NegInf"

text \<open>The rectangle of one run, and the rectangles of all the runs drawn.\<close>

definition rectangle :: "pyfloat \<times> pyfloat \<Rightarrow> pyfloat \<times> pyfloat \<Rightarrow> (pyfloat \<times> pyfloat) \<times> pyfloat \<times> pyfloat" where
  "rectangle ix iy = ((fst ix, fst iy), pf_sub (snd ix) (fst ix), pf_sub (snd iy) (fst iy))"

definition attr_patches ::
  "((pyfloat \<times> pyfloat) \<times> (pyfloat \<times> pyfloat)) odict \<Rightarrow> ((pyfloat \<times> pyfloat) \<times> pyfloat \<times> pyfloat) odict" where
  "attr_patches rects = map (\<lambda>(name, (ix, iy)). (name, rectangle ix iy)) rects"

section \<open>The portfolio as the spec states it\<close>

text \<open>
  The contract of the portfolio aggregator: each axis is the flattened
  sample of all the non-NaN cells of its columns, and the estimator returns
  the mean and the t interval of that sample.
\<close>

definition axis_cells :: "dataset \<Rightarrow> string list \<Rightarrow> real list" where
  "axis_cells d ks = concat (map (\<lambda>k. dropna (the (map_of (cols d) k))) ks)"

definition estimate ::
  "(real \<Rightarrow> real \<Rightarrow> real) \<Rightarrow> real \<Rightarrow> real list \<Rightarrow> real option \<times> (pyfloat \<times> pyfloat)" where
  "estimate qt c xs =
     (let df = real_of_int (int (length xs) - 1) in
      (mean xs, (t_ppf qt ((1 - c) / 2) df (mean xs) (sem xs), t_ppf qt ((1 + c) / 2) df (mean xs) (sem xs))))"

definition portfolio_spec ::
  "(real \<Rightarrow> real \<Rightarrow> real) \<Rightarrow> real \<Rightarrow> string list \<Rightarrow> string list \<Rightarrow> dataset \<Rightarrow>
   (real option \<times> real option) \<times> (pyfloat \<times> pyfloat) \<times> (pyfloat \<times> pyfloat)" where
  "portfolio_spec qt c xks yks d =
     (let ex = estimate qt c (axis_cells d xks); ey = estimate qt c (axis_cells d yks) in
      ((fst ex, fst ey), (snd ex, snd ey)))"

section \<open>Lemmas: plotAttrakdiff\<close>

lemma axis_cells_select:
  assumes "wf_frame d" and "set ks \<subseteq> set (columns d)"
  shows "\<exists>g. select d ks = Inr g \<and> mset (stack g) = mset (axis_cells d ks) \<and> wf_frame g"
proof -
  let ?g = "d\<lparr>cols := map (\<lambda>k. (k, the (map_of (cols d) k))) ks\<rparr>"
  have sel: "select d ks = Inr ?g" using assms(2) by (rule select_ok)
  have wf: "wf_frame ?g" using wf_frame_select [OF assms(1) sel] .
  have "mset (stack ?g) = mset (axis_cells d ks)"
    using stack_mset [OF wf] by (simp add: axis_cells_def comp_def)
  with sel wf show ?thesis by blast
qed

lemma interval_axis:
  assumes "wf_frame d" and "set ks \<subseteq> set (columns d)" and "0 \<le> c" and "c \<le> 1"
    and "select d ks = Inr g"
  shows "interval qt (stack g) c = Inr (estimate qt c (axis_cells d ks))"
proof -
  from axis_cells_select [OF assms(1,2)] assms(5) have "mset (stack g) = mset (axis_cells d ks)" by auto
  then have "interval qt (stack g) c = interval qt (axis_cells d ks) c" by (rule interval_mset)
  also have "\<dots> = Inr (estimate qt c (axis_cells d ks))"
    using assms(3,4) by (simp add: interval_eq estimate_def Let_def)
  finally show ?thesis .
qed

lemma portfolio_point_ok:
  assumes "wf_frame d" and "0 \<le> c" and "c \<le> 1"
    and "map_of cat ''QP'' = Some qp" and "map_of cat ''QHI'' = Some qhi" and "map_of cat ''QHS'' = Some qhs"
    and "set (qp @ qhi @ qhs) \<subseteq> set (columns d)"
  shows "portfolio_point qt c cat d = Inr (portfolio_spec qt c qp (qhi @ qhs) d)"
proof -
  from assms(7) have qp: "set qp \<subseteq> set (columns d)" and qh: "set (qhi @ qhs) \<subseteq> set (columns d)" by auto
  from axis_cells_select [OF assms(1) qp] obtain gp where gp: "select d qp = Inr gp" by blast
  from axis_cells_select [OF assms(1) qh] obtain gh where gh: "select d (qhi @ qhs) = Inr gh" by blast
  show ?thesis
    using interval_axis [OF assms(1) qp assms(2,3) gp, of qt] interval_axis [OF assms(1) qh assms(2,3) gh, of qt]
    by (simp add: portfolio_point_def dict_get_Inr assms(4-6) gp gh portfolio_spec_def Let_def
             split: prod.splits)
qed


lemma map_of_cat2dict:
  assumes "k \<in> set (categories s)"
  shows "\<exists>ks. map_of (cat2dict s data) k = Some ks \<and> set ks \<subseteq> set (concat (map snd (cat2dict s data)))"
proof -
  from assms have "k \<in> set (map fst (cat2dict s data))"
    by (simp add: cat2dict_def keys_py_dict image_image)
  then have "map_of (cat2dict s data) k \<noteq> None"
    by (simp add: map_of_eq_None_iff)
  then obtain ks where ks: "map_of (cat2dict s data) k = Some ks" by blast
  then have "(k, ks) \<in> set (cat2dict s data)" by (rule map_of_SomeD)
  with ks show ?thesis by force
qed

lemma map_of_cat2dict_None:
  "k \<notin> set (categories s) \<Longrightarrow> map_of (cat2dict s data) k = None"
  by (simp add: map_of_eq_None_iff cat2dict_def keys_py_dict image_image)

lemma portfolio_spec_means:
  "fst (portfolio_spec qt c xks yks d) = (mean (axis_cells d xks), mean (axis_cells d yks))"
  by (simp add: portfolio_spec_def estimate_def Let_def)

lemma interval_fst: "interval qt xs c = Inr (m, iv) \<Longrightarrow> m = mean xs"
  by (auto simp: interval_def Let_def split: sum.splits)

lemma axis_cells_values:
  "set ks \<subseteq> set (columns d) \<Longrightarrow> v \<in> set (axis_cells d ks) \<Longrightarrow> Some v \<in> frame_values d"
proof -
  assume ks: "set ks \<subseteq> set (columns d)" and "v \<in> set (axis_cells d ks)"
  then obtain k where k: "k \<in> set ks" and v: "Some v \<in> set (the (map_of (cols d) k))"
    by (auto simp: axis_cells_def set_dropna)
  from k ks have "(k, the (map_of (cols d) k)) \<in> set (cols d)" by (intro map_of_in_columns) auto
  with v show ?thesis by (force simp: frame_values_def)
qed

lemma stack_mean_bounds:
  assumes "wf_frame d" and "select d ks = Inr g" and "mean (stack g) = Some v"
    and "\<forall>x. Some x \<in> frame_values d \<longrightarrow> a \<le> x \<and> x \<le> b"
  shows "a \<le> v \<and> v \<le> b"
proof -
  from select_Inr_subset [OF assms(2)] have ks: "set ks \<subseteq> set (columns d)" .
  from axis_cells_select [OF assms(1) ks] assms(2) have "mset (stack g) = mset (axis_cells d ks)" by auto
  then have "set (stack g) = set (axis_cells d ks)" by (metis set_mset_mset)
  with ks assms(4) have "\<forall>x\<in>set (stack g). a \<le> x \<and> x \<le> b"
    using axis_cells_values by blast
  from mean_bounds [OF this assms(3)] show ?thesis .
qed

lemma portfolio_point_bounds:
  assumes "portfolio_point qt c cat d = Inr ((x, y), ivs)" and "wf_frame d"
    and "\<forall>v. Some v \<in> frame_values d \<longrightarrow> a \<le> v \<and> v \<le> b"
  shows "(\<forall>v. x = Some v \<longrightarrow> a \<le> v \<and> v \<le> b) \<and> (\<forall>v. y = Some v \<longrightarrow> a \<le> v \<and> v \<le> b)"
proof -
  from assms(1) obtain ks hs gp gh ix iy where
    gp: "select d ks = Inr gp" and ip: "interval qt (stack gp) c = Inr (x, ix)" and
    gh: "select d hs = Inr gh" and ih: "interval qt (stack gh) c = Inr (y, iy)"
    by (auto simp: portfolio_point_def split: sum.splits prod.splits)
  from interval_fst [OF ip] interval_fst [OF ih] have "x = mean (stack gp)" "y = mean (stack gh)" .
  with stack_mean_bounds [OF assms(2) gp _ assms(3)] stack_mean_bounds [OF assms(2) gh _ assms(3)]
  show ?thesis by auto
qed

lemma plotAttrakdiff_point:
  assumes "plotAttrakdiff qt s c datas = Inr (attr, rects)" and "(name, p) \<in> set attr"
  shows "\<exists>d ivs. d \<in> snd ` set datas \<and> portfolio_point qt c (cat2dict s (snd (hd datas))) d = Inr (p, ivs)"
proof -
  from assms(1) obtain rs where datas: "datas \<noteq> []" and
    rs: "try_map (\<lambda>(name, data). case portfolio_point qt c (cat2dict s (snd (hd datas))) data of
              Inl e \<Rightarrow> Inl e | Inr r \<Rightarrow> Inr (name, r)) datas = Inr rs"
    and attr: "attr = py_dict (map (\<lambda>r. (fst r, fst (snd r))) rs)"
    by (cases datas) (auto simp: plotAttrakdiff_def first_dataset_def Let_def split: sum.splits)
  from assms(2) attr set_py_dict obtain r where r: "r \<in> set rs" and p: "fst (snd r) = p"
    by fastforce
  from try_map_Inr_set [OF rs r] obtain n d where
    nd: "(n, d) \<in> set datas" and pp: "portfolio_point qt c (cat2dict s (snd (hd datas))) d = Inr (snd r)"
    by (auto split: sum.splits)
  from nd pp p show ?thesis by (metis image_eqI prod.collapse snd_conv)
qed

lemma plotAttrakdiff_rect:
  assumes "plotAttrakdiff qt s c datas = Inr (attr, rects)" and "(name, ivs) \<in> set rects"
  shows "\<exists>d p. d \<in> snd ` set datas \<and> portfolio_point qt c (cat2dict s (snd (hd datas))) d = Inr (p, ivs)"
proof -
  from assms(1) obtain rs where
    rs: "try_map (\<lambda>(name, data). case portfolio_point qt c (cat2dict s (snd (hd datas))) data of
              Inl e \<Rightarrow> Inl e | Inr r \<Rightarrow> Inr (name, r)) datas = Inr rs"
    and rects: "rects = (if c \<noteq> 0 then map (\<lambda>r. (fst r, snd (snd r))) rs else [])"
    by (cases datas) (auto simp: plotAttrakdiff_def first_dataset_def Let_def split: sum.splits)
  from assms(2) rects obtain r where r: "r \<in> set rs" and p: "snd (snd r) = ivs"
    by (auto split: if_splits)
  from try_map_Inr_set [OF rs r] obtain n d where
    nd: "(n, d) \<in> set datas" and pp: "portfolio_point qt c (cat2dict s (snd (hd datas))) d = Inr (snd r)"
    by (auto split: sum.splits)
  from nd pp p show ?thesis by (metis image_eqI prod.collapse snd_conv)
qed

lemma stack_constant:
  assumes "wf_frame d" and "select d ks = Inr g" and "frame_values d \<subseteq> {None, Some a}"
  shows "\<forall>x\<in>set (stack g). x = a"
proof -
  from select_Inr_subset [OF assms(2)] have ks: "set ks \<subseteq> set (columns d)" .
  from axis_cells_select [OF assms(1) ks] assms(2) have "mset (stack g) = mset (axis_cells d ks)" by auto
  then have "set (stack g) = set (axis_cells d ks)" by (metis set_mset_mset)
  show ?thesis
  proof
    fix x assume "x \<in> set (stack g)"
    with \<open>set (stack g) = set (axis_cells d ks)\<close> have "x \<in> set (axis_cells d ks)" by simp
    from axis_cells_values [OF ks this] assms(3) show "x = a" by auto
  qed
qed

lemma portfolio_point_constant:
  assumes "portfolio_point qt c cat d = Inr ((x, y), (ix, iy))" and "wf_frame d"
    and "frame_values d \<subseteq> {None, Some a}"
  shows "x \<in> {None, Some a} \<and> y \<in> {None, Some a} \<and> ix = (FNaN, FNaN) \<and> iy = (FNaN, FNaN)"
proof -
  from assms(1) obtain ks hs gp gh where
    gp: "select d ks = Inr gp" and ip: "interval qt (stack gp) c = Inr (x, ix)" and
    gh: "select d hs = Inr gh" and ih: "interval qt (stack gh) c = Inr (y, iy)"
    by (auto simp: portfolio_point_def split: sum.splits prod.splits)
  note cp = stack_constant [OF assms(2) gp assms(3)] and ch = stack_constant [OF assms(2) gh assms(3)]
  from interval_Inr_range [OF ip] have c: "0 \<le> c" "c \<le> 1" by auto
  from ip interval_constant [OF cp c] ih interval_constant [OF ch c] mean_constant [OF cp] mean_constant [OF ch]
  show ?thesis by auto
qed

section \<open>Claims: plotAttrakdiff\<close>

text \<open>
  C24. Refinement of the portfolio contract: when the categories QP, QHI
  and QHS exist, every dataset is rectangular and has their columns, and the
  confidence level is in [0, 1], \<open>plotAttrakdiff\<close> returns for every run the
  means of the flattened QP sample and of the flattened QHI + QHS sample,
  and draws their t intervals when \<open>alpha\<close> is not zero. The code stacks
  each sub-frame row by row; the spec flattens column by column; the two
  samples are permutations of each other, so the statistics agree.
\<close>

theorem plotAttrakdiff_refines:
  assumes "datas \<noteq> []" and "distinct (map fst datas)"
    and "set [''QP'', ''QHI'', ''QHS''] \<subseteq> set (categories s)"
    and "\<forall>d\<in>set datas. wf_frame (snd d) \<and>
           set (concat (map snd (cat2dict s (snd (hd datas))))) \<subseteq> set (columns (snd d))"
    and "0 \<le> alpha" and "alpha \<le> 1"
  shows "plotAttrakdiff qt s alpha datas =
           (let cat = cat2dict s (snd (hd datas));
                P = portfolio_spec qt alpha (the (map_of cat ''QP''))
                      (the (map_of cat ''QHI'') @ the (map_of cat ''QHS'')) in
            Inr (map (\<lambda>(name, d). (name, fst (P d))) datas,
                 if alpha \<noteq> 0 then map (\<lambda>(name, d). (name, snd (P d))) datas else []))"
proof -
  let ?cat = "cat2dict s (snd (hd datas))"
  from assms(3) have "''QP'' \<in> set (categories s)" "''QHI'' \<in> set (categories s)"
    "''QHS'' \<in> set (categories s)" by simp_all
  then obtain qp qhi qhs where
    qp: "map_of ?cat ''QP'' = Some qp" "set qp \<subseteq> set (concat (map snd ?cat))" and
    qhi: "map_of ?cat ''QHI'' = Some qhi" "set qhi \<subseteq> set (concat (map snd ?cat))" and
    qhs: "map_of ?cat ''QHS'' = Some qhs" "set qhs \<subseteq> set (concat (map snd ?cat))"
    using map_of_cat2dict [of _ s "snd (hd datas)"] by meson
  let ?P = "portfolio_spec qt alpha qp (qhi @ qhs)"
  have first: "first_dataset datas = Inr (snd (hd datas))"
    using assms(1) by (rule first_dataset_hd)
  have rs: "try_map (\<lambda>(name, data). case portfolio_point qt alpha ?cat data of Inl e \<Rightarrow> Inl e
                      | Inr r \<Rightarrow> Inr (name, r)) datas = Inr (map (\<lambda>(name, d). (name, ?P d)) datas)"
  proof (rule try_map_map)
    fix x assume x: "x \<in> set datas"
    obtain name d where nd: "x = (name, d)" by fastforce
    from x assms(4) have wf: "wf_frame d" and sub: "set (concat (map snd ?cat)) \<subseteq> set (columns d)"
      unfolding nd by fastforce+
    from sub qp(2) qhi(2) qhs(2) have "set (qp @ qhi @ qhs) \<subseteq> set (columns d)" by auto
    from portfolio_point_ok [OF wf assms(5,6) qp(1) qhi(1) qhs(1) this]
    show "(\<lambda>(name, data). case portfolio_point qt alpha ?cat data of Inl e \<Rightarrow> Inl e
                      | Inr r \<Rightarrow> Inr (name, r)) x = Inr ((\<lambda>(name, d). (name, ?P d)) x)"
      by (simp add: nd)
  qed
  have "plotAttrakdiff qt s alpha datas =
          Inr (py_dict (map (\<lambda>r. (fst r, fst (snd r))) (map (\<lambda>(name, d). (name, ?P d)) datas)),
               if alpha \<noteq> 0 then map (\<lambda>r. (fst r, snd (snd r))) (map (\<lambda>(name, d). (name, ?P d)) datas)
               else [])"
    unfolding plotAttrakdiff_def first Let_def by (simp only: rs sum.case)
  also have "map (\<lambda>r. (fst r, fst (snd r))) (map (\<lambda>(name, d). (name, ?P d)) datas) =
        map (\<lambda>(name, d). (name, fst (?P d))) datas"
    by (simp add: case_prod_beta)
  also have "map (\<lambda>r. (fst r, snd (snd r))) (map (\<lambda>(name, d). (name, ?P d)) datas) =
        map (\<lambda>(name, d). (name, snd (?P d))) datas"
    by (simp add: case_prod_beta)
  also have "py_dict (map (\<lambda>(name, d). (name, fst (?P d))) datas) = map (\<lambda>(name, d). (name, fst (?P d))) datas"
    using assms(2) by (simp only: py_dict_distinct map_fst_map_pair)
  finally show ?thesis
    using qp(1) qhi(1) qhs(1) by (simp only: Let_def option.sel)
qed

theorem plotAttrakdiff_refines_witness:
  "plotAttrakdiff toy_qt usabilla 0 [(''A'', ds_A)] = Inr ([(''A'', (Some 2, Some (1/3)))], [])"
  using plotAttrakdiff_refines [of "[(''A'', ds_A)]" usabilla 0 toy_qt]
  by (simp add: usabilla_def cat2dict_def py_dict_def columns_def ds_A_def wf_frame_def
                portfolio_spec_means axis_cells_def mean_def)


text \<open>
  C25. The portfolio point of every run lies within the bounds of the cells
  of the datasets (so in the square [-3, 3] x [-3, 3] after \<open>loadCSV\<close>).
\<close>

theorem plotAttrakdiff_bounds:
  assumes "plotAttrakdiff qt s c datas = Inr (attr, rects)"
    and "\<forall>d\<in>set datas. wf_frame (snd d) \<and> (\<forall>v. Some v \<in> frame_values (snd d) \<longrightarrow> a \<le> v \<and> v \<le> b)"
    and "(name, (x, y)) \<in> set attr"
  shows "(\<forall>v. x = Some v \<longrightarrow> a \<le> v \<and> v \<le> b) \<and> (\<forall>v. y = Some v \<longrightarrow> a \<le> v \<and> v \<le> b)"
proof -
  from plotAttrakdiff_point [OF assms(1,3)] obtain d ivs where
    d: "d \<in> snd ` set datas" and pp: "portfolio_point qt c (cat2dict s (snd (hd datas))) d = Inr ((x, y), ivs)"
    by blast
  from d assms(2) have "wf_frame d" and "\<forall>v. Some v \<in> frame_values d \<longrightarrow> a \<le> v \<and> v \<le> b" by auto
  from portfolio_point_bounds [OF pp this] show ?thesis .
qed

theorem plotAttrakdiff_bounds_witness:
  "list_all (\<lambda>(name, (x, y)). (case x of None \<Rightarrow> True | Some v \<Rightarrow> -3 \<le> v \<and> v \<le> 3) \<and>
                              (case y of None \<Rightarrow> True | Some v \<Rightarrow> -3 \<le> v \<and> v \<le> 3))
     (fst (projr (plotAttrakdiff toy_qt usabilla 0 [(''A'', ds_A)])))"
proof -
  have "\<exists>attr rects. plotAttrakdiff toy_qt usabilla 0 [(''A'', ds_A)] = Inr (attr, rects)"
    by (simp add: plotAttrakdiff_def first_dataset_def cat2dict_def usabilla_def columns_def py_dict_def
                  portfolio_point_def dict_get_def select_def stack_def ds_A_def interval_def
                  t_interval_def mean_def upt_conv_Cons Let_def)
  then obtain attr rects where res: "plotAttrakdiff toy_qt usabilla 0 [(''A'', ds_A)] = Inr (attr, rects)"
    by blast
  have cells: "\<forall>d\<in>set [(''A'', ds_A)]. wf_frame (snd d) \<and>
                 (\<forall>v. Some v \<in> frame_values (snd d) \<longrightarrow> -3 \<le> v \<and> v \<le> 3)"
    by (auto simp: ds_A_def wf_frame_def frame_values_def)
  have b: "(\<forall>v. x = Some v \<longrightarrow> -3 \<le> v \<and> v \<le> 3) \<and> (\<forall>v. y = Some v \<longrightarrow> -3 \<le> v \<and> v \<le> 3)"
    if "(name, (x, y)) \<in> set attr" for name x y
    using plotAttrakdiff_bounds [OF res cells that] .
  show ?thesis
    unfolding res sum.sel fst_conv list_all_iff
    by (fastforce split: option.splits dest: b)
qed

text \<open>
  C26. Without a category named QHI, \<open>plotAttrakdiff\<close> raises
  \<open>KeyError('QHI')\<close> on the first run (\<open>cat["QHI"]\<close>, line 170).
\<close>

theorem plotAttrakdiff_no_QHI:
  assumes "datas \<noteq> []" and "''QHI'' \<notin> set (categories s)"
  shows "plotAttrakdiff qt s c datas = Inl (KeyErr [''QHI''])"
proof -
  from assms(1) obtain x xs where datas: "datas = x # xs" by (cases datas) auto
  have "portfolio_point qt c (cat2dict s (snd x)) d = Inl (KeyErr [''QHI''])" for d
    by (simp add: portfolio_point_def dict_get_def map_of_cat2dict_None [OF assms(2)])
  then show ?thesis
    by (simp add: plotAttrakdiff_def first_dataset_def datas case_prod_beta)
qed

theorem plotAttrakdiff_no_QHI_witness:
  "plotAttrakdiff toy_qt (usabilla\<lparr>categories := [''QP'', ''QH'', ''ATT'']\<rparr>) (1/2) [(''A'', ds_A)] =
     Inl (KeyErr [''QHI''])"
  by (rule plotAttrakdiff_no_QHI) simp_all

lemma pf_add_sub_Fin: "pf_add (Fin a) (pf_sub b (Fin a)) = b"
  by (cases b) simp_all

text \<open>
  The drawn rectangle gives the interval back: its corner is the pair
  of lower bounds, and corner plus width (height) is the upper bound
  whenever the lower bound is finite. At confidence 1 the interval is
  \<open>(-inf, inf)\<close>: the width is \<open>inf\<close> and the far edge \<open>-inf + inf\<close> is NaN,
  so the rectangle drawn does not give that interval back.
\<close>

lemma rectangle_roundtrip:
  assumes "(name, ((x0, y0), w, h)) \<in> set (attr_patches rects)"
  shows "\<exists>ix iy. (name, (ix, iy)) \<in> set rects \<and> x0 = fst ix \<and> y0 = fst iy \<and>
           (\<forall>a. x0 = Fin a \<longrightarrow> pf_add x0 w = snd ix) \<and> (\<forall>b. y0 = Fin b \<longrightarrow> pf_add y0 h = snd iy) \<and>
           (ix = (NegInf, PosInf) \<longrightarrow> w = PosInf \<and> pf_add x0 w = FNaN)"
proof -
  from assms obtain ix iy where r: "(name, (ix, iy)) \<in> set rects" and
    p: "((x0, y0), w, h) = rectangle ix iy"
    by (auto simp: attr_patches_def)
  obtain lx hx ly hy where ix: "ix = (lx, hx)" and iy: "iy = (ly, hy)" by fastforce
  from p have e: "x0 = lx" "y0 = ly" "w = pf_sub hx lx" "h = pf_sub hy ly"
    by (simp_all add: rectangle_def ix iy)
  have "(\<forall>a. x0 = Fin a \<longrightarrow> pf_add x0 w = hx) \<and> (\<forall>b. y0 = Fin b \<longrightarrow> pf_add y0 h = hy) \<and>
        ((lx, hx) = (NegInf, PosInf) \<longrightarrow> w = PosInf \<and> pf_add x0 w = FNaN)"
    by (auto simp: e pf_add_sub_Fin)
  with r e show ?thesis unfolding ix iy by fastforce
qed

end
