(* ===== verification/Rendering.thy ===== *)
theory Rendering
  imports Portfolio
begin

text \<open>
  The drawing done by \<open>plotAttrakdiff\<close> (lines 151--185) as a state: the
  matplotlib axes, with their limits and the artists added so far. Python
  keeps the effects made before an exception, so the loop over the runs
  returns the axes beside its result (as a JVM state keeps its heap beside
  the exception): a run that raises leaves the points of the earlier runs on
  the figure. The artists and the axes are shared with \<open>Figures\<close>, which
  draws the figures of \<open>plotWordPair\<close> and \<open>plotAverageValues\<close> on them.
  Ticks, grid, colours, the legend and the texts of titles are not
  modelled; of the label lookups only the \<open>KeyError\<close> of an unknown
  language is.
\<close>

section \<open>Axes\<close>

text \<open>
  The artists the three plotting functions add: a marker at a point and
  the rectangle of an interval (\<open>plotAttrakdiff\<close>), a line through a list
  of points (\<open>plt.plot\<close>, \<open>DataFrame.plot\<close>), a box with its corner, width
  and height (\<open>FancyBboxPatch\<close>), and a text at a position. The label of a
  marker or line is the run name; a NaN coordinate is \<open>None\<close>.
\<close>

datatype artist =
    Marker string "real option" "real option"
  | Patch string "(pyfloat \<times> pyfloat) \<times> pyfloat \<times> pyfloat"
  | Line string "(real option \<times> real option) list"
  | Box string "real \<times> real" real real
  | Text string "real \<times> real"

record axes =
  ax_xlim :: "real \<times> real"
  ax_ylim :: "real \<times> real"
  ax_artists :: "artist list"

section \<open>plotAttrakdiff with its effects\<close>

text \<open>
  Lines 175--179 for one run: the point (\<open>plt.plot(x, y, 'o')\<close>; a NaN
  coordinate is kept, matplotlib just does not show it), then the interval
  rectangle when \<open>alpha\<close> is not zero.
\<close>

definition run_artists ::
  "real \<Rightarrow> string \<Rightarrow> (real option \<times> real option) \<times> (pyfloat \<times> pyfloat) \<times> (pyfloat \<times> pyfloat) \<Rightarrow> artist list" where
  "run_artists alpha name r =
     Marker name (fst (fst r)) (snd (fst r)) #
     (if alpha \<noteq> 0 then [Patch name (rectangle (fst (snd r)) (snd (snd r)))] else [])"

text \<open>
  Lines 167--180: the loop over the runs. Each run computes its point and
  intervals (lines 169--173, which may raise), draws them, and records
  \<open>attr[name]\<close>; an exception ends the loop with the axes as they are.
\<close>

fun attr_loop ::
  "(real \<Rightarrow> real \<Rightarrow> real) \<Rightarrow> real \<Rightarrow> string list odict \<Rightarrow> dataset odict \<Rightarrow> axes \<Rightarrow>
   axes \<times> (py_error + (real option \<times> real option) odict)" where
  "attr_loop qt alpha cat [] ax = (ax, Inr [])"
| "attr_loop qt alpha cat ((name, data) # ds) ax =
     (case portfolio_point qt alpha cat data of
        Inl e \<Rightarrow> (ax, Inl e)
      | Inr r \<Rightarrow>
          (let ax' = ax\<lparr>ax_artists := ax_artists ax @ run_artists alpha name r\<rparr> in
           case attr_loop qt alpha cat ds ax' of
             (ax'', Inl e) \<Rightarrow> (ax'', Inl e)
           | (ax'', Inr rs) \<Rightarrow> (ax'', Inr ((name, fst r) # rs))))"

text \<open>
  The whole function: the limits of lines 154--155, the label lookups of
  lines 158--163 (a language without labels in \<open>naming\<close> raises there,
  before any point), the categories of the first dataset, the loop, and the
  table \<open>attr\<close> (line 185).
\<close>

definition attrakdiff_figure ::
  "(real \<Rightarrow> real \<Rightarrow> real) \<Rightarrow> schema \<Rightarrow> real \<Rightarrow> string \<Rightarrow> dataset odict \<Rightarrow> axes \<Rightarrow>
   axes \<times> (py_error + (real option \<times> real option) odict)" where
  "attrakdiff_figure qt s alpha lang datas ax =
     (let ax1 = ax\<lparr>ax_xlim := (-3, 3), ax_ylim := (-3, 3)\<rparr> in
      if lang \<notin> set (pair_langs s) then (ax1, Inl (KeyErr [lang]))
      else case first_dataset datas of
             Inl e \<Rightarrow> (ax1, Inl e)
           | Inr first \<Rightarrow>
               (case attr_loop qt alpha (cat2dict s first) datas ax1 of
                  (ax2, Inl e) \<Rightarrow> (ax2, Inl e)
                | (ax2, Inr rs) \<Rightarrow> (ax2, Inr (py_dict rs))))"

text \<open>The runs drawn before the loop stops: those whose point is computed.\<close>

definition drawn_runs :: "(real \<Rightarrow> real \<Rightarrow> real) \<Rightarrow> real \<Rightarrow> string list odict \<Rightarrow> dataset odict \<Rightarrow> dataset odict" where
  "drawn_runs qt alpha cat datas = takeWhile (\<lambda>(name, data). \<not> isl (portfolio_point qt alpha cat data)) datas"

section \<open>Lemmas\<close>

lemma attr_loop_eq:
  "attr_loop qt alpha cat datas ax =
     (ax\<lparr>ax_artists := ax_artists ax @
          concat (map (\<lambda>(name, data). run_artists alpha name (projr (portfolio_point qt alpha cat data)))
                      (drawn_runs qt alpha cat datas))\<rparr>,
      map_sum id (map (\<lambda>r. (fst r, fst (snd r))))
        (try_map (\<lambda>(name, data). case portfolio_point qt alpha cat data of
                    Inl e \<Rightarrow> Inl e | Inr r \<Rightarrow> Inr (name, r)) datas))"
proof (induction datas arbitrary: ax)
  case Nil
  then show ?case by (simp add: drawn_runs_def)
next
  case (Cons nd ds)
  obtain name data where nd: "nd = (name, data)" by fastforce
  show ?case
    by (cases "portfolio_point qt alpha cat data")
       (auto simp: nd Cons.IH drawn_runs_def split: sum.splits)
qed


lemma portfolio_point_ds_A:
  "\<exists>ivs. portfolio_point toy_qt 0 (cat2dict usabilla ds_A) ds_A = Inr ((Some 2, Some (1/3)), ivs)"
  by (simp add: portfolio_point_def cat2dict_def usabilla_def columns_def py_dict_def dict_get_def
                select_def stack_def ds_A_def interval_def t_interval_def mean_def upt_conv_Cons Let_def)

lemma portfolio_point_ds_nan:
  "isl (portfolio_point toy_qt 0 (cat2dict usabilla ds_A) ds_nan)"
  by (simp add: portfolio_point_def cat2dict_def usabilla_def columns_def py_dict_def dict_get_def
                select_def ds_A_def ds_nan_def)

section \<open>Claims\<close>

text \<open>
  C15. The drawing model refines \<open>plotAttrakdiff\<close>: for a language with
  labels, it returns what \<open>plotAttrakdiff\<close> returns (the table, or the same
  exception), sets both limits to [-3, 3], and adds to the axes the point
  (and rectangle) of every run up to the first run that raises. So an
  exception in a later run leaves the earlier runs drawn, although the spec
  says that no partial result is produced.
\<close>

theorem attrakdiff_figure_refines:
  assumes "lang \<in> set (pair_langs s)"
  shows "snd (attrakdiff_figure qt s alpha lang datas ax) = map_sum id fst (plotAttrakdiff qt s alpha datas) \<and>
         ax_xlim (fst (attrakdiff_figure qt s alpha lang datas ax)) = (-3, 3) \<and>
         ax_ylim (fst (attrakdiff_figure qt s alpha lang datas ax)) = (-3, 3) \<and>
         ax_artists (fst (attrakdiff_figure qt s alpha lang datas ax)) =
           ax_artists ax @
           concat (map (\<lambda>(name, data). run_artists alpha name
                          (projr (portfolio_point qt alpha (cat2dict s (snd (hd datas))) data)))
                   (drawn_runs qt alpha (cat2dict s (snd (hd datas))) datas))"
proof (cases datas)
  case Nil
  with assms show ?thesis
    by (simp add: attrakdiff_figure_def plotAttrakdiff_def first_dataset_def drawn_runs_def)
next
  case (Cons nd ds)
  with assms show ?thesis
    by (simp add: attrakdiff_figure_def plotAttrakdiff_def first_dataset_def attr_loop_eq Let_def
             split: sum.splits)
qed

theorem attrakdiff_figure_refines_witness:
  "ax_artists (fst (attrakdiff_figure toy_qt usabilla 0 ''en'' [(''A'', ds_A), (''B'', ds_nan)]
                    \<lparr>ax_xlim = (0, 1), ax_ylim = (0, 1), ax_artists = []\<rparr>)) =
     [Marker ''A'' (Some 2) (Some (1/3))]"
proof -
  have "''en'' \<in> set (pair_langs usabilla)" by (simp add: usabilla_def)
  note fig = conjunct2 [OF conjunct2 [OF conjunct2 [OF attrakdiff_figure_refines [OF this,
               of toy_qt 0 "[(''A'', ds_A), (''B'', ds_nan)]" "\<lparr>ax_xlim = (0, 1), ax_ylim = (0, 1), ax_artists = []\<rparr>"]]]]
  obtain ivs where a: "portfolio_point toy_qt 0 (cat2dict usabilla ds_A) ds_A = Inr ((Some 2, Some (1/3)), ivs)"
    using portfolio_point_ds_A by blast
  show ?thesis
    using fig a portfolio_point_ds_nan by (simp add: drawn_runs_def run_artists_def)
qed

end
