(* ===== verification/Figures.thy ===== *)
theory Figures
  imports Rendering WordPair AverageValues
begin

text \<open>
  The figures of \<open>plotWordPair\<close> (lines 111--148) and \<open>plotAverageValues\<close>
  (lines 98--107) on the axes state of \<open>Rendering\<close>. The two functions
  differ in when they draw: \<open>plotWordPair\<close> draws the zero line and the
  line of every run before the lookups \<open>xpos[lang]\<close> and
  \<open>pairs[col][lang]\<close> that may raise, so an exception leaves a partial
  figure; \<open>plotAverageValues\<close> draws with one call once the table is
  computed and its labels looked up, so it draws all or nothing. Proved: the
  partial figure of an unknown language (C5), the complete figure of a
  successful \<open>plotWordPair\<close> and its result (C10), and that
  \<open>plotAverageValues\<close> leaves the axes untouched on an exception and draws
  inside its [-3, 3] window otherwise (C12).
\<close>

section \<open>The figure of plotWordPair (lines 111--148)\<close>

text \<open>Lines 124--125: where the category boxes go, and how wide they are.\<close>

definition xpos :: "real odict" where
  "xpos = [(''en'', -53 / 10), (''fr'', -58 / 10), (''de'', -4)]"

definition box_length :: "real odict" where
  "box_length = [(''en'', 11), (''fr'', 113 / 10), (''de'', 8)]"

text \<open>Line 115: the zero line, from \<open>len(columns) + 0.5\<close> to \<open>0.5\<close>.\<close>

definition axis_line :: "nat \<Rightarrow> artist" where
  "axis_line n = Line '''' [(Some 0, Some (real n + 1 / 2)), (Some 0, Some (1 / 2))]"

text \<open>
  Lines 119--121: the line of a run, through its column means
  (\<open>data.mean()\<close>, over all its columns) at the rows \<open>len(val), ..., 1\<close>.
\<close>

definition run_line :: "string \<Rightarrow> dataset \<Rightarrow> artist" where
  "run_line name data =
     (let val = frame_mean data in
      Line name (zip val (map (\<lambda>i. Some (real i)) (rev [1..<Suc (length val)]))))"

text \<open>
  Lines 127--128 for one category box \<open>(cat, y, size)\<close>: the patch at
  \<open>(xpos[lang], y)\<close>, \<open>length[lang]\<close> wide and \<open>size - 1\<close> high, and the
  category name beside it.
\<close>

definition box_artists :: "real \<Rightarrow> real \<Rightarrow> string \<times> nat \<times> nat \<Rightarrow> artist list" where
  "box_artists x len b =
     (case b of (c, y, sz) \<Rightarrow>
        [Box c (x, real y) len (real sz - 1),
         Text c (x - 1 / 5, real y + real sz / 2 - 1 / 2)])"

text \<open>
  Lines 125--130: the loop over the boxes. The lookups \<open>xpos[lang]\<close> and
  \<open>length[lang]\<close> happen in the body, so an unknown language raises at the
  first box, and not at all when there is no category.
\<close>

fun box_loop :: "string \<Rightarrow> (string \<times> nat \<times> nat) list \<Rightarrow> axes \<Rightarrow> axes \<times> (py_error + unit)" where
  "box_loop lang [] ax = (ax, Inr ())"
| "box_loop lang (b # bs) ax =
     (case dict_get xpos lang of
        Inl e \<Rightarrow> (ax, Inl e)
      | Inr x \<Rightarrow>
          (case dict_get box_length lang of
             Inl e \<Rightarrow> (ax, Inl e)
           | Inr len \<Rightarrow> box_loop lang bs (ax\<lparr>ax_artists := ax_artists ax @ box_artists x len b\<rparr>)))"

text \<open>
  The whole function: the columns of the first dataset (line 114), the zero
  line (115), the table (117), the run lines (118--121), the boxes
  (123--130), the pair labels (133--134), the limits (139--143) and the
  title (146), whose \<open>plt_pair[lang]\<close> raises for a language without labels.
\<close>

definition wordpair_figure ::
  "schema \<Rightarrow> string \<Rightarrow> dataset odict \<Rightarrow> axes \<Rightarrow>
   axes \<times> (py_error + (real option odict) odict \<times> (string \<times> nat \<times> nat) list)" where
  "wordpair_figure s lang datas ax =
     (case first_dataset datas of
        Inl e \<Rightarrow> (ax, Inl e)
      | Inr first \<Rightarrow>
          (let labels = columns first;
               ax1 = ax\<lparr>ax_artists := ax_artists ax @ [axis_line (length labels)]\<rparr> in
           case try_map (\<lambda>(name, dF). case pair_means labels dF of
                                         Inl e \<Rightarrow> Inl e
                                       | Inr row \<Rightarrow> Inr (name, row)) datas of
             Inl e \<Rightarrow> (ax1, Inl e)
           | Inr dd \<Rightarrow>
               (let ax2 = ax1\<lparr>ax_artists := ax_artists ax1 @ map (\<lambda>(name, dF). run_line name dF) datas\<rparr>;
                    boxes = category_boxes 1 (take 4 (categories s)) labels in
                case box_loop lang boxes ax2 of
                  (ax3, Inl e) \<Rightarrow> (ax3, Inl e)
                | (ax3, Inr _) \<Rightarrow>
                    (case pair_labels s lang labels of
                       Inl e \<Rightarrow> (ax3, Inl e)
                     | Inr _ \<Rightarrow>
                         (let ax4 = ax3\<lparr>ax_xlim := (-3, 3),
                                        ax_ylim := (real (length labels) + 1 / 2, 1 / 2)\<rparr> in
                          if lang \<notin> set (pair_langs s) then (ax4, Inl (KeyErr [lang]))
                          else (ax4, Inr (py_dict dd, boxes)))))))"

section \<open>The figure of plotAverageValues (lines 98--107)\<close>

text \<open>
  Line 104: \<open>data.plot(ax=ax, ...)\<close> draws one line per column of the table
  (per run), through the category means at the positions \<open>0, 1, ...\<close> of
  the categories, and sets the limits of y to [-3, 3].
\<close>

definition average_lines :: "(real option odict) odict \<Rightarrow> artist list" where
  "average_lines tab =
     map (\<lambda>(name, row). Line name (zip (map (\<lambda>i. Some (real i)) [0..<length row]) (map snd row))) tab"

text \<open>
  The whole function: the table, then the plot call, whose arguments
  \<open>i18n_dim[lang]\<close> and \<open>i18n_average[lang]\<close> are looked up before it
  draws; the title \<open>plt_mean[lang]\<close> (line 106) uses the same languages.
\<close>

definition average_figure ::
  "schema \<Rightarrow> string \<Rightarrow> dataset odict \<Rightarrow> axes \<Rightarrow> axes \<times> (py_error + (real option odict) odict)" where
  "average_figure s lang datas ax =
     (case plotAverageValues s datas of
        Inl e \<Rightarrow> (ax, Inl e)
      | Inr tab \<Rightarrow>
          if lang \<notin> set (pair_langs s) then (ax, Inl (KeyErr [lang]))
          else (ax\<lparr>ax_ylim := (-3, 3), ax_artists := ax_artists ax @ average_lines tab\<rparr>, Inr tab))"

section \<open>Lemmas\<close>

lemma xpos_keys: "map_of xpos lang \<noteq> None \<longleftrightarrow> lang \<in> set box_langs"
  by (simp add: xpos_def box_langs_def)

lemma box_length_keys: "map_of box_length lang \<noteq> None \<longleftrightarrow> lang \<in> set box_langs"
  unfolding map_of_eq_None_iff by (simp add: box_length_def box_langs_def)

lemma box_loop_ok:
  assumes "lang \<in> set box_langs"
  shows "box_loop lang bs ax =
           (ax\<lparr>ax_artists := ax_artists ax @
                 concat (map (box_artists (the (map_of xpos lang)) (the (map_of box_length lang))) bs)\<rparr>, Inr ())"
proof -
  obtain x len where "map_of xpos lang = Some x" "map_of box_length lang = Some len"
    using assms xpos_keys box_length_keys by blast
  then show ?thesis
    by (induction bs arbitrary: ax) (simp_all add: dict_get_def)
qed

lemma box_loop_bad:
  "lang \<notin> set box_langs \<Longrightarrow> bs \<noteq> [] \<Longrightarrow> box_loop lang bs ax = (ax, Inl (KeyErr [lang]))"
  using xpos_keys [of lang] by (cases bs) (auto simp: dict_get_def)

lemma category_boxes_Nil_iff [simp]: "category_boxes y cats labels = [] \<longleftrightarrow> cats = []"
  by (cases cats) (simp_all add: Let_def)

text \<open>
  For a language with labels, the figure returns what \<open>plotWordPair\<close>
  returns: the same table and boxes, or the same exception.
\<close>

lemma wordpair_figure_result:
  assumes "lang \<in> set (pair_langs s)"
  shows "snd (wordpair_figure s lang datas ax) = plotWordPair s lang datas"
proof (cases "lang \<in> set box_langs")
  case True
  with assms show ?thesis
    by (simp add: wordpair_figure_def plotWordPair_def word_pair_boxes_def box_loop_ok Let_def
             split: sum.splits)
next
  case False
  with assms show ?thesis
    by (simp add: wordpair_figure_def plotWordPair_def word_pair_boxes_def box_loop_bad Let_def
             split: sum.splits)
qed


lemma average_lines_value:
  assumes "Line name pts \<in> set (average_lines tab)" and "(x, Some v) \<in> set pts"
  shows "\<exists>row c. (name, row) \<in> set tab \<and> (c, Some v) \<in> set row"
proof -
  from assms(1) obtain row where r: "(name, row) \<in> set tab"
    and pts: "pts = zip (map (\<lambda>i. Some (real i)) [0..<length row]) (map snd row)"
    by (auto simp: average_lines_def)
  from assms(2) pts have "Some v \<in> set (map snd row)" by (auto dest: set_zip_rightD)
  then obtain c where "(c, Some v) \<in> set row" by force
  with r show ?thesis by blast
qed

section \<open>Claims\<close>

text \<open>
  C5. An unknown language makes \<open>plotWordPair\<close> raise \<open>KeyError\<close> at the
  first category box (line 127), after it has drawn the zero line and the
  line of every run: the exception leaves a partial figure on the axes, and
  the limits of lines 139--143 are not set.
\<close>

theorem wordpair_figure_partial:
  assumes "datas \<noteq> []" and "\<forall>d\<in>set datas. set (columns (snd (hd datas))) \<subseteq> set (columns (snd d))"
    and "lang \<notin> set box_langs" and "categories s \<noteq> []"
  shows "wordpair_figure s lang datas ax =
           (ax\<lparr>ax_artists := ax_artists ax @ axis_line (length (columns (snd (hd datas)))) #
                              map (\<lambda>(name, dF). run_line name dF) datas\<rparr>,
            Inl (KeyErr [lang]))"
proof -
  obtain dd where dd: "try_map (\<lambda>(name, dF). case pair_means (columns (snd (hd datas))) dF of
                          Inl e \<Rightarrow> Inl e | Inr row \<Rightarrow> Inr (name, row)) datas = Inr dd"
    using pair_table_Inr [OF assms(2)] by blast
  have "category_boxes 1 (take 4 (categories s)) (columns (snd (hd datas))) \<noteq> []"
    using assms(4) by (cases "categories s") (simp_all add: Let_def)
  with assms(3) dd show ?thesis
    by (simp add: wordpair_figure_def first_dataset_hd [OF assms(1)] box_loop_bad Let_def)
qed

theorem wordpair_figure_partial_witness:
  "wordpair_figure usabilla ''it'' [(''A'', ds_A)] \<lparr>ax_xlim = (0, 1), ax_ylim = (0, 1), ax_artists = []\<rparr> =
     (\<lparr>ax_xlim = (0, 1), ax_ylim = (0, 1), ax_artists = [axis_line 4, run_line ''A'' ds_A]\<rparr>, Inl (KeyErr [''it'']))"
  using wordpair_figure_partial [of "[(''A'', ds_A)]" "''it''" usabilla]
  by (simp add: box_langs_def usabilla_def columns_def ds_A_def eval_nat_numeral)

text \<open>
  C10. When \<open>plotWordPair\<close> succeeds (for a language with labels), its
  figure is complete and in the order of the code: the zero line, the line
  of every run, then the box and the name of every category at
  \<open>xpos[lang]\<close>; the limits of x are [-3, 3] and those of y run from
  \<open>len(columns) + 0.5\<close> down to \<open>0.5\<close>; and it returns what \<open>plotWordPair\<close>
  returns.
\<close>

theorem wordpair_figure_ok:
  assumes "lang \<in> set (pair_langs s)" and "plotWordPair s lang datas = Inr (dd, boxes)"
  shows "wordpair_figure s lang datas ax =
           (ax\<lparr>ax_xlim := (-3, 3),
               ax_ylim := (real (length (columns (snd (hd datas)))) + 1 / 2, 1 / 2),
               ax_artists := ax_artists ax @ axis_line (length (columns (snd (hd datas)))) #
                             map (\<lambda>(name, dF). run_line name dF) datas @
                             concat (map (box_artists (the (map_of xpos lang)) (the (map_of box_length lang))) boxes)\<rparr>,
            Inr (dd, boxes))"
proof -
  have ne: "datas \<noteq> []"
    using assms(2) by (auto simp: plotWordPair_def first_dataset_def)
  show ?thesis
  proof (cases "lang \<in> set box_langs")
    case True
    with assms show ?thesis
      by (auto simp: wordpair_figure_def plotWordPair_def word_pair_boxes_def first_dataset_hd [OF ne]
                     box_loop_ok Let_def split: sum.splits)
  next
    case False
    with assms show ?thesis
      by (auto simp: wordpair_figure_def plotWordPair_def word_pair_boxes_def first_dataset_hd [OF ne]
                     Let_def split: sum.splits if_splits)
  qed
qed

theorem wordpair_figure_ok_witness:
  "ax_artists (fst (wordpair_figure usabilla ''en'' [(''A'', ds_A)] \<lparr>ax_xlim = (0, 1), ax_ylim = (0, 1), ax_artists = []\<rparr>)) =
     [axis_line 4, run_line ''A'' ds_A,
      Box ''QP'' (-53/10, 1) 11 0, Text ''QP'' (-11/2, 1),
      Box ''QHI'' (-53/10, 2) 11 0, Text ''QHI'' (-11/2, 2),
      Box ''QHS'' (-53/10, 3) 11 0, Text ''QHS'' (-11/2, 3),
      Box ''ATT'' (-53/10, 4) 11 0, Text ''ATT'' (-11/2, 4)]"
proof -
  have ok: "plotWordPair usabilla ''en'' [(''A'', ds_A)] =
     Inr ([(''A'', [(''QP1'', Some 2), (''QHI1'', Some 2), (''QHS1'', Some (-1/2)), (''ATT1'', Some 3)])],
          [(''QP'', 1, 1), (''QHI'', 2, 1), (''QHS'', 3, 1), (''ATT'', 4, 1)])"
    by (simp add: plotWordPair_def first_dataset_def pair_means_def dict_get_def py_dict_def
                  word_pair_boxes_def pair_labels_def box_langs_def usabilla_defs columns_def ds_A_def
                  mean_skipna_def mean_def)
  have "''en'' \<in> set (pair_langs usabilla)" by (simp add: usabilla_def)
  from wordpair_figure_ok [OF this ok, where ax = "\<lparr>ax_xlim = (0, 1), ax_ylim = (0, 1), ax_artists = []\<rparr>"]
  show ?thesis
    by (simp add: box_artists_def xpos_def box_length_def columns_def ds_A_def eval_nat_numeral)
qed

text \<open>
  C12. \<open>plotAverageValues\<close> draws all or nothing, and what it draws fits its
  window: on an exception the axes are left as they were; on success the
  limits of y are [-3, 3], the lines of the table are added, and when every cell of
  the datasets lies in [-3, 3] (as after \<open>loadCSV\<close>) every point of these
  lines lies inside the limits, so no category mean is clipped.
\<close>

theorem average_figure_window:
  assumes "\<forall>d\<in>set datas. \<forall>x. Some x \<in> frame_values (snd d) \<longrightarrow> -3 \<le> x \<and> x \<le> 3"
  shows "(case average_figure s lang datas ax of
            (ax', Inl e) \<Rightarrow> ax' = ax
          | (ax', Inr tab) \<Rightarrow>
              ax_ylim ax' = (-3, 3) \<and> ax_artists ax' = ax_artists ax @ average_lines tab \<and>
              (\<forall>name pts x v. Line name pts \<in> set (average_lines tab) \<and> (x, Some v) \<in> set pts \<longrightarrow>
                  -3 \<le> v \<and> v \<le> 3))"
proof (cases "plotAverageValues s datas")
  case (Inl e)
  then show ?thesis by (simp add: average_figure_def)
next
  case (Inr tab)
  have "-3 \<le> v \<and> v \<le> 3" if "Line name pts \<in> set (average_lines tab)" "(x, Some v) \<in> set pts"
    for name pts x v
  proof -
    from average_lines_value [OF that] obtain row c where "(name, row) \<in> set tab" "(c, Some v) \<in> set row"
      by blast
    from plotAverageValues_value_bounds [OF Inr assms this] show ?thesis .
  qed
  with Inr show ?thesis by (auto simp: average_figure_def)
qed

theorem average_figure_window_witness:
  "average_figure usabilla ''en'' [(''A'', ds_A)] \<lparr>ax_xlim = (0, 1), ax_ylim = (0, 1), ax_artists = []\<rparr> =
     (\<lparr>ax_xlim = (0, 1), ax_ylim = (-3, 3),
       ax_artists = [Line ''A'' [(Some 0, Some 2), (Some 1, Some 2), (Some 2, Some (-1/2)), (Some 3, Some 3)]]\<rparr>,
      Inr [(''A'', [(''QP'', Some 2), (''QHI'', Some 2), (''QHS'', Some (-1/2)), (''ATT'', Some 3)])]) \<and>
   -3 \<le> (-1/2 :: real)"
proof -
  have tab: "plotAverageValues usabilla [(''A'', ds_A)] =
    Inr [(''A'', [(''QP'', Some 2), (''QHI'', Some 2), (''QHS'', Some (-1/2)), (''ATT'', Some 3)])]"
    by (simp add: plotAverageValues_def first_dataset_def cat2dict_def usabilla_def columns_def
                  py_dict_def category_mean_def select_def frame_mean_def mean_skipna_def mean_def ds_A_def)
  have fig: "average_figure usabilla ''en'' [(''A'', ds_A)] \<lparr>ax_xlim = (0, 1), ax_ylim = (0, 1), ax_artists = []\<rparr> =
     (\<lparr>ax_xlim = (0, 1), ax_ylim = (-3, 3),
       ax_artists = [Line ''A'' [(Some 0, Some 2), (Some 1, Some 2), (Some 2, Some (-1/2)), (Some 3, Some 3)]]\<rparr>,
      Inr [(''A'', [(''QP'', Some 2), (''QHI'', Some 2), (''QHS'', Some (-1/2)), (''ATT'', Some 3)])])"
    unfolding average_figure_def tab by (simp add: usabilla_def average_lines_def upt_conv_Cons)
  have cells: "\<forall>d\<in>set [(''A'', ds_A)]. \<forall>x. Some x \<in> frame_values (snd d) \<longrightarrow> -3 \<le> x \<and> x \<le> 3"
    by (auto simp: frame_values_def ds_A_def)
  have "-3 \<le> (-1/2 :: real) \<and> (-1/2 :: real) \<le> 3"
    using average_figure_window [OF cells, where s = usabilla and lang = "''en''"
                                and ax = "\<lparr>ax_xlim = (0, 1), ax_ylim = (0, 1), ax_artists = []\<rparr>"]
    unfolding fig by (simp add: average_lines_def upt_conv_Cons)
  with fig show ?thesis by simp
qed


end
