(* ===== verification/Packaging.thy ===== *)
theory Packaging
  imports Prelude
begin

text \<open>
  The installation script \<open>src/setup.py\<close> and what it has to agree with: the
  imports of \<open>src/src/attrakdiff.py\<close> (lines 36--46). \<open>setup(...)\<close> is a call
  into setuptools; the model is the record of its arguments (lines 45--64),
  built once \<open>readme()\<close> (lines 39--42) has read \<open>README.md\<close> from the file
  system, which is a parameter (a map from path to contents). Lemma
  \<open>setup_requirements\<close> shows that the declared requirements miss a package
  the code imports, and that the console script has no callable.
\<close>

section \<open>The imports of attrakdiff.py (lines 36--46)\<close>

datatype import_stmt = Import string | FromImport string "string list"

definition attrakdiff_imports :: "import_stmt list" where
  "attrakdiff_imports =
     [FromImport ''typing'' [''Dict'', ''List'', ''TypeVar''],
      FromImport ''pandas'' [''read_excel'', ''DataFrame'', ''read_csv''],
      Import ''matplotlib.pyplot'',
      FromImport ''matplotlib.patches'' [''Rectangle'', ''FancyBboxPatch''],
      FromImport ''scipy'' [''stats''],
      FromImport ''math'' [''sqrt''],
      FromImport ''io'' [''BytesIO''],
      Import ''pandas'',
      FromImport ''naming'' [''categories'', ''titles'', ''order_long'', ''order_short'', ''pairs'',
                             ''i18n_dim'', ''i18n_average'', ''QPQH'', ''plt_mean'', ''plt_pair'', ''plt_attr'']]"

primrec import_module :: "import_stmt \<Rightarrow> string" where
  "import_module (Import m) = m"
| "import_module (FromImport m _) = m"

text \<open>The distribution that provides a module is named after its top-level package.\<close>

definition top_package :: "string \<Rightarrow> string" where
  "top_package m = takeWhile (\<lambda>c. c \<noteq> CHR ''.'') m"

text \<open>
  Modules that need no installation: those of Python's standard library
  that the code imports, and the repository's own \<open>naming\<close>.
\<close>

definition stdlib_modules :: "string list" where
  "stdlib_modules = [''typing'', ''math'', ''io'']"

definition local_modules :: "string list" where
  "local_modules = [''naming'']"

definition third_party :: "import_stmt list \<Rightarrow> string list" where
  "third_party imps =
     remdups (filter (\<lambda>p. p \<notin> set stdlib_modules \<and> p \<notin> set local_modules)
                     (map (top_package \<circ> import_module) imps))"

section \<open>setup.py\<close>

text \<open>Lines 39--42: \<open>open('README.md')\<close> and read it whole.\<close>

definition readme :: "(string \<Rightarrow> string option) \<Rightarrow> py_error + string" where
  "readme fs = (case fs ''README.md'' of None \<Rightarrow> Inl (FileNotFound ''README.md'') | Some t \<Rightarrow> Inr t)"

text \<open>
  Lines 45--64: the keyword arguments of \<open>setup\<close> (the field \<open>kwds\<close> is the
  argument named after the space-separated search words).
\<close>

record setup_args =
  pkg_name :: string
  version :: string
  description :: string
  long_description :: string
  classifiers :: "string list"
  kwds :: string
  url :: string
  author :: string
  author_email :: string
  license :: string
  install_requires :: "string list"
  entry_points :: "(string \<times> string list) list"
  include_package_data :: bool
  zip_safe :: bool

definition usat_setup :: "(string \<Rightarrow> string option) \<Rightarrow> py_error + setup_args" where
  "usat_setup fs =
     (case readme fs of
        Inl e \<Rightarrow> Inl e
      | Inr ld \<Rightarrow> Inr
          \<lparr>pkg_name = ''USAT'', version = ''0.1'',
           description = ''A simple tool that taks survey from Usabilla and plot attrakdiff plots'',
           long_description = ld,
           classifiers = [''Development Status :: 3 - Alpha'', ''License :: OSI Approved :: MIT License'',
                          ''Programming Language :: Python :: 3.9'', ''Topic :: Education'',
                          ''Intended Audience :: Science/Research''],
           kwds = ''Usabilla attrakdiff'', url = ''https://github.com/thilaire/USAT'',
           author = ''Thibault Hilaire'', author_email = ''thibault@docmatic.fr'', license = ''MIT'',
           install_requires = [''matplotlib'', ''pandas'', ''streamlit''],
           entry_points = [(''console_scripts'', [''USAT=src.USAT''])],
           include_package_data = True, zip_safe = False\<rparr>)"

section \<open>What the installation must provide\<close>

text \<open>The third-party distributions the code imports that \<open>install_requires\<close> does not name.\<close>

definition missing_requirements :: "setup_args \<Rightarrow> import_stmt list \<Rightarrow> string list" where
  "missing_requirements a imps = filter (\<lambda>d. d \<notin> set (install_requires a)) (third_party imps)"

text \<open>
  A console script is \<open>name=module:callable\<close>; pip refuses one without the
  callable ("A callable suffix is required").
\<close>

definition console_script_ok :: "string \<Rightarrow> bool" where
  "console_script_ok ep \<longleftrightarrow> CHR '':'' \<in> set (dropWhile (\<lambda>c. c \<noteq> CHR ''='') ep)"

section \<open>Claims\<close>

text \<open>
  Whatever \<open>README.md\<close> holds, \<open>setup.py\<close> declares \<open>matplotlib\<close>,
  \<open>pandas\<close> and \<open>streamlit\<close> but not \<open>scipy\<close>, which \<open>attrakdiff.py\<close> imports
  (line 40), and its only console script has no callable; without
  \<open>README.md\<close> the script raises \<open>FileNotFoundError\<close> before \<open>setup\<close> is
  called.
\<close>

lemma setup_requirements:
  "(case usat_setup fs of
      Inl e \<Rightarrow> e = FileNotFound ''README.md'' \<and> fs ''README.md'' = None
    | Inr a \<Rightarrow> third_party attrakdiff_imports = [''matplotlib'', ''scipy'', ''pandas''] \<and>
               missing_requirements a attrakdiff_imports = [''scipy''] \<and>
               list_all (\<lambda>ep. \<not> console_script_ok ep) (the (map_of (entry_points a) ''console_scripts'')))"
  by (simp add: usat_setup_def readme_def missing_requirements_def third_party_def attrakdiff_imports_def
                top_package_def stdlib_modules_def local_modules_def console_script_ok_def
           split: option.splits)

end
