(* ===== verification/Demo.thy ===== *)
theory Demo
  imports Normalizer WordPair
begin

text \<open>
  The \<open>__main__\<close> block of \<open>src/src/attrakdiff.py\<close> (lines 194--200): it loads
  \<open>../test/test.csv\<close>, draws the word-pair plot of that one dataset and shows
  the figure. The file system is a parameter that maps a path to the cells
  \<open>read_csv\<close> parses from it. Python binds the positional arguments of a
  call before running the body: a call with too few arguments raises
  \<open>TypeError\<close> at once.
\<close>

definition test_csv :: string where
  "test_csv = ''../test/test.csv''"

datatype py_arg = PyFig | PyAxes | PyDatas "dataset odict" | PyStr string

text \<open>
  Calling \<open>plotWordPair(fig, ax, datas, lang)\<close> with a list of positional
  arguments: any other number of arguments is a \<open>TypeError\<close> (the four
  arguments have no default value).
\<close>

definition call_plotWordPair :: "schema \<Rightarrow> py_arg list \<Rightarrow> py_error + unit" where
  "call_plotWordPair s args =
     (case args of
        [PyFig, PyAxes, PyDatas d, PyStr lang] \<Rightarrow>
          (case plotWordPair s lang d of Inl e \<Rightarrow> Inl e | Inr _ \<Rightarrow> Inr ())
      | _ \<Rightarrow> Inl TypeErr)"

text \<open>Lines 195--200; \<open>Inr ()\<close> means that \<open>plt.show()\<close> is reached.\<close>

definition usat_main :: "schema \<Rightarrow> (string \<Rightarrow> cell frame option) \<Rightarrow> py_error + unit" where
  "usat_main s fs =
     (case fs test_csv of
        None \<Rightarrow> Inl (FileNotFound test_csv)
      | Some tab \<Rightarrow>
          (case loadCSV s tab of
             Inl e \<Rightarrow> Inl e
           | Inr x \<Rightarrow> call_plotWordPair s [PyFig, PyAxes, PyDatas [(''toto'', x)]]))"

section \<open>Claims\<close>

text \<open>
  C11. The demonstration never shows a figure: without the test file it
  raises \<open>FileNotFoundError\<close>, on an export that does not load it raises
  the error of \<open>loadCSV\<close>, and on one that loads it raises \<open>TypeError\<close>,
  because \<open>plotWordPair\<close> is called without its \<open>lang\<close> argument.
\<close>

theorem usat_main_raises:
  "usat_main s fs =
     (case fs test_csv of
        None \<Rightarrow> Inl (FileNotFound test_csv)
      | Some tab \<Rightarrow> Inl (case loadCSV s tab of Inl e \<Rightarrow> e | Inr _ \<Rightarrow> TypeErr))"
  by (simp add: usat_main_def call_plotWordPair_def split: option.splits sum.splits)

end
