(* ===== verification/Spec2Isabelle.thy ===== *)
theory Spec2Isabelle
  imports Normalizer AverageValues WordPair Rendering Figures Packaging Demo
begin

text \<open>
  A model of USAT/PLADIF (\<open>src/src/attrakdiff.py\<close>). A survey export from
  Usabilla is loaded and normalised to the signed scale [-3, 3]
  (\<open>loadCSV\<close>). Its columns are grouped into the AttrakDiff categories
  (\<open>cat2dict\<close>). Three summary tables are then computed for plotting: the mean
  per category (\<open>plotAverageValues\<close>), the mean per word pair
  (\<open>plotWordPair\<close>), and the portfolio point with its Student-t confidence
  interval (\<open>plotAttrakdiff\<close>, through \<open>interval\<close>). Every plotting
  function takes a dictionary of loaded datasets and reads the categories
  from the first one.

  \<^bold>\<open>Theories.\<close>
  \<^item> \<open>Prelude\<close>: Python exceptions as values (\<open>py_error\<close>; a fallible step
    returns \<open>py_error + 'a\<close>), pandas frames (\<open>frame\<close>: a row count and
    labelled columns, NaN as \<open>None\<close>), dictionaries as association lists
    kept in insertion order (\<open>odict\<close>, \<open>py_dict\<close> for a comprehension),
    \<open>df[ks]\<close> (\<open>select\<close>), \<open>d[k]\<close> (\<open>dict_get\<close>), loops that stop at the first
    exception (\<open>try_map\<close>), Python's \<open>in\<close> on strings (\<open>py_in\<close>), and the
    NaN-skipping mean (\<open>mean_skipna\<close>). It also holds the shared lemmas on
    them, and the map semantics of a dict comprehension.
  \<^item> \<open>Schema\<close>: the tables imported from \<open>naming.py\<close>, which is not among the
    sources. They form a record \<open>schema\<close> that every operation takes as a
    parameter; \<open>usabilla\<close> is one instance with the 28 AttrakDiff keys,
    used by the witnesses.
  \<^item> \<open>Normalizer\<close>: \<open>loadCSV\<close> (lines 62--88), step by step:
    \<^item> \<open>truncate_at_url\<close> (69--73);
    \<^item> \<open>rename_columns\<close> (75--77);
    \<^item> \<open>normalize_frame\<close> (79--83);
    \<^item> \<open>strip_labels\<close> (85);
    \<^item> \<open>sort_labels\<close> and \<open>reindex_columns\<close> (86--87).
    It also defines two notions of the spec: the complement of a raw rating
    (\<open>reverse_cell\<close>) and the typing of a normalised table
    (\<open>canonical_frame\<close>).
  \<^item> \<open>Interval\<close>: \<open>interval\<close> (lines 49--57) over scipy's \<open>t.interval\<close>, with
    the argument checks of \<open>rv_continuous.ppf\<close> (\<open>t_ppf\<close>). The Student-t
    quantile itself is a parameter \<open>qt\<close>: no closed form exists, and every
    property uses only its monotonicity or symmetry, stated as a
    hypothesis. \<open>toy_qt\<close> is a symmetric, increasing stand-in for the
    witnesses. Results are Python floats with their infinities and NaN
    (\<open>pyfloat\<close>).
  \<^item> \<open>Categorizer\<close>: \<open>cat2dict\<close> (lines 91--95).
  \<^item> \<open>Datasets\<close>: \<open>datas[next(iter(datas))]\<close>, \<open>DataFrame.mean\<close> and
    \<open>DataFrame.stack\<close>, and the sample datasets.
  \<^item> \<open>AverageValues\<close>, \<open>WordPair\<close>, \<open>Portfolio\<close>: the three plotting
    functions (lines 98--107, 111--148, 151--185). Each returns the table it
    builds. \<open>WordPair\<close> also models the geometry that \<open>plotWordPair\<close> draws:
    points, category boxes and tick labels. \<open>Portfolio\<close> holds the
    contract of the spec (\<open>portfolio_spec\<close>) that the code refines, and
    the interval rectangles it draws (line 179), with Python's float
    subtraction on infinities and NaN (\<open>pf_sub\<close>).
  \<^item> \<open>Rendering\<close>: the figure \<open>plotAttrakdiff\<close> draws, as a state (the
    axes: limits and artists) threaded through its loop over the runs and
    returned beside the result or the exception, since Python keeps the
    effects made before an exception.
  \<^item> \<open>Figures\<close>: the figures of \<open>plotWordPair\<close> (\<open>wordpair_figure\<close>:
    the zero line, the run lines, the loop over the category boxes
    \<open>box_loop\<close> with the tables \<open>xpos\<close> and \<open>length\<close> of lines 124--125,
    the limits) and of \<open>plotAverageValues\<close> (\<open>average_figure\<close>: the lines
    of \<open>DataFrame.plot\<close>) on the same axes, each statement in the order of
    the code, so an exception leaves what was drawn before it.
  \<^item> \<open>Packaging\<close>: \<open>src/setup.py\<close> (the arguments of \<open>setup\<close>, after
    \<open>readme()\<close> reads \<open>README.md\<close> from a file system given as a parameter)
    and the imports of \<open>attrakdiff.py\<close> (lines 36--46) it must provide.
  \<^item> \<open>Demo\<close>: the \<open>__main__\<close> block of \<open>attrakdiff.py\<close> (lines
    194--200) as \<open>usat_main\<close>, with the call of \<open>plotWordPair\<close> through
    Python's binding of positional arguments (\<open>call_plotWordPair\<close>) and
    the file system as a parameter.
  \<^item> This theory: properties that span components, from the raw export to
    the plotted tables.

  \<^bold>\<open>What is proved.\<close> The claims, by component:
  \<^item> \<open>loadCSV\<close>:
    \<^item> the result of a successful load (C1);
    \<^item> schema invariance: a short and a long export of the same answers
      both load, and the short result is the long one restricted to its
      columns (C2);
    \<^item> the bound [-3, 3] for raw ratings in 1..7 (C3);
    \<^item> the two layout checks, missing \<open>URL\<close> and wrong column count
      (C4), and a text cell (C6);
    \<^item> a reversed column is the plain column of the complement 8 - x,
      not 7 - x as the spec states (C30);
    \<^item> the loaded frame is typed: canonical keys, each once, in the order
      of \<open>pairs\<close> (C31).
  \<^item> \<open>interval\<close>:
    \<^item> the interval is centred on the mean, at the t quantiles (C7);
    \<^item> the behaviour at confidence 0 and 1 (C8);
    \<^item> a constant sample or a sample of fewer than two values gives NaN
      bounds and no exception (C9);
    \<^item> nested intervals for nested levels (C13);
    \<^item> \<open>alpha\<close> is the confidence level, not the significance level (C14).
  \<^item> the figure of \<open>plotAttrakdiff\<close>: its result is that of
    \<open>plotAttrakdiff\<close>, its limits are [-3, 3], and it holds the points of
    all runs up to the first that raises, so a failure leaves a partial
    figure (C15).
  \<^item> \<open>plotAverageValues\<close>:
    \<^item> success and the order of the table (C16);
    \<^item> without NaN, the mean of column means equals the flattened mean
      (C17);
    \<^item> bounds (C18) and missing columns (C19);
    \<^item> its figure is drawn all or nothing, inside its [-3, 3] window when
      the cells are in [-3, 3] (C12).
  \<^item> \<open>plotWordPair\<close>:
    \<^item> its result (C20);
    \<^item> the boxes tile the rows (C21);
    \<^item> the labels are aligned with the points (C22);
    \<^item> the boxes are laid out from the top while the points are drawn
      from the bottom, so the \<open>k\<close>-th column of a category is drawn at the
      mirror of the row its box gives it (C23);
    \<^item> its figure: an unknown language leaves the zero line and the run
      lines drawn, without boxes or limits (C5); a success draws the zero
      line, the run lines and the boxes in that order, sets the limits, and
      returns what \<open>plotWordPair\<close> returns (C10).
  \<^item> \<open>plotAttrakdiff\<close>: refinement of the spec's flattened-sample portfolio
    (C24), bounds (C25), and a schema without QHI (C26).
  \<^item> the \<open>__main__\<close> block never reaches \<open>plt.show()\<close>: it calls
    \<open>plotWordPair\<close> without its \<open>lang\<close> argument, so a loaded export
    raises \<open>TypeError\<close> (C11).
  \<^item> End to end (this theory):
    \<^item> averages and points of loaded exports lie in [-3, 3] (C27);
    \<^item> a neutral export gives zero means and NaN intervals (C28);
    \<^item> a dataset with more columns before one with fewer raises
      \<open>KeyError\<close>, the opposite order succeeds (C29).

  Lemmas that are not claims document the rest: the rectangular-frame
  invariant of \<open>loadCSV\<close> (\<open>wf_frame_loadCSV\<close>), the symmetric form of
  the interval (\<open>interval_centered\<close>), the counts and partition of
  \<open>cat2dict\<close> (\<open>cat2dict_count\<close>, \<open>cat2dict_partition\<close>), the map
  semantics of a dict comprehension (\<open>py_dict_lookup\<close>), the rectangles
  drawn for an interval (\<open>rectangle_roundtrip\<close>, exact on the reals only),
  and the arguments of \<open>setup\<close> (\<open>setup_requirements\<close>).

  \<^bold>\<open>Arithmetic.\<close> Cells are exact reals: pandas' float64 rounding is not
  modelled. NaN is \<open>None\<close>. There is no loop that may not terminate: every
  loop of the code runs over a finite list, so it is a \<open>fold\<close>, a \<open>map\<close> or
  \<open>try_map\<close>, and no fuel is needed.

  \<^bold>\<open>Not modelled.\<close>
  \<^item> The CSV text parsing of \<open>read_csv\<close>: the model starts from the parsed
    cells (number, NaN or text).
  \<^item> The matplotlib calls other than the lines, markers, rectangles, boxes,
    category names and limits of the axes state: titles, ticks and their
    labels, the twin axes of \<open>plotWordPair\<close>, grid, colours, legends, and
    the text of \<open>naming\<close>'s labels. Their lookups \<open>d[lang]\<close> are modelled
    as the \<open>KeyError\<close> of a language outside \<open>pair_langs\<close>, taken to be
    the languages of all of \<open>naming\<close>'s tables.
  \<^item> A confidence level out of [0, 1] is modelled (scipy's
    \<open>ValueError\<close>, lemma \<open>interval_confidence_range\<close>) but no caller
    passes one.
  \<^item> The numerical values of the Student-t quantile (the parameter \<open>qt\<close>).
  \<^item> The commented-out \<open>loadData\<close> calls at the end of the file, and
    the window \<open>plt.show()\<close> would open.
  \<^item> What setuptools and pip do with the arguments of \<open>setup\<close>, beyond
    the console-script syntax that pip checks.
\<close>

section \<open>A neutral export\<close>


definition neutral_short :: "cell frame" where
  "neutral_short =
     \<lparr>nrows = 2,
      cols = [(''Q1'', [Num 4, Num 4]), (''Q2'', [Num 4, Num 4]), (''Q3'', [Num 4, Num 4]),
              (''Q4'', [Num 4, Num 4]), (''Q5'', [Num 4, Num 4]), (''Q6'', [Num 4, Num 4]),
              (''Q7'', [Num 4, Num 4]), (''Q8'', [Num 4, Num 4]), (''Q9'', [Num 4, Num 4]),
              (''Q10'', [Num 4, Num 4]), (''URL'', [Text ''u1'', Text ''u2''])]\<rparr>"

definition neutral_frame :: dataset where
  "neutral_frame =
     \<lparr>nrows = 2,
      cols = [(''QP2'', [Some 0, Some 0]), (''QP3'', [Some 0, Some 0]), (''QP5'', [Some 0, Some 0]),
              (''QP6'', [Some 0, Some 0]), (''QHI3'', [Some 0, Some 0]), (''QHI4'', [Some 0, Some 0]),
              (''QHS2'', [Some 0, Some 0]), (''QHS5'', [Some 0, Some 0]), (''ATT2'', [Some 0, Some 0]),
              (''ATT5'', [Some 0, Some 0])]\<rparr>"

section \<open>Lemmas\<close>

lemma neutral_load: "loadCSV usabilla neutral_short = Inr neutral_frame"
  by (simp add: loadCSV_def load_defs usabilla_defs neutral_short_def neutral_frame_def columns_def)

lemma neutral_truncate:
  "truncate_at_url neutral_short = Inr (neutral_short\<lparr>cols := take 10 (cols neutral_short)\<rparr>)"
  by (simp add: truncate_at_url_def neutral_short_def columns_def drop_columns_def)

lemma neutral_averages:
  "plotAverageValues usabilla [(''N'', neutral_frame)] =
     Inr [(''N'', [(''QP'', Some 0), (''QHI'', Some 0), (''QHS'', Some 0), (''ATT'', Some 0)])]"
  by (simp add: plotAverageValues_def first_dataset_def cat2dict_def usabilla_def columns_def
                py_dict_def category_mean_def select_def frame_mean_def mean_skipna_def mean_def neutral_frame_def)

lemma neutral_portfolio:
  "plotAttrakdiff qt usabilla (1/2) [(''N'', neutral_frame)] =
     Inr ([(''N'', (Some 0, Some 0))], [(''N'', ((FNaN, FNaN), (FNaN, FNaN)))])"
  by (simp add: plotAttrakdiff_def first_dataset_def cat2dict_def usabilla_def columns_def py_dict_def
                portfolio_point_def dict_get_def select_def stack_def neutral_frame_def interval_def
                t_interval_def mean_def upt_conv_Cons Let_def sem_def std1_def t_ppf_def)

lemma neutral_loaded:
  "\<forall>d\<in>set [(''N'', neutral_frame)]. \<exists>tab t1. wf_frame tab \<and> loadCSV usabilla tab = Inr (snd d) \<and>
      truncate_at_url tab = Inr t1 \<and> (\<forall>x. Num x \<in> frame_values t1 \<longrightarrow> x = 4)"
proof -
  have "\<forall>x. Num x \<in> frame_values (neutral_short\<lparr>cols := take 10 (cols neutral_short)\<rparr>) \<longrightarrow> x = 4"
    by (simp add: neutral_short_def frame_values_def)
  moreover have "wf_frame neutral_short" by (simp add: neutral_short_def wf_frame_def)
  ultimately show ?thesis using neutral_load neutral_truncate by auto
qed

lemma loaded_neutral_values:
  assumes "loadCSV s tab = Inr d" and "truncate_at_url tab = Inr t1"
    and "\<forall>x. Num x \<in> frame_values t1 \<longrightarrow> x = 4"
  shows "frame_values d \<subseteq> {None, Some 0}"
proof
  fix v assume v: "v \<in> frame_values d"
  show "v \<in> {None, Some 0}"
  proof (cases v)
    case (Some w)
    with v loadCSV_values [OF assms(1,2)] obtain name x
      where "Num x \<in> frame_values t1" and "w = normalize_value name x" by blast
    with assms(3) Some show ?thesis by (simp add: normalize_value_def)
  qed simp
qed

section \<open>End-to-end properties\<close>

text \<open>
  C27. End to end: for datasets loaded by \<open>loadCSV\<close> from exports whose
  ratings lie in 1..7, every category average of \<open>plotAverageValues\<close> lies in
  [-3, 3], and so does every portfolio point of \<open>plotAttrakdiff\<close>.
\<close>

theorem pipeline_bounds:
  assumes "\<forall>d\<in>set datas. \<exists>tab t1. wf_frame tab \<and> loadCSV s tab = Inr (snd d) \<and>
             truncate_at_url tab = Inr t1 \<and> (\<forall>x. Num x \<in> frame_values t1 \<longrightarrow> 1 \<le> x \<and> x \<le> 7)"
  shows "(\<forall>tab name row c v. plotAverageValues s datas = Inr tab \<and> (name, row) \<in> set tab \<and>
            (c, Some v) \<in> set row \<longrightarrow> -3 \<le> v \<and> v \<le> 3) \<and>
         (\<forall>attr rects name x y v. plotAttrakdiff qt s alpha datas = Inr (attr, rects) \<and>
            (name, (x, y)) \<in> set attr \<and> (x = Some v \<or> y = Some v) \<longrightarrow> -3 \<le> v \<and> v \<le> 3)"
proof -
  have ds: "wf_frame dF \<and> (\<forall>v. Some v \<in> frame_values dF \<longrightarrow> -3 \<le> v \<and> v \<le> 3)"
    if "dF \<in> snd ` set datas" for dF
  proof -
    from that obtain d where d: "d \<in> set datas" and dF: "dF = snd d" by blast
    from assms d obtain tab t1 where "wf_frame tab" and l: "loadCSV s tab = Inr dF"
      and t: "truncate_at_url tab = Inr t1" and r: "\<forall>x. Num x \<in> frame_values t1 \<longrightarrow> 1 \<le> x \<and> x \<le> 7"
      unfolding dF by blast
    with wf_frame_loadCSV [OF l] loadCSV_range [OF l t r] show ?thesis by blast
  qed
  have avg: "-3 \<le> v \<and> v \<le> 3"
    if "plotAverageValues s datas = Inr tab" "(name, row) \<in> set tab" "(c, Some v) \<in> set row"
    for tab name row c v
  proof -
    from plotAverageValues_value [OF that] obtain dF cc
      where dF: "dF \<in> snd ` set datas" and cm: "category_mean dF cc = Inr (Some v)" by blast
    from ds [OF dF] have "\<forall>x. Some x \<in> frame_values dF \<longrightarrow> -3 \<le> x \<and> x \<le> 3" by blast
    from category_mean_bounds [OF cm this] show ?thesis .
  qed
  have port: "-3 \<le> v \<and> v \<le> 3"
    if "plotAttrakdiff qt s alpha datas = Inr (attr, rects)" "(name, (x, y)) \<in> set attr"
       "x = Some v \<or> y = Some v" for attr rects name x y v
  proof -
    from plotAttrakdiff_point [OF that(1,2)] obtain dF ivs where
      "dF \<in> snd ` set datas" and pp: "portfolio_point qt alpha (cat2dict s (snd (hd datas))) dF = Inr ((x, y), ivs)"
      by blast
    with ds have "wf_frame dF" and "\<forall>v. Some v \<in> frame_values dF \<longrightarrow> -3 \<le> v \<and> v \<le> 3" by blast+
    from portfolio_point_bounds [OF pp this] that(3) show ?thesis by blast
  qed
  from avg port show ?thesis by blast
qed

theorem pipeline_bounds_witness:
  "list_all (\<lambda>(name, row). list_all (\<lambda>(c, v). case v of None \<Rightarrow> True | Some x \<Rightarrow> -3 \<le> x \<and> x \<le> 3) row)
     (projr (plotAverageValues usabilla [(''N'', projr (loadCSV usabilla neutral_short))])) \<and>
   list_all (\<lambda>(name, (x, y)). (case x of None \<Rightarrow> True | Some v \<Rightarrow> -3 \<le> v \<and> v \<le> 3) \<and>
                              (case y of None \<Rightarrow> True | Some v \<Rightarrow> -3 \<le> v \<and> v \<le> 3))
     (fst (projr (plotAttrakdiff toy_qt usabilla (1/2) [(''N'', projr (loadCSV usabilla neutral_short))])))"
proof -
  have "\<forall>d\<in>set [(''N'', neutral_frame)]. \<exists>tab t1. wf_frame tab \<and> loadCSV usabilla tab = Inr (snd d) \<and>
      truncate_at_url tab = Inr t1 \<and> (\<forall>x. Num x \<in> frame_values t1 \<longrightarrow> 1 \<le> x \<and> x \<le> 7)"
    using neutral_loaded by fastforce
  note pb = pipeline_bounds [OF this, of toy_qt "1/2"]
  obtain T where T: "plotAverageValues usabilla [(''N'', neutral_frame)] = Inr T"
    using neutral_averages by blast
  obtain attr rects where P: "plotAttrakdiff toy_qt usabilla (1/2) [(''N'', neutral_frame)] = Inr (attr, rects)"
    using neutral_portfolio by blast
  have a: "-3 \<le> x \<and> x \<le> 3" if "(name, row) \<in> set T" "(c, Some x) \<in> set row" for name row c x
    using conjunct1 [OF pb] T that by blast
  have p: "-3 \<le> v \<and> v \<le> 3" if "(name, (x, y)) \<in> set attr" "x = Some v \<or> y = Some v" for name x y v
    using conjunct2 [OF pb] P that by blast
  show ?thesis
    unfolding neutral_load sum.sel T P fst_conv list_all_iff
    by (fastforce split: option.splits dest: a p)
qed

text \<open>
  C28. A neutral export (every rating 4) gives category averages 0, portfolio
  means 0, and interval rectangles whose four bounds are NaN: the sample is
  constant, its standard error is 0 and scipy returns NaN, so the code draws
  no interval where the spec expects a degenerate one at the mean.
\<close>

theorem neutral_export:
  assumes "\<forall>d\<in>set datas. \<exists>tab t1. wf_frame tab \<and> loadCSV s tab = Inr (snd d) \<and>
             truncate_at_url tab = Inr t1 \<and> (\<forall>x. Num x \<in> frame_values t1 \<longrightarrow> x = 4)"
  shows "(\<forall>tab name row c v. plotAverageValues s datas = Inr tab \<and> (name, row) \<in> set tab \<and>
            (c, Some v) \<in> set row \<longrightarrow> v = 0) \<and>
         (\<forall>attr rects name x y. plotAttrakdiff qt s alpha datas = Inr (attr, rects) \<and>
            (name, (x, y)) \<in> set attr \<longrightarrow> x \<in> {None, Some 0} \<and> y \<in> {None, Some 0}) \<and>
         (\<forall>attr rects name ivs. plotAttrakdiff qt s alpha datas = Inr (attr, rects) \<and>
            (name, ivs) \<in> set rects \<longrightarrow> ivs = ((FNaN, FNaN), (FNaN, FNaN)))"
proof -
  have ds: "wf_frame dF \<and> frame_values dF \<subseteq> {None, Some 0}" if "dF \<in> snd ` set datas" for dF
  proof -
    from that obtain d where d: "d \<in> set datas" and dF: "dF = snd d" by blast
    from assms d obtain tab t1 where "wf_frame tab" and l: "loadCSV s tab = Inr dF"
      and t: "truncate_at_url tab = Inr t1" and r: "\<forall>x. Num x \<in> frame_values t1 \<longrightarrow> x = 4"
      unfolding dF by blast
    with wf_frame_loadCSV [OF l] loaded_neutral_values [OF l t r] show ?thesis by blast
  qed
  have avg: "v = 0"
    if "plotAverageValues s datas = Inr tab" "(name, row) \<in> set tab" "(c, Some v) \<in> set row"
    for tab name row c v
  proof -
    from plotAverageValues_value [OF that] obtain dF cc
      where dF: "dF \<in> snd ` set datas" and cm: "category_mean dF cc = Inr (Some v)" by blast
    from ds [OF dF] have "\<forall>x. Some x \<in> frame_values dF \<longrightarrow> 0 \<le> x \<and> x \<le> 0" by auto
    from category_mean_bounds [OF cm this] show ?thesis by simp
  qed
  have pts: "x \<in> {None, Some 0} \<and> y \<in> {None, Some 0}"
    if "plotAttrakdiff qt s alpha datas = Inr (attr, rects)" "(name, (x, y)) \<in> set attr"
    for attr rects name x y
  proof -
    from plotAttrakdiff_point [OF that] obtain dF ivs where
      "dF \<in> snd ` set datas" and pp: "portfolio_point qt alpha (cat2dict s (snd (hd datas))) dF = Inr ((x, y), ivs)"
      by blast
    with ds have "wf_frame dF" and "frame_values dF \<subseteq> {None, Some 0}" by blast+
    moreover obtain ix iy where "ivs = (ix, iy)" by (cases ivs)
    ultimately show ?thesis using portfolio_point_constant [of qt alpha _ dF x y] pp by blast
  qed
  have rts: "ivs = ((FNaN, FNaN), (FNaN, FNaN))"
    if "plotAttrakdiff qt s alpha datas = Inr (attr, rects)" "(name, ivs) \<in> set rects"
    for attr rects name ivs
  proof -
    from plotAttrakdiff_rect [OF that] obtain dF p where
      "dF \<in> snd ` set datas" and pp: "portfolio_point qt alpha (cat2dict s (snd (hd datas))) dF = Inr (p, ivs)"
      by blast
    with ds have "wf_frame dF" and "frame_values dF \<subseteq> {None, Some 0}" by blast+
    moreover obtain x y ix iy where "p = (x, y)" and iv: "ivs = (ix, iy)" by (cases p, cases ivs)
    ultimately show ?thesis using portfolio_point_constant [of qt alpha _ dF x y ix iy] pp by auto
  qed
  from avg pts rts show ?thesis by blast
qed

theorem neutral_export_witness:
  "list_all (\<lambda>(name, row). list_all (\<lambda>(c, v). case v of None \<Rightarrow> True | Some x \<Rightarrow> x = 0) row)
     (projr (plotAverageValues usabilla [(''N'', projr (loadCSV usabilla neutral_short))])) \<and>
   list_all (\<lambda>(name, ivs). ivs = ((FNaN, FNaN), (FNaN, FNaN)))
     (snd (projr (plotAttrakdiff toy_qt usabilla (1/2) [(''N'', projr (loadCSV usabilla neutral_short))])))"
proof -
  note ne = neutral_export [OF neutral_loaded, of toy_qt "1/2"]
  obtain T where T: "plotAverageValues usabilla [(''N'', neutral_frame)] = Inr T"
    using neutral_averages by blast
  obtain attr rects where P: "plotAttrakdiff toy_qt usabilla (1/2) [(''N'', neutral_frame)] = Inr (attr, rects)"
    using neutral_portfolio by blast
  have a: "x = 0" if "(name, row) \<in> set T" "(c, Some x) \<in> set row" for name row c x
    using conjunct1 [OF ne] T that by blast
  have r: "ivs = ((FNaN, FNaN), (FNaN, FNaN))" if "(name, ivs) \<in> set rects" for name ivs
    using conjunct2 [OF conjunct2 [OF ne]] P that by blast
  show ?thesis
    unfolding neutral_load sum.sel T P snd_conv list_all_iff
    by (fastforce split: option.splits dest: a r)
qed

text \<open>
  C29. The order of the datasets matters for more than the legend: the
  categories come from the first dataset. If a dataset (a short-layout
  export) has fewer columns than another (a long-layout export), putting
  the larger one first makes \<open>plotAverageValues\<close> raise \<open>KeyError\<close> on a
  column that only it has, as soon as that column belongs to a category;
  the opposite order succeeds.
\<close>

theorem layout_order:
  assumes "set (columns dS) \<subseteq> set (columns dL)" and "k \<in> set (columns dL)" and "k \<notin> set (columns dS)"
    and "c \<in> set (categories s)" and "py_in c k" and "nL \<noteq> nS"
  shows "(\<exists>ks. plotAverageValues s [(nL, dL), (nS, dS)] = Inl (KeyErr ks)) \<and>
         (\<exists>tab. plotAverageValues s [(nS, dS), (nL, dL)] = Inr tab)"
proof
  have "(c, filter (py_in c) (columns dL)) \<in> set (cat2dict s (snd (hd [(nL, dL), (nS, dS)])))"
    using cat2dict_entry [OF assms(4)] by simp
  moreover have "k \<in> set (filter (py_in c) (columns dL))" using assms(2,5) by simp
  ultimately show "\<exists>ks. plotAverageValues s [(nL, dL), (nS, dS)] = Inl (KeyErr ks)"
    using assms(3) by (intro plotAverageValues_KeyErr [where d = "(nS, dS)"]) auto
  have "\<forall>d\<in>set [(nS, dS), (nL, dL)].
          set (concat (map snd (cat2dict s (snd (hd [(nS, dS), (nL, dL)]))))) \<subseteq> set (columns (snd d))"
    using cat2dict_columns [of s dS] assms(1) by auto
  from plotAverageValues_ok [OF _ _ this] assms(6)
  show "\<exists>tab. plotAverageValues s [(nS, dS), (nL, dL)] = Inr tab" by auto
qed

theorem layout_order_witness:
  "\<exists>dL dS. loadCSV toy_schema toy_long = Inr dL \<and> loadCSV toy_schema toy_short = Inr dS \<and>
     (\<exists>ks. plotAverageValues toy_schema [(''long'', dL), (''short'', dS)] = Inl (KeyErr ks)) \<and>
     (\<exists>tab. plotAverageValues toy_schema [(''short'', dS), (''long'', dL)] = Inr tab)"
proof -
  let ?dL = "\<lparr>nrows = 1, cols = [(''K1'', [Some 2]), (''K2'', [Some 2]), (''K3'', [Some (1::real)])]\<rparr>"
  let ?dS = "\<lparr>nrows = 1, cols = [(''K1'', [Some 2]), (''K2'', [Some (2::real)])]\<rparr>"
  have "(\<exists>ks. plotAverageValues toy_schema [(''long'', ?dL), (''short'', ?dS)] = Inl (KeyErr ks)) \<and>
        (\<exists>tab. plotAverageValues toy_schema [(''short'', ?dS), (''long'', ?dL)] = Inr tab)"
    by (rule layout_order [where k = "''K3''" and c = "''K''"])
       (simp_all add: columns_def toy_schema_def)
  with toy_long_load toy_short_load show ?thesis by blast
qed

end
